theory Spec2Isabelle
  imports Main "HOL-Library.Word" "HOL-Library.Sublist"
begin

unbundle bit_operations_syntax

section \<open>Values shared by all components\<close>

text \<open>
  A JavaScript string is modelled as a \<^typ>\<open>string\<close> holding the UTF-8 bytes of the
  text, one \<^typ>\<open>char\<close> per byte. Every string the bridge measures or pads is
  hexadecimal text (ASCII), where bytes and UTF-16 code units coincide.
  Exceptions are values: a function that can throw returns \<open>error + 'a\<close>.
\<close>

type_synonym byte = "8 word"

datatype error =
    TypeError string
  | SyntaxError string
  | Error string

definition ebind :: "error + 'a \<Rightarrow> ('a \<Rightarrow> error + 'b) \<Rightarrow> error + 'b" where
  "ebind m f = (case m of Inl e \<Rightarrow> Inl e | Inr x \<Rightarrow> f x)"

subsection \<open>Hexadecimal text (Buffer, viem)\<close>

definition hex_digit :: "nat \<Rightarrow> char" where
  "hex_digit d = ''0123456789abcdef'' ! d"

definition hex_of_byte :: "byte \<Rightarrow> string" where
  "hex_of_byte b = [hex_digit (unat b div 16), hex_digit (unat b mod 16)]"

text \<open>\<open>Buffer.toString("hex")\<close>: two lower-case digits per byte, no prefix.\<close>

definition hex_of_bytes :: "byte list \<Rightarrow> string" where
  "hex_of_bytes bs = concat (map hex_of_byte bs)"

text \<open>viem \<open>toHex\<close> on a byte array.\<close>

definition toHex :: "byte list \<Rightarrow> string" where
  "toHex bs = ''0x'' @ hex_of_bytes bs"

text \<open>viem \<open>charCodeToBase16\<close>: the value of a digit in either case, or nothing.\<close>

definition charCodeToBase16 :: "char \<Rightarrow> nat option" where
  "charCodeToBase16 c =
     (let k = (of_char c :: nat)
      in if 48 \<le> k \<and> k \<le> 57 then Some (k - 48)
         else if 65 \<le> k \<and> k \<le> 70 then Some (k - 55)
         else if 97 \<le> k \<and> k \<le> 102 then Some (k - 87)
         else None)"

definition is_hex_digit :: "char \<Rightarrow> bool" where
  "is_hex_digit c = (charCodeToBase16 c \<noteq> None)"

definition digit_of :: "char \<Rightarrow> nat" where
  "digit_of c = (case charCodeToBase16 c of Some d \<Rightarrow> d | None \<Rightarrow> 0)"

fun hex_pairs :: "string \<Rightarrow> error + byte list" where
  "hex_pairs [] = Inr []"
| "hex_pairs [a] = Inl (Error ''Invalid byte sequence'')"
| "hex_pairs (a # b # cs) =
     (case (charCodeToBase16 a, charCodeToBase16 b) of
        (Some x, Some y) \<Rightarrow> ebind (hex_pairs cs) (\<lambda>bs. Inr (of_nat (x * 16 + y) # bs))
      | _ \<Rightarrow> Inl (Error ''Invalid byte sequence''))"

text \<open>
  viem \<open>hexToBytes\<close>: drops the two-character prefix, puts a \<open>0\<close> before an odd
  number of digits and reads the digits pairwise; throws at an invalid digit.
\<close>

definition hexToBytes :: "string \<Rightarrow> error + byte list" where
  "hexToBytes hex =
     (let h = drop 2 hex;
          h' = (if odd (length h) then CHR ''0'' # h else h)
      in hex_pairs h')"

text \<open>viem \<open>isHex\<close> in strict mode: the regular expression \<open>^0x[0-9a-fA-F]*$\<close>.\<close>

definition isHex :: "string \<Rightarrow> bool" where
  "isHex v = (take 2 v = ''0x'' \<and> list_all is_hex_digit (drop 2 v))"

definition byte_of_char :: "char \<Rightarrow> byte" where
  "byte_of_char c = of_nat (of_char c)"

text \<open>\<open>Buffer.from(s, "utf8")\<close> and viem \<open>stringToBytes\<close>: the UTF-8 bytes of the text.\<close>

definition stringToBytes :: "string \<Rightarrow> byte list" where
  "stringToBytes s = map byte_of_char s"

text \<open>viem \<open>toBytes\<close> on a string: hexadecimal text is decoded, any other text is encoded.\<close>

definition toBytes :: "string \<Rightarrow> error + byte list" where
  "toBytes v = (if isHex v then hexToBytes v else Inr (stringToBytes v))"

text \<open>\<open>String.prototype.padStart(n, c)\<close> with a one-character filler: never truncates.\<close>

definition padStart :: "nat \<Rightarrow> char \<Rightarrow> string \<Rightarrow> string" where
  "padStart n c s = replicate (n - length s) c @ s"

fun hex_digits_of :: "nat \<Rightarrow> string" where
  "hex_digits_of n =
     (if n < 16 then [hex_digit n] else hex_digits_of (n div 16) @ [hex_digit (n mod 16)])"

declare hex_digits_of.simps [simp del]

text \<open>\<open>toString(16)\<close> of an integral number or of a BigInt.\<close>

definition toString16 :: "int \<Rightarrow> string" where
  "toString16 n = (if n < 0 then CHR ''-'' # hex_digits_of (nat (- n)) else hex_digits_of (nat n))"

definition digits_value :: "nat \<Rightarrow> string \<Rightarrow> nat" where
  "digits_value base s = foldl (\<lambda>acc c. acc * base + digit_of c) 0 s"

text \<open>
  The white space that \<open>BigInt(s)\<close> and \<open>Number(s)\<close> drop around a literal
  (\<open>StrWhiteSpaceChar\<close>: WhiteSpace and LineTerminator), as the UTF-8 bytes of each code
  point: U+0009 to U+000D, U+0020, U+00A0, U+1680, U+2000 to U+200A, U+2028, U+2029, U+202F,
  U+205F, U+3000 and U+FEFF.
\<close>

definition js_white_space :: "string list" where
  "js_white_space =
     [[CHR 0x09], [CHR 0x0A], [CHR 0x0B], [CHR 0x0C], [CHR 0x0D], [CHR 0x20],
      [CHR 0xC2, CHR 0xA0],
      [CHR 0xE1, CHR 0x9A, CHR 0x80],
      [CHR 0xE2, CHR 0x80, CHR 0x80], [CHR 0xE2, CHR 0x80, CHR 0x81],
      [CHR 0xE2, CHR 0x80, CHR 0x82], [CHR 0xE2, CHR 0x80, CHR 0x83],
      [CHR 0xE2, CHR 0x80, CHR 0x84], [CHR 0xE2, CHR 0x80, CHR 0x85],
      [CHR 0xE2, CHR 0x80, CHR 0x86], [CHR 0xE2, CHR 0x80, CHR 0x87],
      [CHR 0xE2, CHR 0x80, CHR 0x88], [CHR 0xE2, CHR 0x80, CHR 0x89],
      [CHR 0xE2, CHR 0x80, CHR 0x8A],
      [CHR 0xE2, CHR 0x80, CHR 0xA8], [CHR 0xE2, CHR 0x80, CHR 0xA9],
      [CHR 0xE2, CHR 0x80, CHR 0xAF],
      [CHR 0xE2, CHR 0x81, CHR 0x9F],
      [CHR 0xE3, CHR 0x80, CHR 0x80],
      [CHR 0xEF, CHR 0xBB, CHR 0xBF]]"

text \<open>The number of bytes of the one of \<open>sp\<close> that \<open>s\<close> starts with, 0 when there is none.\<close>

definition white_space_width :: "string list \<Rightarrow> string \<Rightarrow> nat" where
  "white_space_width sp s = (case find (\<lambda>w. prefix w s) sp of None \<Rightarrow> 0 | Some w \<Rightarrow> length w)"

function drop_white_space :: "string list \<Rightarrow> string \<Rightarrow> string" where
  "drop_white_space sp s =
     (let n = white_space_width sp s in if n = 0 then s else drop_white_space sp (drop n s))"
  by pat_completeness auto

termination
proof (relation "measure (\<lambda>(sp, s). length s)")
  show "wf (measure (\<lambda>(sp, s). length s))" by simp
next
  fix sp :: "string list" and s :: string and n :: nat
  assume n: "n = white_space_width sp s" "n \<noteq> 0"
  have "s \<noteq> []"
  proof
    assume "s = []"
    then have "white_space_width sp s = 0"
      by (auto simp: white_space_width_def split: option.splits dest: find_Some_iff [THEN iffD1])
    then show False using n by simp
  qed
  then show "((sp, drop n s), (sp, s)) \<in> measure (\<lambda>(sp, s). length s)"
    using n(2) by simp
qed

declare drop_white_space.simps [simp del]

text \<open>White space is dropped at both ends; at the end the bytes are met in reverse.\<close>

definition js_trim :: "string \<Rightarrow> string" where
  "js_trim s =
     rev (drop_white_space (map rev js_white_space) (rev (drop_white_space js_white_space s)))"

definition digits_below :: "nat \<Rightarrow> string \<Rightarrow> bool" where
  "digits_below base s =
     (s \<noteq> [] \<and> list_all (\<lambda>c. case charCodeToBase16 c of Some d \<Rightarrow> d < base | None \<Rightarrow> False) s)"

text \<open>
  \<open>BigInt(s)\<close> on a string, as ECMAScript defines it (\<open>StringToBigInt\<close>): surrounding
  white space is dropped, the empty text is zero, \<open>0x\<close>, \<open>0o\<close> and \<open>0b\<close> introduce
  unsigned literals, anything else must be a decimal literal with an optional sign. Other
  text throws a SyntaxError. The bound an engine puts on the size of a BigInt is left out.
\<close>

definition js_BigInt :: "string \<Rightarrow> error + int" where
  "js_BigInt s =
     (let t = js_trim s; p = take 2 t; r = drop 2 t
      in if t = [] then Inr 0
         else if p = ''0x'' \<or> p = ''0X'' then
           (if digits_below 16 r then Inr (int (digits_value 16 r))
            else Inl (SyntaxError (''Cannot convert '' @ s @ '' to a BigInt'')))
         else if p = ''0o'' \<or> p = ''0O'' then
           (if digits_below 8 r then Inr (int (digits_value 8 r))
            else Inl (SyntaxError (''Cannot convert '' @ s @ '' to a BigInt'')))
         else if p = ''0b'' \<or> p = ''0B'' then
           (if digits_below 2 r then Inr (int (digits_value 2 r))
            else Inl (SyntaxError (''Cannot convert '' @ s @ '' to a BigInt'')))
         else if hd t = CHR ''-'' \<and> digits_below 10 (tl t) then Inr (- int (digits_value 10 (tl t)))
         else if hd t = CHR ''+'' \<and> digits_below 10 (tl t) then Inr (int (digits_value 10 (tl t)))
         else if digits_below 10 t then Inr (int (digits_value 10 t))
         else Inl (SyntaxError (''Cannot convert '' @ s @ '' to a BigInt'')))"

text \<open>The remainder operator \<open>%\<close> of JavaScript truncates towards zero.\<close>

definition js_rem :: "int \<Rightarrow> int \<Rightarrow> int" where
  "js_rem a b = sgn a * (\<bar>a\<bar> mod \<bar>b\<bar>)"

subsection \<open>Keccak-256 (the hash behind viem \<open>keccak256\<close>)\<close>

text \<open>
  The hash is a library function; it is written out here after the Keccak reference
  (1600-bit state of 25 lanes indexed \<open>x + 5 * y\<close>, 24 rounds, rate 136 bytes, padding
  byte \<open>0x01\<close>), so that digests of concrete inputs can be computed.
\<close>

type_synonym lane = "64 word"

definition rotl64 :: "nat \<Rightarrow> lane \<Rightarrow> lane" where
  "rotl64 n w = (push_bit n w) OR (drop_bit (64 - n) w)"

definition keccak_rc :: "lane list" where
  "keccak_rc =
    [0x0000000000000001, 0x0000000000008082, 0x800000000000808A, 0x8000000080008000,
     0x000000000000808B, 0x0000000080000001, 0x8000000080008081, 0x8000000000008009,
     0x000000000000008A, 0x0000000000000088, 0x0000000080008009, 0x000000008000000A,
     0x000000008000808B, 0x800000000000008B, 0x8000000000008089, 0x8000000000008003,
     0x8000000000008002, 0x8000000000000080, 0x000000000000800A, 0x800000008000000A,
     0x8000000080008081, 0x8000000000008080, 0x0000000080000001, 0x8000000080008008]"

definition keccak_rot :: "nat list" where
  "keccak_rot =
    [0, 1, 62, 28, 27,  36, 44, 6, 55, 20,  3, 10, 43, 25, 39,
     41, 45, 15, 21, 8,  18, 2, 61, 56, 14]"

definition theta :: "lane list \<Rightarrow> lane list" where
  "theta a =
     (let c = map (\<lambda>x. a ! x XOR a ! (x + 5) XOR a ! (x + 10) XOR a ! (x + 15) XOR a ! (x + 20)) [0..<5];
          d = map (\<lambda>x. c ! ((x + 4) mod 5) XOR rotl64 1 (c ! ((x + 1) mod 5))) [0..<5]
      in map (\<lambda>i. a ! i XOR d ! (i mod 5)) [0..<25])"

definition rho_pi :: "lane list \<Rightarrow> lane list" where
  "rho_pi a =
     map (\<lambda>i. let X = i mod 5; Y = i div 5; x = (X + 3 * Y) mod 5; y = X
               in rotl64 (keccak_rot ! (x + 5 * y)) (a ! (x + 5 * y))) [0..<25]"

definition chi :: "lane list \<Rightarrow> lane list" where
  "chi b =
     map (\<lambda>i. let x = i mod 5; y = i div 5
               in b ! i XOR (NOT (b ! ((x + 1) mod 5 + 5 * y)) AND b ! ((x + 2) mod 5 + 5 * y)))
         [0..<25]"

definition iota :: "nat \<Rightarrow> lane list \<Rightarrow> lane list" where
  "iota r a = (a ! 0 XOR keccak_rc ! r) # tl a"

definition keccak_round :: "lane list \<Rightarrow> nat \<Rightarrow> lane list" where
  "keccak_round a r = iota r (chi (rho_pi (theta a)))"

definition keccak_f :: "lane list \<Rightarrow> lane list" where
  "keccak_f a = foldl keccak_round a [0..<24]"

definition lane_of_bytes :: "byte list \<Rightarrow> lane" where
  "lane_of_bytes bs = foldr (\<lambda>b acc. push_bit 8 acc OR ucast b) bs 0"

definition bytes_of_lane :: "lane \<Rightarrow> byte list" where
  "bytes_of_lane w = map (\<lambda>i. ucast (drop_bit (8 * i) w)) [0..<8]"

fun chunks :: "nat \<Rightarrow> 'a list \<Rightarrow> 'a list list" where
  "chunks n [] = []"
| "chunks n (x # xs) =
     (if n = 0 then [x # xs] else take n (x # xs) # chunks n (drop n (x # xs)))"

definition keccak_pad :: "byte list \<Rightarrow> byte list" where
  "keccak_pad m =
     (let q = 136 - length m mod 136
      in if q = 1 then m @ [0x81] else m @ [0x01] @ replicate (q - 2) 0 @ [0x80])"

definition absorb :: "lane list \<Rightarrow> byte list \<Rightarrow> lane list" where
  "absorb st blk = keccak_f (map2 (XOR) st (map lane_of_bytes (chunks 8 blk) @ replicate 8 0))"

definition keccak_256 :: "byte list \<Rightarrow> byte list" where
  "keccak_256 m =
     take 32 (concat (map bytes_of_lane
       (foldl absorb (replicate 25 0) (chunks 136 (keccak_pad m)))))"

text \<open>viem \<open>keccak256\<close> on a byte array and on a string; the digest comes back as hex text.\<close>

definition keccak256_bytes :: "byte list \<Rightarrow> string" where
  "keccak256_bytes bs = toHex (keccak_256 bs)"

definition keccak256 :: "string \<Rightarrow> error + string" where
  "keccak256 v = ebind (toBytes v) (\<lambda>bs. Inr (toHex (keccak_256 bs)))"

section \<open>RequestIdentity (mpc/crypto.ts)\<close>

record EvmTransactionParams =
  to :: string
  functionSignature :: string
  args :: "string list"
  value_hex :: string
  nonce :: string
  gasLimit :: string
  maxFeePerGas :: string
  maxPriorityFee :: string
  chainId :: string

definition textToHex :: "string \<Rightarrow> string" where
  "textToHex s = hex_of_bytes (stringToBytes s)"

definition uint32ToHex :: "int \<Rightarrow> string" where
  "uint32ToHex n = padStart 8 CHR ''0'' (toString16 n)"

definition packParams :: "EvmTransactionParams \<Rightarrow> string" where
  "packParams p =
     (let to' = padStart 40 CHR ''0'' (to p);
          fnSig = textToHex (functionSignature p);
          args' = concat (args p);
          value' = padStart 64 CHR ''0'' (value_hex p);
          nonce' = padStart 64 CHR ''0'' (nonce p);
          gasLimit' = padStart 64 CHR ''0'' (gasLimit p);
          maxFeePerGas' = padStart 64 CHR ''0'' (maxFeePerGas p);
          maxPriorityFee' = padStart 64 CHR ''0'' (maxPriorityFee p);
          chainId' = padStart 64 CHR ''0'' (chainId p)
      in to' @ fnSig @ args' @ value' @ nonce' @ gasLimit' @ maxFeePerGas' @ maxPriorityFee' @ chainId')"

definition computeRequestId ::
  "string \<Rightarrow> EvmTransactionParams \<Rightarrow> string \<Rightarrow> int \<Rightarrow> string \<Rightarrow> error + string" where
  "computeRequestId sender evmParams caip2Id keyVersion path =
     (let payload = packParams evmParams;
          packed = textToHex sender @ payload @ textToHex caip2Id @ uint32ToHex keyVersion
                   @ textToHex path @ textToHex ''ECDSA'' @ textToHex ''ethereum''
      in keccak256 (''0x'' @ packed))"

section \<open>KeyDerivation (mpc-service/signer.ts, mpc/address-derivation.ts)\<close>

definition EPSILON_DERIVATION_PREFIX :: string where
  "EPSILON_DERIVATION_PREFIX = ''sig.network v2.0.0 epsilon derivation''"

text \<open>The order of the secp256k1 group, \<open>secp256k1.Point.Fn.ORDER\<close>.\<close>

definition CURVE_ORDER :: int where
  "CURVE_ORDER = 0xFFFFFFFFFFFFFFFFFFFFFFFFFFFFFFFEBAAEDCE6AF48A03BBFD25E8CD0364141"

definition derivationPath :: "string \<Rightarrow> string \<Rightarrow> string \<Rightarrow> string" where
  "derivationPath caip2Id predecessorId path =
     EPSILON_DERIVATION_PREFIX @ '':'' @ caip2Id @ '':'' @ predecessorId @ '':'' @ path"

definition deriveChildPrivateKey :: "string \<Rightarrow> string \<Rightarrow> string \<Rightarrow> string \<Rightarrow> error + string" where
  "deriveChildPrivateKey rootPrivateKey predecessorId path caip2Id =
     ebind (toBytes (derivationPath caip2Id predecessorId path)) (\<lambda>pathBytes.
       let epsilon = keccak256_bytes pathBytes
       in ebind (js_BigInt rootPrivateKey) (\<lambda>rootKey.
          ebind (js_BigInt epsilon) (\<lambda>eps.
            let childKey = js_rem (js_rem (rootKey + eps) CURVE_ORDER + CURVE_ORDER) CURVE_ORDER
            in Inr (''0x'' @ padStart 64 CHR ''0'' (toString16 childKey)))))"

definition publicKeyToEthAddress :: "string \<Rightarrow> error + string" where
  "publicKeyToEthAddress uncompressedPubKey =
     (let stripped = (if prefix ''04'' uncompressedPubKey then drop 2 uncompressedPubKey
                      else uncompressedPubKey)
      in ebind (keccak256 (''0x'' @ stripped)) (\<lambda>hash. Inr (''0x'' @ drop 26 hash)))"

section \<open>Byte-level readings used to state the properties\<close>

text \<open>
  The definitions of this section are not taken from the code: they say, in terms of
  numbers and bytes, what a text denotes, and the theorems compare the code with them.
\<close>

text \<open>\<open>be_bytes w n\<close>: the number \<open>n\<close> as \<open>w\<close> bytes, most significant first.\<close>

fun be_bytes :: "nat \<Rightarrow> nat \<Rightarrow> byte list" where
  "be_bytes 0 n = []"
| "be_bytes (Suc w) n = of_nat (n div 256 ^ w) # be_bytes w (n mod 256 ^ w)"

text \<open>The number a byte string denotes, most significant byte first.\<close>

definition be_value :: "byte list \<Rightarrow> nat" where
  "be_value bs = foldl (\<lambda>acc b. acc * 256 + unat b) 0 bs"

text \<open>The number a hexadecimal text denotes.\<close>

definition hex_value :: "string \<Rightarrow> nat" where
  "hex_value s = digits_value 16 s"

text \<open>The bytes a hexadecimal text denotes (an odd digit count reads as a leading zero digit).\<close>

definition bytes_of_hex :: "string \<Rightarrow> byte list" where
  "bytes_of_hex s = be_bytes ((length s + 1) div 2) (hex_value s)"

text \<open>A field of a transaction intent: hexadecimal digits, at most \<open>w\<close> bytes wide.\<close>

definition hex_field :: "nat \<Rightarrow> string \<Rightarrow> bool" where
  "hex_field w s = (list_all is_hex_digit s \<and> length s \<le> 2 * w)"

text \<open>
  A valid transaction intent (spec, section 3): the address fits 20 bytes, the words fit
  32 bytes, every argument is a whole number of bytes.
\<close>

definition valid_intent :: "EvmTransactionParams \<Rightarrow> bool" where
  "valid_intent p =
     (hex_field 20 (to p) \<and>
      list_all (\<lambda>a. list_all is_hex_digit a \<and> even (length a)) (args p) \<and>
      hex_field 32 (value_hex p) \<and> hex_field 32 (nonce p) \<and> hex_field 32 (gasLimit p) \<and>
      hex_field 32 (maxFeePerGas p) \<and> hex_field 32 (maxPriorityFee p) \<and>
      hex_field 32 (chainId p))"

text \<open>
  \<open>packed(TransactionIntent)\<close> as the spec words it: the address at 20 bytes, the UTF-8
  bytes of the function signature, the arguments one after the other, then the six words
  at 32 bytes each.
\<close>

definition packed_intent :: "EvmTransactionParams \<Rightarrow> byte list" where
  "packed_intent p =
     be_bytes 20 (hex_value (to p)) @ stringToBytes (functionSignature p)
     @ concat (map bytes_of_hex (args p))
     @ be_bytes 32 (hex_value (value_hex p)) @ be_bytes 32 (hex_value (nonce p))
     @ be_bytes 32 (hex_value (gasLimit p)) @ be_bytes 32 (hex_value (maxFeePerGas p))
     @ be_bytes 32 (hex_value (maxPriorityFee p)) @ be_bytes 32 (hex_value (chainId p))"

text \<open>The bytes the request identifier is the hash of, as the spec words them.\<close>

definition requestId_preimage ::
  "string \<Rightarrow> EvmTransactionParams \<Rightarrow> string \<Rightarrow> int \<Rightarrow> string \<Rightarrow> byte list" where
  "requestId_preimage sender p caip2Id keyVersion path =
     stringToBytes sender @ packed_intent p @ stringToBytes caip2Id
     @ be_bytes 4 (nat keyVersion) @ stringToBytes path
     @ stringToBytes ''ECDSA'' @ stringToBytes ''ethereum''"

text \<open>
  The child scalar the code derives: the hash input joins the four parts with colons.
\<close>

definition child_scalar_of :: "string \<Rightarrow> string \<Rightarrow> string \<Rightarrow> string \<Rightarrow> int" where
  "child_scalar_of rootPrivateKey predecessorId path caip2Id =
     (int (hex_value (drop 2 rootPrivateKey))
      + int (be_value (keccak_256 (stringToBytes
          (EPSILON_DERIVATION_PREFIX @ '':'' @ caip2Id @ '':'' @ predecessorId @ '':'' @ path)))))
     mod CURVE_ORDER"

text \<open>
  The child scalar with the hash input read as a plain concatenation
  \<open>domainPrefix \<parallel> chainContext \<parallel> predecessorId \<parallel> path\<close>, nothing in between.
\<close>

definition claimed_child_scalar :: "string \<Rightarrow> string \<Rightarrow> string \<Rightarrow> string \<Rightarrow> int" where
  "claimed_child_scalar rootPrivateKey predecessorId path caip2Id =
     (int (hex_value (drop 2 rootPrivateKey))
      + int (be_value (keccak_256 (stringToBytes
          (EPSILON_DERIVATION_PREFIX @ caip2Id @ predecessorId @ path)))))
     mod CURVE_ORDER"

subsection \<open>Concrete inputs (from the repository's tests)\<close>

definition sampleEvmParams :: EvmTransactionParams where
  "sampleEvmParams = \<lparr>
     to = ''a0b86991c6218b36c1d19d4a2e9eb0ce3606eb48'',
     functionSignature = ''transfer(address,uint256)'',
     args = [''000000000000000000000000d8da6bf26964af9d7eed9e03e53415d37aa96045'',
             ''0000000000000000000000000000000000000000000000000000000005f5e100''],
     value_hex = ''0000000000000000000000000000000000000000000000000000000000000000'',
     nonce = ''0000000000000000000000000000000000000000000000000000000000000001'',
     gasLimit = ''000000000000000000000000000000000000000000000000000000000000c350'',
     maxFeePerGas = ''00000000000000000000000000000000000000000000000000000001dcd65000'',
     maxPriorityFee = ''000000000000000000000000000000000000000000000000000000003b9aca00'',
     chainId = ''0000000000000000000000000000000000000000000000000000000000aa36a7'' \<rparr>"

definition MPC_ROOT_PRIVATE_KEY :: string where
  "MPC_ROOT_PRIVATE_KEY = ''0x1234567890abcdef1234567890abcdef1234567890abcdef1234567890abcdef''"

text \<open>The coordinates \<open>x \<parallel> y\<close> of the test root public key, without the \<open>04\<close> marker.\<close>

definition MPC_ROOT_PUBLIC_XY :: string where
  "MPC_ROOT_PUBLIC_XY = ''bb50e2d89a4ed70663d080659fe0ad4b9bc3e06c17a227433966cb59ceee020decddbf6e00192011648d13b1c00af770c0c1bb609d4d3a5c98a43772e0e18ef4''"

text \<open>A root key chosen so that the derived scalar vanishes for the test context.\<close>

definition zero_child_root :: string where
  "zero_child_root = ''0xb8b3b996b028375e69faed845dcdf2e934f9312d0d8325d516dae4630c90d821''"

text \<open>The two hash inputs for the test context: as the code builds it, and joined plainly.\<close>

definition code_path_text :: string where
  "code_path_text = ''sig.network v2.0.0 epsilon derivation:eip155:1:Issuer::1220abcdef:m/44/60/0/0''"

definition claimed_path_text :: string where
  "claimed_path_text = ''sig.network v2.0.0 epsilon derivationeip155:1Issuer::1220abcdefm/44/60/0/0''"

section \<open>JSON values (payloads of ledger events)\<close>

text \<open>
  The payload of a ledger event is the result of \<open>JSON.parse\<close>; the handlers read it
  through unchecked casts, so a field may hold any value or be absent. Numbers are the
  integral ones. An object is the list of its properties.
\<close>

datatype jval =
    JUndefined
  | JNull
  | JBool bool
  | JNum int
  | JStr string
  | JArr "jval list"
  | JObj "(string \<times> jval) list"

text \<open>Property access \<open>v.k\<close>: a TypeError on \<open>undefined\<close> and \<open>null\<close>, \<open>undefined\<close> where
  the property is missing.\<close>

definition js_prop :: "jval \<Rightarrow> string \<Rightarrow> error + jval" where
  "js_prop v k =
     (case v of
        JUndefined \<Rightarrow> Inl (TypeError (''Cannot read properties of undefined (reading '' @ k @ '')''))
      | JNull \<Rightarrow> Inl (TypeError (''Cannot read properties of null (reading '' @ k @ '')''))
      | JObj kvs \<Rightarrow> Inr (case map_of kvs k of Some x \<Rightarrow> x | None \<Rightarrow> JUndefined)
      | _ \<Rightarrow> Inr JUndefined)"

text \<open>Strict equality \<open>===\<close>: by value on primitives; two parsed objects are never the same
  object.\<close>

fun js_strict_eq :: "jval \<Rightarrow> jval \<Rightarrow> bool" where
  "js_strict_eq JUndefined JUndefined = True"
| "js_strict_eq JNull JNull = True"
| "js_strict_eq (JBool a) (JBool b) = (a = b)"
| "js_strict_eq (JNum a) (JNum b) = (a = b)"
| "js_strict_eq (JStr a) (JStr b) = (a = b)"
| "js_strict_eq _ _ = False"

fun dec_digits_of :: "nat \<Rightarrow> string" where
  "dec_digits_of n =
     (if n < 10 then [hex_digit n] else dec_digits_of (n div 10) @ [hex_digit (n mod 10)])"

declare dec_digits_of.simps [simp del]

definition int_toString :: "int \<Rightarrow> string" where
  "int_toString n = (if n < 0 then CHR ''-'' # dec_digits_of (nat (- n)) else dec_digits_of (nat n))"

definition join_comma :: "string list \<Rightarrow> string" where
  "join_comma xs = (case xs of [] \<Rightarrow> [] | y # ys \<Rightarrow> y @ concat (map (\<lambda>s. CHR '','' # s) ys))"

text \<open>The text a template literal or \<open>+\<close> makes of a value.\<close>

fun js_to_string :: "jval \<Rightarrow> string" where
  "js_to_string JUndefined = ''undefined''"
| "js_to_string JNull = ''null''"
| "js_to_string (JBool b) = (if b then ''true'' else ''false'')"
| "js_to_string (JNum n) = int_toString n"
| "js_to_string (JStr s) = s"
| "js_to_string (JArr xs) =
     join_comma (map (\<lambda>x. if x = JUndefined \<or> x = JNull then [] else js_to_string x) xs)"
| "js_to_string (JObj kvs) = ''[object Object]''"

text \<open>
  A JavaScript number, as far as the bridge meets them: an integer held exactly, the
  double nearest to an integer beyond \<open>2^53\<close>, \<open>NaN\<close>, or a numeric text with a
  fraction or an exponent, kept as written.
\<close>

datatype jsnum = NaN | Num int | Nearest int | Literal string

definition number_of_bigint :: "int \<Rightarrow> jsnum" where
  "number_of_bigint n = (if \<bar>n\<bar> \<le> 2 ^ 53 then Num n else Nearest n)"

definition string_to_number :: "string \<Rightarrow> jsnum" where
  "string_to_number s =
     (let t = js_trim s; p = take 2 t; r = drop 2 t
      in if t = [] then Num 0
         else if (p = ''0x'' \<or> p = ''0X'') \<and> digits_below 16 r then number_of_bigint (int (digits_value 16 r))
         else if (p = ''0o'' \<or> p = ''0O'') \<and> digits_below 8 r then number_of_bigint (int (digits_value 8 r))
         else if (p = ''0b'' \<or> p = ''0B'') \<and> digits_below 2 r then number_of_bigint (int (digits_value 2 r))
         else if hd t = CHR ''-'' \<and> digits_below 10 (tl t) then number_of_bigint (- int (digits_value 10 (tl t)))
         else if hd t = CHR ''+'' \<and> digits_below 10 (tl t) then number_of_bigint (int (digits_value 10 (tl t)))
         else if digits_below 10 t then number_of_bigint (int (digits_value 10 t))
         else if list_all (\<lambda>c. c \<in> set ''0123456789+-.eE'') t \<and> list_ex (\<lambda>c. c \<in> set ''0123456789'') t
           then Literal t
         else NaN)"

text \<open>\<open>Number(v)\<close>.\<close>

definition js_Number :: "jval \<Rightarrow> jsnum" where
  "js_Number v =
     (case v of
        JUndefined \<Rightarrow> NaN
      | JNull \<Rightarrow> Num 0
      | JBool b \<Rightarrow> Num (if b then 1 else 0)
      | JNum n \<Rightarrow> Num n
      | JStr s \<Rightarrow> string_to_number s
      | _ \<Rightarrow> string_to_number (js_to_string v))"

section \<open>Libraries taken as parameters\<close>

text \<open>
  The transaction as viem \<open>serializeTransaction\<close> receives it, and the signature beside it.
\<close>

record tx_request =
  tx_chainId :: jsnum
  tx_nonce :: jsnum
  tx_maxPriorityFeePerGas :: int
  tx_maxFeePerGas :: int
  tx_gas :: int
  tx_to :: string
  tx_value :: int
  tx_data :: string

record tx_signature =
  sig_r :: string
  sig_s :: string
  sig_yParity :: "jsnum option"

text \<open>
  What the bridge calls in viem, @noble/curves and the JavaScript engine without its code
  being part of the repository. Each may throw.
\<close>

record libs =
  toFunctionSelector :: "string \<Rightarrow> error + string"
  serializeTransaction :: "tx_request \<Rightarrow> tx_signature option \<Rightarrow> error + string"
  secp256k1_sign_recovered :: "byte list \<Rightarrow> byte list \<Rightarrow> error + byte list"
  secp256k1_sign_compact :: "byte list \<Rightarrow> byte list \<Rightarrow> error + byte list"
  DER_hexFromSig :: "int \<Rightarrow> int \<Rightarrow> error + string"
  double_text :: "int \<Rightarrow> string"

text \<open>The text of a number in a string concatenation.\<close>

definition jsnum_to_string :: "libs \<Rightarrow> jsnum \<Rightarrow> string" where
  "jsnum_to_string L x =
     (case x of NaN \<Rightarrow> ''NaN'' | Num n \<Rightarrow> int_toString n | Nearest n \<Rightarrow> double_text L n
      | Literal s \<Rightarrow> s)"

section \<open>The ledger and the chain, as the processes see them\<close>

datatype command =
    CreateCommand string jval
  | ExerciseCommand string string string jval

record submit_request =
  commands :: "command list"
  commandId :: string
  userId :: string
  actAs :: "string list"
  readAs :: "string list"

record CreatedEvent =
  contractId :: string
  templateId :: "string option"
  createArgument :: jval

text \<open>The outcome of an HTTP call of the typed client: the call threw, or it came back with
  an \<open>error\<close> body (held as its JSON text), or with \<open>data\<close>.\<close>

datatype 'a reply = Threw error | ErrorBody string | Data 'a

datatype receipt_status = success | reverted

datatype rpc_call = SendRawTransaction string string | WaitForReceipt string string

text \<open>
  What the outside answers. The answers may depend on what was submitted before.
  \<open>active_contracts\<close> stands for \<open>getActiveContracts\<close> of the client, whose code is
  not among the sources: it returns the active contracts of a template or throws.
\<close>

record env =
  randomUUID :: "nat \<Rightarrow> string"
  submit_reply :: "submit_request list \<Rightarrow> submit_request \<Rightarrow> jval reply"
  active_contracts :: "submit_request list \<Rightarrow> string list \<Rightarrow> string \<Rightarrow> error + CreatedEvent list"
  send_reply :: "rpc_call list \<Rightarrow> string \<Rightarrow> error + string"
  receipt_reply :: "rpc_call list \<Rightarrow> string \<Rightarrow> error + receipt_status"
  allocate_reply :: "nat \<Rightarrow> string \<Rightarrow> string option reply"
  parties_reply :: "nat \<Rightarrow> string option list option reply"

text \<open>
  What a process has done so far: the identifiers drawn, the commands submitted to the
  ledger, the calls made to the chain, the calls made to the party endpoints.
\<close>

record world =
  uuid_count :: nat
  submissions :: "submit_request list"
  rpc_calls :: "rpc_call list"
  party_calls :: nat

type_synonym 'a io = "world \<Rightarrow> (error + 'a) \<times> world"

definition io_return :: "'a \<Rightarrow> 'a io" where
  "io_return x = (\<lambda>w. (Inr x, w))"

definition io_lift :: "error + 'a \<Rightarrow> 'a io" where
  "io_lift r = (\<lambda>w. (r, w))"

definition io_bind :: "'a io \<Rightarrow> ('a \<Rightarrow> 'b io) \<Rightarrow> 'b io" where
  "io_bind m f = (\<lambda>w. case m w of (Inl e, w') \<Rightarrow> (Inl e, w') | (Inr x, w') \<Rightarrow> f x w')"

text \<open>\<open>try { m } catch (err) { h err }\<close>\<close>

definition io_catch :: "'a io \<Rightarrow> (error \<Rightarrow> 'a io) \<Rightarrow> 'a io" where
  "io_catch m h = (\<lambda>w. case m w of (Inl e, w') \<Rightarrow> h e w' | (Inr x, w') \<Rightarrow> (Inr x, w'))"

section \<open>The ledger client (infra/canton-client.ts)\<close>

definition str_includes :: "string \<Rightarrow> string \<Rightarrow> bool" where
  "str_includes s sub = list_ex (\<lambda>t. prefix sub t) (suffixes s)"

definition allocateParty_failed :: "string \<Rightarrow> error" where
  "allocateParty_failed msg = Error (''allocateParty failed: '' @ msg)"

text \<open>The callback of \<open>find\<close>: \<open>(p) => p.party?.startsWith(`${hint}::`)\<close>.\<close>

definition party_with_hint :: "string \<Rightarrow> string option \<Rightarrow> bool" where
  "party_with_hint hint p =
     (case p of None \<Rightarrow> False | Some party \<Rightarrow> prefix (hint @ ''::'') party)"

definition findPartyByHint :: "env \<Rightarrow> string \<Rightarrow> string option io" where
  "findPartyByHint E hint = (\<lambda>w.
     let w' = w\<lparr>party_calls := Suc (party_calls w)\<rparr>
     in case parties_reply E (party_calls w) of
          Threw e \<Rightarrow> (Inl e, w')
        | ErrorBody b \<Rightarrow> (Inr None, w')
        | Data None \<Rightarrow> (Inr None, w')
        | Data (Some ps) \<Rightarrow>
            (Inr (case find (party_with_hint hint) ps of None \<Rightarrow> None | Some m \<Rightarrow> m), w'))"

definition allocateParty :: "env \<Rightarrow> string \<Rightarrow> string io" where
  "allocateParty E hint = (\<lambda>w.
     let w' = w\<lparr>party_calls := Suc (party_calls w)\<rparr>
     in case allocate_reply E (party_calls w) hint of
          Threw e \<Rightarrow> (Inl e, w')
        | ErrorBody msg \<Rightarrow>
            (if str_includes msg ''Party already exists''
             then io_bind (findPartyByHint E hint)
                    (\<lambda>existing. case existing of
                         Some party \<Rightarrow> if party \<noteq> [] then io_return party
                                       else io_lift (Inl (allocateParty_failed msg))
                       | None \<Rightarrow> io_lift (Inl (allocateParty_failed msg))) w'
             else (Inl (allocateParty_failed msg), w'))
        | Data None \<Rightarrow> (Inl (TypeError ''Cannot read properties of undefined (reading party)''), w')
        | Data (Some party) \<Rightarrow> (Inr party, w'))"

definition submitAndWait :: "env \<Rightarrow> string \<Rightarrow> string list \<Rightarrow> command list \<Rightarrow> jval io" where
  "submitAndWait E userId' actAs' commands' = (\<lambda>w.
     let request = \<lparr> commands = commands', commandId = randomUUID E (uuid_count w),
                     userId = userId', actAs = actAs', readAs = actAs' \<rparr>;
         w' = w\<lparr>uuid_count := Suc (uuid_count w), submissions := submissions w @ [request]\<rparr>
     in case submit_reply E (submissions w) request of
          Threw e \<Rightarrow> (Inl e, w')
        | ErrorBody err \<Rightarrow> (Inl (Error (''submitAndWait failed: '' @ err)), w')
        | Data d \<Rightarrow> (Inr d, w'))"

definition createContract :: "env \<Rightarrow> string \<Rightarrow> string list \<Rightarrow> string \<Rightarrow> jval \<Rightarrow> jval io" where
  "createContract E userId' actAs' templateId' payload =
     submitAndWait E userId' actAs' [CreateCommand templateId' payload]"

definition exerciseChoice ::
  "env \<Rightarrow> string \<Rightarrow> string list \<Rightarrow> string \<Rightarrow> string \<Rightarrow> string \<Rightarrow> jval \<Rightarrow> jval io" where
  "exerciseChoice E userId' actAs' templateId' contractId' choice choiceArgument =
     submitAndWait E userId' actAs' [ExerciseCommand templateId' contractId' choice choiceArgument]"

definition getActiveContracts :: "env \<Rightarrow> string list \<Rightarrow> string \<Rightarrow> CreatedEvent list io" where
  "getActiveContracts E parties templateId' = (\<lambda>w.
     (active_contracts E (submissions w) parties templateId', w))"

section \<open>TransactionCodec (evm/tx-builder.ts)\<close>

text \<open>\<open>x.replace("0x", "")\<close>: the first occurrence goes, wherever it is.\<close>

fun remove_first_0x :: "string \<Rightarrow> string" where
  "remove_first_0x [] = []"
| "remove_first_0x (c # cs) =
     (if prefix ''0x'' (c # cs) then drop 2 (c # cs) else c # remove_first_0x cs)"

text \<open>viem \<open>concat\<close> on hexadecimal texts.\<close>

definition concatHex :: "string list \<Rightarrow> string" where
  "concatHex vs = ''0x'' @ concat (map remove_first_0x vs)"

definition buildCalldata :: "libs \<Rightarrow> jval \<Rightarrow> string list \<Rightarrow> error + string" where
  "buildCalldata L functionSignature' args' =
     ebind (toFunctionSelector L (''function '' @ js_to_string functionSignature')) (\<lambda>selector.
       let encodedArgs =
             (if length args' > 0
              then concatHex (map (\<lambda>a. if prefix ''0x'' a then a else ''0x'' @ a) args')
              else ''0x'')
       in Inr (concatHex [selector, encodedArgs]))"

text \<open>\<open>evmParams.args.map((a) => `0x${a}`)\<close>: only an array has \<open>map\<close>.\<close>

definition args_as_hex :: "jval \<Rightarrow> error + string list" where
  "args_as_hex v =
     (case v of
        JArr xs \<Rightarrow> Inr (map (\<lambda>a. ''0x'' @ js_to_string a) xs)
      | JUndefined \<Rightarrow> Inl (TypeError ''Cannot read properties of undefined (reading map)'')
      | JNull \<Rightarrow> Inl (TypeError ''Cannot read properties of null (reading map)'')
      | _ \<Rightarrow> Inl (TypeError ''evmParams.args.map is not a function''))"

text \<open>\<open>BigInt(`0x${evmParams.field}`)\<close>\<close>

definition bigint_field :: "jval \<Rightarrow> string \<Rightarrow> error + int" where
  "bigint_field evmParams field =
     ebind (js_prop evmParams field) (\<lambda>v. js_BigInt (''0x'' @ js_to_string v))"

definition tx_of_params :: "jval \<Rightarrow> string \<Rightarrow> error + tx_request" where
  "tx_of_params evmParams calldata =
     ebind (bigint_field evmParams ''chainId'') (\<lambda>chainId'.
     ebind (bigint_field evmParams ''nonce'') (\<lambda>nonce'.
     ebind (bigint_field evmParams ''maxPriorityFee'') (\<lambda>maxPriorityFee'.
     ebind (bigint_field evmParams ''maxFeePerGas'') (\<lambda>maxFeePerGas'.
     ebind (bigint_field evmParams ''gasLimit'') (\<lambda>gasLimit'.
     ebind (js_prop evmParams ''to'') (\<lambda>to'.
     ebind (bigint_field evmParams ''value'') (\<lambda>value'.
       Inr \<lparr> tx_chainId = number_of_bigint chainId', tx_nonce = number_of_bigint nonce',
             tx_maxPriorityFeePerGas = maxPriorityFee', tx_maxFeePerGas = maxFeePerGas',
             tx_gas = gasLimit', tx_to = ''0x'' @ js_to_string to', tx_value = value',
             tx_data = calldata \<rparr>)))))))"

definition calldata_of_params :: "libs \<Rightarrow> jval \<Rightarrow> error + string" where
  "calldata_of_params L evmParams =
     ebind (js_prop evmParams ''functionSignature'') (\<lambda>functionSignature'.
     ebind (js_prop evmParams ''args'') (\<lambda>args'.
     ebind (args_as_hex args') (\<lambda>hexArgs.
       buildCalldata L functionSignature' hexArgs)))"

definition serializeUnsignedTx :: "libs \<Rightarrow> jval \<Rightarrow> error + string" where
  "serializeUnsignedTx L evmParams =
     ebind (calldata_of_params L evmParams) (\<lambda>calldata.
     ebind (tx_of_params evmParams calldata) (\<lambda>tx.
       serializeTransaction L tx None))"

definition reconstructSignedTx :: "libs \<Rightarrow> jval \<Rightarrow> tx_signature \<Rightarrow> error + string" where
  "reconstructSignedTx L evmParams signature =
     ebind (calldata_of_params L evmParams) (\<lambda>calldata.
     ebind (tx_of_params evmParams calldata) (\<lambda>tx.
       serializeTransaction L tx (Some signature)))"

definition submitRawTransaction :: "env \<Rightarrow> string \<Rightarrow> string \<Rightarrow> string io" where
  "submitRawTransaction E rpcUrl raw = (\<lambda>w.
     (send_reply E (rpc_calls w) raw,
      w\<lparr>rpc_calls := rpc_calls w @ [SendRawTransaction rpcUrl raw]\<rparr>))"

text \<open>\<open>client.waitForTransactionReceipt\<close>: the receipt, or a throw when the deadline passes.\<close>

definition waitForTransactionReceipt :: "env \<Rightarrow> string \<Rightarrow> string \<Rightarrow> receipt_status io" where
  "waitForTransactionReceipt E rpcUrl hash = (\<lambda>w.
     (receipt_reply E (rpc_calls w) hash,
      w\<lparr>rpc_calls := rpc_calls w @ [WaitForReceipt rpcUrl hash]\<rparr>))"

section \<open>SigningEngine (mpc-service/signer.ts)\<close>

text \<open>The recovery byte \<open>sig[0]\<close>, then \<open>r\<close> and \<open>s\<close> as bare hexadecimal text.\<close>

definition signEvmTxHash :: "libs \<Rightarrow> string \<Rightarrow> string \<Rightarrow> error + (string \<times> string \<times> jval)" where
  "signEvmTxHash L privateKey txHash =
     ebind (toBytes txHash) (\<lambda>msgHash.
     ebind (toBytes privateKey) (\<lambda>privKeyBytes.
     ebind (secp256k1_sign_recovered L msgHash privKeyBytes) (\<lambda>sig.
       let v = (case sig of [] \<Rightarrow> JUndefined | b # _ \<Rightarrow> JNum (uint b));
           r = hex_of_bytes (take 32 (drop 1 sig));
           s = hex_of_bytes (take 32 (drop 33 sig))
       in Inr (r, s, v))))"

definition signMpcResponse :: "libs \<Rightarrow> string \<Rightarrow> string \<Rightarrow> string \<Rightarrow> error + string" where
  "signMpcResponse L rootPrivateKey requestId mpcOutput =
     ebind (keccak256 (''0x'' @ requestId @ mpcOutput)) (\<lambda>responseHash.
     ebind (toBytes responseHash) (\<lambda>msgHash.
     ebind (toBytes rootPrivateKey) (\<lambda>privKeyBytes.
     ebind (secp256k1_sign_compact L msgHash privKeyBytes) (\<lambda>raw.
     ebind (js_BigInt (''0x'' @ hex_of_bytes (take 32 raw))) (\<lambda>r.
     ebind (js_BigInt (''0x'' @ hex_of_bytes (take 32 (drop 32 raw)))) (\<lambda>s.
       DER_hexFromSig L r s))))))"

section \<open>LifecycleOrchestrator: the Signer (mpc-service/deposit-handler.ts)\<close>

definition VAULT_ORCHESTRATOR :: string where
  "VAULT_ORCHESTRATOR = ''Erc20Vault:VaultOrchestrator''"

text \<open>\<open>hexChainId.replace(/^0+/, "")\<close> needs a string; the rest is \<open>Number(BigInt(...))\<close>.\<close>

definition hexChainIdToDecimal :: "jval \<Rightarrow> error + jsnum" where
  "hexChainIdToDecimal hexChainId =
     (case hexChainId of
        JStr s \<Rightarrow>
          (let t = dropWhile (\<lambda>c. c = CHR ''0'') s;
               u = (if t = [] then ''0'' else t)
           in ebind (js_BigInt (''0x'' @ u)) (\<lambda>n. Inr (number_of_bigint n)))
      | JUndefined \<Rightarrow> Inl (TypeError ''Cannot read properties of undefined (reading replace)'')
      | JNull \<Rightarrow> Inl (TypeError ''Cannot read properties of null (reading replace)'')
      | _ \<Rightarrow> Inl (TypeError ''hexChainId.replace is not a function''))"

record deposit_params =
  dp_orchCid :: string
  dp_userId :: string
  dp_actAs :: "string list"
  dp_rootPrivateKey :: string
  dp_rpcUrl :: string
  dp_event :: CreatedEvent

text \<open>
  The handler of an anchor event (\<open>PendingEvmDeposit\<close>). Phase 1 signs the transaction and
  exercises \<open>SignEvmTx\<close>; phase 2 waits for the receipt, signs the outcome and exercises
  \<open>ProvideEvmOutcomeSig\<close>. Writing to the console is left out.
\<close>

definition handlePendingEvmDeposit :: "libs \<Rightarrow> env \<Rightarrow> deposit_params \<Rightarrow> unit io" where
  "handlePendingEvmDeposit L E params =
     (let orchCid = dp_orchCid params; userId' = dp_userId params; actAs' = dp_actAs params;
          rootPrivateKey = dp_rootPrivateKey params; rpcUrl = dp_rpcUrl params;
          args' = createArgument (dp_event params)
      in
      io_bind (io_lift (js_prop args' ''requester'')) (\<lambda>requester.
      io_bind (io_lift (js_prop args' ''path'')) (\<lambda>path.
      io_bind (io_lift (js_prop args' ''requestId'')) (\<lambda>requestId.
      io_bind (io_lift (js_prop args' ''evmParams'')) (\<lambda>evmParams.
      io_bind (io_lift (js_prop evmParams ''chainId'')) (\<lambda>chainId'.
      io_bind (io_lift (hexChainIdToDecimal chainId')) (\<lambda>chainNumber.
      let caip2Id = ''eip155:'' @ jsnum_to_string L chainNumber in
      io_bind (io_lift (serializeUnsignedTx L evmParams)) (\<lambda>serializedUnsigned.
      io_bind (io_lift (keccak256 serializedUnsigned)) (\<lambda>txHash.
      io_bind (io_lift (deriveChildPrivateKey rootPrivateKey (js_to_string requester)
                          (js_to_string path) caip2Id)) (\<lambda>childPrivateKey.
      io_bind (io_lift (signEvmTxHash L childPrivateKey txHash)) (\<lambda>(r, s, v).
      io_bind (exerciseChoice E userId' actAs' VAULT_ORCHESTRATOR orchCid ''SignEvmTx''
                 (JObj [(''requestId'', requestId), (''r'', JStr r), (''s'', JStr s), (''v'', v)])) (\<lambda>_.
      io_bind (io_lift (reconstructSignedTx L evmParams
                 \<lparr> sig_r = ''0x'' @ r, sig_s = ''0x'' @ s,
                   sig_yParity = (case v of JNum n \<Rightarrow> Some (Num n) | _ \<Rightarrow> None) \<rparr>)) (\<lambda>signedTx.
      io_bind (io_lift (keccak256 signedTx)) (\<lambda>signedTxHash.
      io_bind (io_catch
                 (io_bind (waitForTransactionReceipt E rpcUrl signedTxHash) (\<lambda>receipt.
                    io_return (if receipt = success then ''01'' else ''00'')))
                 (\<lambda>err. io_return ''00'')) (\<lambda>mpcOutput.
      io_bind (io_lift (signMpcResponse L rootPrivateKey (js_to_string requestId) mpcOutput)) (\<lambda>signature.
      io_bind (exerciseChoice E userId' actAs' VAULT_ORCHESTRATOR orchCid ''ProvideEvmOutcomeSig''
                 (JObj [(''requestId'', requestId), (''signature'', JStr signature),
                        (''mpcOutput'', JStr mpcOutput)])) (\<lambda>_.
      io_return ())))))))))))))))))"

section \<open>LifecycleOrchestrator: the Relayer (relayer/*.ts)\<close>

text \<open>
  \<open>contracts.find((c) => c.createArgument.requestId === requestId)\<close>: the first match;
  reading the argument of a contract that has none throws.
\<close>

fun find_request :: "jval \<Rightarrow> CreatedEvent list \<Rightarrow> error + CreatedEvent option" where
  "find_request requestId [] = Inr None"
| "find_request requestId (c # cs) =
     ebind (js_prop (createArgument c) ''requestId'') (\<lambda>x.
       if js_strict_eq x requestId then Inr (Some c) else find_request requestId cs)"

record signature_params =
  sp_issuerParty :: string
  sp_rpcUrl :: string
  sp_event :: CreatedEvent

definition handleEcdsaSignature :: "libs \<Rightarrow> env \<Rightarrow> signature_params \<Rightarrow> unit io" where
  "handleEcdsaSignature L E params =
     (let issuerParty = sp_issuerParty params; rpcUrl = sp_rpcUrl params;
          args' = createArgument (sp_event params)
      in
      io_bind (io_lift (js_prop args' ''requestId'')) (\<lambda>requestId.
      io_bind (io_lift (js_prop args' ''r'')) (\<lambda>r.
      io_bind (io_lift (js_prop args' ''s'')) (\<lambda>s.
      io_bind (io_lift (js_prop args' ''v'')) (\<lambda>v'.
      let v = js_Number v' in
      io_bind (getActiveContracts E [issuerParty] ''Erc20Vault:PendingEvmDeposit'') (\<lambda>contracts.
      io_bind (io_lift (find_request requestId contracts)) (\<lambda>matching.
        case matching of
          None \<Rightarrow> io_return ()
        | Some m \<Rightarrow>
            io_bind (io_lift (js_prop (createArgument m) ''evmParams'')) (\<lambda>evmParams.
            io_bind (io_lift (reconstructSignedTx L evmParams
                       \<lparr> sig_r = ''0x'' @ js_to_string r, sig_s = ''0x'' @ js_to_string s,
                         sig_yParity = Some v \<rparr>)) (\<lambda>signedTx.
            io_bind (submitRawTransaction E rpcUrl signedTx) (\<lambda>txHash.
            io_return ()))))))))))"

text \<open>\<open>a[i]\<close> on a parsed value.\<close>

definition js_index :: "jval \<Rightarrow> nat \<Rightarrow> error + jval" where
  "js_index v i =
     (case v of
        JUndefined \<Rightarrow> Inl (TypeError ''Cannot read properties of undefined'')
      | JNull \<Rightarrow> Inl (TypeError ''Cannot read properties of null'')
      | JArr xs \<Rightarrow> Inr (if i < length xs then xs ! i else JUndefined)
      | JStr s \<Rightarrow> Inr (if i < length s then JStr [s ! i] else JUndefined)
      | JObj kvs \<Rightarrow> Inr (case map_of kvs (dec_digits_of i) of Some x \<Rightarrow> x | None \<Rightarrow> JUndefined)
      | _ \<Rightarrow> Inr JUndefined)"

record outcome_params =
  op_orchCid :: string
  op_userId :: string
  op_actAs :: "string list"
  op_issuerParty :: string
  op_event :: CreatedEvent

definition handleEvmTxOutcomeSignature :: "env \<Rightarrow> outcome_params \<Rightarrow> unit io" where
  "handleEvmTxOutcomeSignature E params =
     (let orchCid = op_orchCid params; userId' = op_userId params; actAs' = op_actAs params;
          issuerParty = op_issuerParty params;
          args' = createArgument (op_event params)
      in
      io_bind (io_lift (js_prop args' ''requestId'')) (\<lambda>requestId.
      let outcomeCid = contractId (op_event params) in
      io_bind (getActiveContracts E [issuerParty] ''Erc20Vault:PendingEvmDeposit'') (\<lambda>contracts.
      io_bind (io_lift (find_request requestId contracts)) (\<lambda>matching.
        case matching of
          None \<Rightarrow> io_return ()
        | Some m \<Rightarrow>
            (let pendingCid = contractId m in
             io_bind (io_lift (js_prop (createArgument m) ''evmParams'')) (\<lambda>evmParams.
             io_bind (io_lift (js_prop evmParams ''args'')) (\<lambda>evmParamsArgs.
             io_bind (io_lift (js_index evmParamsArgs 1)) (\<lambda>arg1.
             io_bind (io_lift (js_BigInt (''0x'' @ js_to_string arg1))) (\<lambda>amountValue.
             let amount = int_toString amountValue in
             io_bind (exerciseChoice E userId' actAs' ''Erc20Vault:VaultOrchestrator'' orchCid
                        ''ClaimEvmDeposit''
                        (JObj [(''pendingCid'', JStr pendingCid), (''outcomeCid'', JStr outcomeCid),
                               (''amount'', JStr amount)])) (\<lambda>_.
             io_return ()))))))))))"

section \<open>A concrete ledger, chain and library behaviour for running the handlers\<close>

definition world0 :: world where
  "world0 = \<lparr> uuid_count = 0, submissions = [], rpc_calls = [], party_calls = 0 \<rparr>"

text \<open>Libraries that accept their input: fixed outputs of the right shape.\<close>

definition demo_libs :: libs where
  "demo_libs = \<lparr>
     toFunctionSelector = (\<lambda>_. Inr ''0xa9059cbb''),
     serializeTransaction = (\<lambda>_ _. Inr ''0x02c0''),
     secp256k1_sign_recovered = (\<lambda>_ _. Inr (replicate 65 1)),
     secp256k1_sign_compact = (\<lambda>_ _. Inr (replicate 64 1)),
     DER_hexFromSig = (\<lambda>_ _. Inr ''3006020101020101''),
     double_text = (\<lambda>_. ''1e+21'') \<rparr>"

definition evmParams_json :: "EvmTransactionParams \<Rightarrow> jval" where
  "evmParams_json p = JObj
     [(''to'', JStr (to p)), (''functionSignature'', JStr (functionSignature p)),
      (''args'', JArr (map JStr (args p))), (''value'', JStr (value_hex p)),
      (''nonce'', JStr (nonce p)), (''gasLimit'', JStr (gasLimit p)),
      (''maxFeePerGas'', JStr (maxFeePerGas p)), (''maxPriorityFee'', JStr (maxPriorityFee p)),
      (''chainId'', JStr (chainId p))]"

definition demo_requestId :: string where
  "demo_requestId = ''4ab52d8be7e3d2b7608fd64947f3e51b2cccea2f29d1f72fa0eea740577dfe1a''"

text \<open>The anchor event: a \<open>PendingEvmDeposit\<close> contract.\<close>

definition anchor_event :: CreatedEvent where
  "anchor_event = \<lparr>
     contractId = ''00a1pending'',
     templateId = Some ''Erc20Vault:PendingEvmDeposit'',
     createArgument = JObj
       [(''issuer'', JStr ''Issuer::1220abcdef''), (''requester'', JStr ''Issuer::1220abcdef''),
        (''path'', JStr ''m/44/60/0/0''), (''requestId'', JStr demo_requestId),
        (''evmParams'', evmParams_json sampleEvmParams)] \<rparr>"

text \<open>The outcome evidence for the same request: an \<open>EvmTxOutcomeSignature\<close> contract.\<close>

definition outcome_event :: CreatedEvent where
  "outcome_event = \<lparr>
     contractId = ''00b2outcome'',
     templateId = Some ''Erc20Vault:EvmTxOutcomeSignature'',
     createArgument = JObj
       [(''issuer'', JStr ''Issuer::1220abcdef''), (''requestId'', JStr demo_requestId),
        (''signature'', JStr ''3006020101020101''), (''mpcOutput'', JStr ''01'')] \<rparr>"

text \<open>The signature evidence for the same request: an \<open>EcdsaSignature\<close> contract.\<close>

definition signature_event :: CreatedEvent where
  "signature_event = \<lparr>
     contractId = ''00c3signature'',
     templateId = Some ''Erc20Vault:EcdsaSignature'',
     createArgument = JObj
       [(''issuer'', JStr ''Issuer::1220abcdef''), (''requestId'', JStr demo_requestId),
        (''r'', JStr ''0101''), (''s'', JStr ''0101''), (''v'', JNum 1)] \<rparr>"

text \<open>
  A ledger that accepts every command and shows the anchor as active, a chain that accepts
  every transaction and reports it mined, and two consecutive results of
  \<open>crypto.randomUUID()\<close>. The party endpoint allocates \<open>Issuer\<close> on the first call
  and reports it as existing afterwards.
\<close>

definition demo_env :: env where
  "demo_env = \<lparr>
     randomUUID = (\<lambda>n. if n = 0 then ''3b241101-e2bb-4255-8caf-4136c566a962''
                        else ''9f1c2d0a-5b7e-4c3d-8a21-0e6f4b9d7c15''),
     submit_reply = (\<lambda>_ _. Data (JObj [])),
     active_contracts = (\<lambda>_ _ _. Inr [anchor_event]),
     send_reply = (\<lambda>_ _. Inr ''0x8f3a''),
     receipt_reply = (\<lambda>_ _. Inr success),
     allocate_reply = (\<lambda>n _. if n = 0 then Data (Some ''Issuer::1220abcdef'')
                         else ErrorBody ''{code: INVALID_ARGUMENT, cause: Party already exists}''),
     parties_reply = (\<lambda>_. Data (Some [Some ''Depositor::1220ffff'', None,
                                        Some ''Issuer::1220abcdef''])) \<rparr>"

text \<open>The same, after the anchor has been consumed: no active \<open>PendingEvmDeposit\<close>.\<close>

definition consumed_env :: env where
  "consumed_env = demo_env\<lparr>active_contracts := (\<lambda>_ _ _. Inr [])\<rparr>"

definition demo_deposit_params :: deposit_params where
  "demo_deposit_params = \<lparr>
     dp_orchCid = ''00d4orchestrator'', dp_userId = ''mpc-service'',
     dp_actAs = [''Issuer::1220abcdef''], dp_rootPrivateKey = MPC_ROOT_PRIVATE_KEY,
     dp_rpcUrl = ''http://localhost:8545'', dp_event = anchor_event \<rparr>"

definition demo_signature_params :: signature_params where
  "demo_signature_params = \<lparr>
     sp_issuerParty = ''Issuer::1220abcdef'', sp_rpcUrl = ''http://localhost:8545'',
     sp_event = signature_event \<rparr>"

definition demo_outcome_params :: outcome_params where
  "demo_outcome_params = \<lparr>
     op_orchCid = ''00d4orchestrator'', op_userId = ''relayer'',
     op_actAs = [''Issuer::1220abcdef''], op_issuerParty = ''Issuer::1220abcdef'',
     op_event = outcome_event \<rparr>"

section \<open>Notions used to state the properties of the handlers\<close>

text \<open>
  From \<open>w\<close> to \<open>w'\<close> commands were only added, and the identifier of each added command
  is the next result of \<open>randomUUID\<close>.
\<close>

definition extends_with_ids :: "env \<Rightarrow> world \<Rightarrow> world \<Rightarrow> bool" where
  "extends_with_ids E w w' =
     (\<exists>xs. submissions w' = submissions w @ xs \<and>
           uuid_count w' = uuid_count w + length xs \<and>
           map commandId xs = map (randomUUID E) [uuid_count w..<uuid_count w + length xs])"

definition draws_ids :: "env \<Rightarrow> 'a io \<Rightarrow> bool" where
  "draws_ids E m = (\<forall>w. extends_with_ids E w (snd (m w)))"

fun choice_name :: "command \<Rightarrow> string option" where
  "choice_name (ExerciseCommand t c ch a) = Some ch"
| "choice_name (CreateCommand t p) = None"

text \<open>The choices exercised by a list of submissions, one list per submission.\<close>

definition choices :: "submit_request list \<Rightarrow> string option list list" where
  "choices xs = map (\<lambda>r. map choice_name (commands r)) xs"

text \<open>
  \<open>m\<close> submits the commands of \<open>T\<close> in order: all of them when it returns, the first few
  of them when it throws.
\<close>

definition follows :: "'a io \<Rightarrow> string option list list \<Rightarrow> bool" where
  "follows m T =
     (\<forall>w. \<exists>xs. submissions (snd (m w)) = submissions w @ xs \<and> prefix (choices xs) T \<and>
             (isl (fst (m w)) \<or> choices xs = T))"

text \<open>Another anchor, of a different request, and a ledger on which it is the only one active.\<close>

definition other_anchor_event :: CreatedEvent where
  "other_anchor_event = \<lparr>
     contractId = ''00e5pending'',
     templateId = Some ''Erc20Vault:PendingEvmDeposit'',
     createArgument = JObj
       [(''issuer'', JStr ''Issuer::1220abcdef''), (''requester'', JStr ''Issuer::1220abcdef''),
        (''path'', JStr ''m/44/60/0/1''),
        (''requestId'', JStr ''00000000000000000000000000000000000000000000000000000000000000ff''),
        (''evmParams'', evmParams_json sampleEvmParams)] \<rparr>"

definition other_env :: env where
  "other_env = demo_env\<lparr>active_contracts := (\<lambda>_ _ _. Inr [other_anchor_event])\<rparr>"

section \<open>The ledger update stream\<close>

text \<open>
  \<open>createLedgerStream\<close> keeps five variables and reacts to what the WebSocket, the timers,
  the polling request and the caller do. Each reaction runs to its end before the next one
  starts, so the stream is a state and one transition per occurrence. The handler of the
  caller and its error handler are functions that return or throw. Numbers are the
  integral ones.
\<close>

record LedgerStreamOptions =
  baseUrl :: "string option"
  parties :: "string list"
  beginExclusive :: jval
  onUpdate :: "jval \<Rightarrow> error option"
  onError :: "(error \<Rightarrow> error option) option"
  maxReconnectDelayMs :: "int option"
  maxReconnectAttempts :: "int option"
  pollingIdleTimeoutMs :: "int option"
  pollingErrorBackoffMs :: "int option"

definition BASE_URL :: string where
  "BASE_URL = ''http://localhost:7575''"

text \<open>\<open>x ?? d\<close>\<close>

definition nullish_or :: "'a option \<Rightarrow> 'a \<Rightarrow> 'a" where
  "nullish_or x d = (case x of None \<Rightarrow> d | Some v \<Rightarrow> v)"

definition maxDelay :: "LedgerStreamOptions \<Rightarrow> int" where
  "maxDelay opts = nullish_or (maxReconnectDelayMs opts) 10000"

definition maxAttempts :: "LedgerStreamOptions \<Rightarrow> int" where
  "maxAttempts opts = nullish_or (maxReconnectAttempts opts) 10"

definition pollingIdleTimeout :: "LedgerStreamOptions \<Rightarrow> int" where
  "pollingIdleTimeout opts = nullish_or (pollingIdleTimeoutMs opts) 2000"

definition pollingErrorBackoff :: "LedgerStreamOptions \<Rightarrow> int" where
  "pollingErrorBackoff opts = nullish_or (pollingErrorBackoffMs opts) 1000"

text \<open>\<open>baseUrl.replace(/^http/, "ws") + "/v2/updates"\<close>\<close>

definition wsUrl :: "LedgerStreamOptions \<Rightarrow> string" where
  "wsUrl opts =
     (let b = nullish_or (baseUrl opts) BASE_URL
      in (if prefix ''http'' b then ''ws'' @ drop 4 b else b) @ ''/v2/updates'')"

text \<open>
  What the stream does to its surroundings, in order. Sockets, timers and polling loops are
  numbered in the order of their creation. Console output is left out.
\<close>

datatype effect =
    NewWebSocket string
  | WsSend nat jval "string list"
  | WsClose nat
  | SetTimeout nat int
  | ClearTimeout nat
  | GetUpdates jval "string list" int
  | Sleep int
  | Update jval
  | Failure error
  | Uncaught error

datatype poll = Requesting | Sleeping | Finished

text \<open>
  The variables of the closure (\<open>currentOffset\<close>, \<open>closed\<close>, \<open>ws\<close>, \<open>reconnectAttempt\<close>,
  \<open>reconnectTimer\<close>) and the surroundings: the number of sockets created and those that have
  not yet emitted \<open>close\<close>, the number of timers created and those set and neither fired nor
  cleared, where each polling loop stands, and the effects so far.
\<close>

record stream =
  currentOffset :: jval
  closed :: bool
  ws :: "nat option"
  reconnectAttempt :: nat
  reconnectTimer :: "nat option"
  sockets :: nat
  live :: "nat list"
  timers :: nat
  pending :: "nat list"
  polls :: "poll list"
  trace :: "effect list"

definition emit :: "effect \<Rightarrow> stream \<Rightarrow> stream" where
  "emit e s = s\<lparr>trace := trace s @ [e]\<rparr>"

definition error_message :: "error \<Rightarrow> string" where
  "error_message e = (case e of TypeError m \<Rightarrow> m | SyntaxError m \<Rightarrow> m | Error m \<Rightarrow> m)"

definition quoted :: "string \<Rightarrow> string" where
  "quoted s = [CHR 0x27] @ s @ [CHR 0x27]"

text \<open>\<open>k in v\<close>, for a key that is not a property of arrays: a TypeError unless \<open>v\<close> is an
  object.\<close>

definition js_in :: "string \<Rightarrow> jval \<Rightarrow> error + bool" where
  "js_in k v =
     (case v of
        JObj kvs \<Rightarrow> Inr (k \<in> set (map fst kvs))
      | JArr xs \<Rightarrow> Inr False
      | _ \<Rightarrow> Inl (TypeError (''Cannot use '' @ quoted ''in'' @ '' operator to search for ''
                               @ quoted k @ '' in '' @ js_to_string v)))"

definition extractOffset :: "jval \<Rightarrow> error + jval" where
  "extractOffset item =
     ebind (js_prop item ''update'') (\<lambda>update.
     ebind (js_in ''Transaction'' update) (\<lambda>t.
       if t then
         ebind (js_prop update ''Transaction'') (\<lambda>a.
         ebind (js_prop a ''value'') (\<lambda>b. js_prop b ''offset''))
       else
         ebind (js_in ''OffsetCheckpoint'' update) (\<lambda>c.
           if c then
             ebind (js_prop update ''OffsetCheckpoint'') (\<lambda>a.
             ebind (js_prop a ''value'') (\<lambda>b. js_prop b ''offset''))
           else Inr JUndefined)))"

text \<open>\<open>opts.onError?.(err)\<close>: what it throws, if anything.\<close>

definition call_onError :: "LedgerStreamOptions \<Rightarrow> error \<Rightarrow> stream \<Rightarrow> error option \<times> stream" where
  "call_onError opts err s =
     (case onError opts of None \<Rightarrow> (None, s) | Some f \<Rightarrow> (f err, emit (Failure err) s))"

definition handleUpdate :: "LedgerStreamOptions \<Rightarrow> jval \<Rightarrow> stream \<Rightarrow> error option \<times> stream" where
  "handleUpdate opts item s =
     (case extractOffset item of
        Inl e \<Rightarrow> (Some e, s)
      | Inr offset \<Rightarrow>
          let s1 = (if offset \<noteq> JUndefined \<and> offset \<noteq> JNull then s\<lparr>currentOffset := offset\<rparr> else s)
          in (onUpdate opts item, emit (Update item) s1))"

subsection \<open>The polling loop\<close>

text \<open>The head of \<open>while (!closed)\<close> in loop \<open>p\<close>: the next request, or the end of the loop.\<close>

definition poll_next :: "LedgerStreamOptions \<Rightarrow> nat \<Rightarrow> stream \<Rightarrow> stream" where
  "poll_next opts p s =
     (if closed s then s\<lparr>polls := (polls s)[p := Finished]\<rparr>
      else emit (GetUpdates (currentOffset s) (parties opts) (pollingIdleTimeout opts))
             (s\<lparr>polls := (polls s)[p := Requesting]\<rparr>))"

text \<open>The \<open>catch\<close> clause of the loop.\<close>

definition poll_catch :: "LedgerStreamOptions \<Rightarrow> nat \<Rightarrow> error \<Rightarrow> stream \<Rightarrow> stream" where
  "poll_catch opts p err s =
     (if closed s then s\<lparr>polls := (polls s)[p := Finished]\<rparr>
      else case call_onError opts err s of
             (Some e, s') \<Rightarrow> emit (Uncaught e) (s'\<lparr>polls := (polls s')[p := Finished]\<rparr>)
           | (None, s') \<Rightarrow> emit (Sleep (pollingErrorBackoff opts)) (s'\<lparr>polls := (polls s')[p := Sleeping]\<rparr>))"

text \<open>\<open>for (const item of updates) { if (closed) break; handleUpdate(item); }\<close>\<close>

fun handle_items :: "LedgerStreamOptions \<Rightarrow> jval list \<Rightarrow> stream \<Rightarrow> error option \<times> stream" where
  "handle_items opts [] s = (None, s)"
| "handle_items opts (item # items) s =
     (if closed s then (None, s)
      else case handleUpdate opts item s of
             (Some e, s') \<Rightarrow> (Some e, s')
           | (None, s') \<Rightarrow> handle_items opts items s')"

definition startPolling :: "LedgerStreamOptions \<Rightarrow> stream \<Rightarrow> stream" where
  "startPolling opts s =
     (if closed s then s
      else poll_next opts (length (polls s)) (s\<lparr>polls := polls s @ [Requesting]\<rparr>))"

subsection \<open>The WebSocket and its reconnection\<close>

definition connect :: "LedgerStreamOptions \<Rightarrow> stream \<Rightarrow> stream" where
  "connect opts s =
     (if closed s then s
      else emit (NewWebSocket (wsUrl opts))
             (s\<lparr>ws := Some (sockets s), sockets := Suc (sockets s), live := live s @ [sockets s]\<rparr>))"

definition scheduleReconnect :: "LedgerStreamOptions \<Rightarrow> stream \<Rightarrow> stream" where
  "scheduleReconnect opts s =
     (if closed s then s
      else if maxAttempts opts \<le> int (reconnectAttempt s) then startPolling opts s
      else
        let delay = min (1000 * 2 ^ reconnectAttempt s) (maxDelay opts)
        in emit (SetTimeout (timers s) delay)
             (s\<lparr>reconnectAttempt := Suc (reconnectAttempt s), reconnectTimer := Some (timers s),
                timers := Suc (timers s), pending := pending s @ [timers s]\<rparr>))"

definition on_open :: "LedgerStreamOptions \<Rightarrow> stream \<Rightarrow> stream" where
  "on_open opts s =
     (let s1 = s\<lparr>reconnectAttempt := 0\<rparr>
      in case ws s1 of
           None \<Rightarrow> emit (Uncaught (TypeError (''Cannot read properties of null (reading ''
                                      @ quoted ''send'' @ '')''))) s1
         | Some w \<Rightarrow> emit (WsSend w (currentOffset s1) (parties opts)) s1)"

text \<open>The \<open>catch\<close> clause of the message handler.\<close>

definition message_catch :: "LedgerStreamOptions \<Rightarrow> error \<Rightarrow> stream \<Rightarrow> stream" where
  "message_catch opts e s =
     (case call_onError opts (Error (''Failed to parse WebSocket message: '' @ error_message e)) s of
        (Some e', s') \<Rightarrow> emit (Uncaught e') s'
      | (None, s') \<Rightarrow> s')"

text \<open>
  The message handler. The data arrives decoded and parsed: \<open>Inl e\<close> when \<open>JSON.parse\<close>
  throws \<open>e\<close>. \<open>stringify\<close> is \<open>JSON.stringify\<close>.
\<close>

definition on_message ::
  "(jval \<Rightarrow> string) \<Rightarrow> LedgerStreamOptions \<Rightarrow> error + jval \<Rightarrow> stream \<Rightarrow> stream" where
  "on_message stringify opts data s =
     (case data of
        Inl e \<Rightarrow> message_catch opts e s
      | Inr parsed \<Rightarrow>
          (case js_in ''error'' parsed of
             Inl e \<Rightarrow> message_catch opts e s
           | Inr True \<Rightarrow>
               (case js_prop parsed ''error'' of
                  Inl e \<Rightarrow> message_catch opts e s
                | Inr v \<Rightarrow>
                    (case call_onError opts (Error (''Ledger stream error: '' @ stringify v)) s of
                       (Some e, s') \<Rightarrow> message_catch opts e s'
                     | (None, s') \<Rightarrow> s'))
           | Inr False \<Rightarrow>
               (case handleUpdate opts parsed s of
                  (Some e, s') \<Rightarrow> message_catch opts e s'
                | (None, s') \<Rightarrow> s')))"

definition on_close :: "LedgerStreamOptions \<Rightarrow> stream \<Rightarrow> stream" where
  "on_close opts s = (if closed s then s else scheduleReconnect opts (s\<lparr>ws := None\<rparr>))"

definition on_error :: "LedgerStreamOptions \<Rightarrow> error \<Rightarrow> stream \<Rightarrow> stream" where
  "on_error opts err s =
     (if closed s then s
      else case call_onError opts err s of
             (Some e, s') \<Rightarrow> emit (Uncaught e) s'
           | (None, s') \<Rightarrow> s')"

subsection \<open>Closing\<close>

definition close :: "stream \<Rightarrow> stream" where
  "close s =
     (let s1 = s\<lparr>closed := True\<rparr>;
          s2 = (case reconnectTimer s1 of
                  None \<Rightarrow> s1
                | Some t \<Rightarrow> emit (ClearTimeout t)
                             (s1\<lparr>reconnectTimer := None, pending := removeAll t (pending s1)\<rparr>))
      in case ws s2 of
           None \<Rightarrow> s2
         | Some w \<Rightarrow> emit (WsClose w) (s2\<lparr>ws := None\<rparr>))"

subsection \<open>The stream as a machine\<close>

text \<open>
  What can happen to a stream: the caller closes it; a socket that has not yet emitted
  \<open>close\<close> emits one of its four events; a timer that is set fires; the request of a polling
  loop returns or throws; the sleep of a polling loop ends. An occurrence that cannot happen
  in the state (an event of a socket gone, a timer cleared) changes nothing.
\<close>

datatype event =
    Close
  | WsOpen nat
  | WsMessage nat "error + jval"
  | WsClosed nat
  | WsError nat error
  | TimerFired nat
  | PollReply nat "error + jval list"
  | SleepDone nat

fun step :: "(jval \<Rightarrow> string) \<Rightarrow> LedgerStreamOptions \<Rightarrow> stream \<Rightarrow> event \<Rightarrow> stream" where
  "step J opts s Close = close s"
| "step J opts s (WsOpen i) = (if i \<in> set (live s) then on_open opts s else s)"
| "step J opts s (WsMessage i data) = (if i \<in> set (live s) then on_message J opts data s else s)"
| "step J opts s (WsClosed i) =
     (if i \<in> set (live s) then on_close opts (s\<lparr>live := removeAll i (live s)\<rparr>) else s)"
| "step J opts s (WsError i err) = (if i \<in> set (live s) then on_error opts err s else s)"
| "step J opts s (TimerFired t) =
     (if t \<in> set (pending s) then connect opts (s\<lparr>pending := removeAll t (pending s)\<rparr>) else s)"
| "step J opts s (PollReply p reply) =
     (if p < length (polls s) \<and> polls s ! p = Requesting then
        (case reply of
           Inl err \<Rightarrow> poll_catch opts p err s
         | Inr items \<Rightarrow>
             (case handle_items opts items s of
                (Some err, s') \<Rightarrow> poll_catch opts p err s'
              | (None, s') \<Rightarrow> poll_next opts p s'))
      else s)"
| "step J opts s (SleepDone p) =
     (if p < length (polls s) \<and> polls s ! p = Sleeping then poll_next opts p s else s)"

definition run :: "(jval \<Rightarrow> string) \<Rightarrow> LedgerStreamOptions \<Rightarrow> stream \<Rightarrow> event list \<Rightarrow> stream" where
  "run J opts s es = foldl (step J opts) s es"

text \<open>\<open>createLedgerStream(opts)\<close>: the variables initialised and \<open>connect()\<close> called.\<close>

definition createLedgerStream :: "LedgerStreamOptions \<Rightarrow> stream" where
  "createLedgerStream opts =
     connect opts \<lparr> currentOffset = beginExclusive opts, closed = False, ws = None,
                    reconnectAttempt = 0, reconnectTimer = None, sockets = 0, live = [],
                    timers = 0, pending = [], polls = [], trace = [] \<rparr>"

text \<open>The updates handed to the handler of the caller, in order.\<close>

definition updates_of :: "effect list \<Rightarrow> jval list" where
  "updates_of es = concat (map (\<lambda>e. case e of Update u \<Rightarrow> [u] | _ \<Rightarrow> []) es)"

text \<open>A polling loop that has not ended.\<close>

definition polling :: "stream \<Rightarrow> nat \<Rightarrow> bool" where
  "polling s p = (p < length (polls s) \<and> polls s ! p \<noteq> Finished)"

subsection \<open>Notions used to state the properties of the stream\<close>

text \<open>\<open>s'\<close> differs from \<open>s\<close> in the offset and the effects at most.\<close>

definition frame :: "stream \<Rightarrow> stream \<Rightarrow> bool" where
  "frame s s' = (closed s' = closed s \<and> polls s' = polls s \<and> live s' = live s \<and>
     pending s' = pending s \<and> sockets s' = sockets s \<and> timers s' = timers s \<and> ws s' = ws s \<and>
     reconnectAttempt s' = reconnectAttempt s \<and> reconnectTimer s' = reconnectTimer s)"

text \<open>A stream that is not closed and holds socket \<open>i\<close>, the last one made and the only one
  left, with no timer set.\<close>

definition streaming :: "stream \<Rightarrow> nat \<Rightarrow> bool" where
  "streaming s i = (\<not> closed s \<and> ws s = Some i \<and> live s = [i] \<and> sockets s = Suc i \<and> pending s = [])"

text \<open>\<open>n\<close> connections lost in a row, none of them opened: socket \<open>i + k\<close> emits \<open>close\<close>, then
  timer \<open>t + k\<close> fires.\<close>

definition failures :: "nat \<Rightarrow> nat \<Rightarrow> nat \<Rightarrow> event list" where
  "failures i t n = concat (map (\<lambda>k. [WsClosed (i + k), TimerFired (t + k)]) [0..<n])"

text \<open>The timers set and the sockets made over \<open>n\<close> such losses, from attempt \<open>a\<close> on.\<close>

definition backoff_trace :: "LedgerStreamOptions \<Rightarrow> nat \<Rightarrow> nat \<Rightarrow> nat \<Rightarrow> effect list" where
  "backoff_trace opts a t n =
     concat (map (\<lambda>k. [SetTimeout (t + k) (min (1000 * 2 ^ (a + k)) (maxDelay opts)),
                        NewWebSocket (wsUrl opts)]) [0..<n])"

text \<open>The error handler of the caller, if there is one, never throws.\<close>

definition returns :: "LedgerStreamOptions \<Rightarrow> bool" where
  "returns opts = (\<forall>f e. onError opts = Some f \<longrightarrow> f e = None)"

subsection \<open>A stream to run\<close>

definition demo_stream_opts :: LedgerStreamOptions where
  "demo_stream_opts = \<lparr>
     baseUrl = None, parties = [''Issuer::1220abcdef''], beginExclusive = JNum 42,
     onUpdate = (\<lambda>_. None), onError = Some (\<lambda>_. None),
     maxReconnectDelayMs = Some 1500, maxReconnectAttempts = Some 2,
     pollingIdleTimeoutMs = None, pollingErrorBackoffMs = None \<rparr>"

definition checkpoint :: jval where
  "checkpoint = JObj [(''update'',
     JObj [(''OffsetCheckpoint'', JObj [(''value'', JObj [(''offset'', JNum 43)])])])]"

definition fetch_failed :: error where
  "fetch_failed = Error ''fetch failed''"

text \<open>The stream above after two connections lost and a third.\<close>

definition demo_polling_stream :: stream where
  "demo_polling_stream = run js_to_string demo_stream_opts (createLedgerStream demo_stream_opts)
     (failures 0 0 2 @ [WsClosed 2])"

section \<open>Lemmas: hexadecimal text and numbers\<close>

lemma ebind_Inr [simp]: "ebind (Inr x) f = f x"
  by (simp add: ebind_def)

lemma ebind_Inl [simp]: "ebind (Inl e) f = Inl e"
  by (simp add: ebind_def)

lemma hex_digit_value: "d < 16 \<Longrightarrow> charCodeToBase16 (hex_digit d) = Some d"
proof -
  assume "d < 16"
  then have "d \<in> set [0..<16]" by simp
  then show ?thesis
    unfolding upt_rec [of 0 16] upt_rec [of 1 16] 
    apply (simp add: upt_rec hex_digit_def charCodeToBase16_def)
    apply (elim disjE; simp)
    done
qed

lemma is_hex_digit_hex_digit: "d < 16 \<Longrightarrow> is_hex_digit (hex_digit d)"
  by (simp add: is_hex_digit_def hex_digit_value)

lemma digit_of_hex_digit: "d < 16 \<Longrightarrow> digit_of (hex_digit d) = d"
  by (simp add: digit_of_def hex_digit_value)

lemma digit_of_less: "digit_of c < 16"
  by (auto simp: digit_of_def charCodeToBase16_def Let_def)

lemma length_hex_of_bytes [simp]: "length (hex_of_bytes bs) = 2 * length bs"
  by (induction bs) (simp_all add: hex_of_bytes_def hex_of_byte_def)

lemma hex_of_bytes_Cons:
  "hex_of_bytes (b # bs) = hex_digit (unat b div 16) # hex_digit (unat b mod 16) # hex_of_bytes bs"
  by (simp add: hex_of_bytes_def hex_of_byte_def)

lemma hex_of_bytes_Nil [simp]: "hex_of_bytes [] = []"
  by (simp add: hex_of_bytes_def)

lemma hex_of_bytes_append: "hex_of_bytes (xs @ ys) = hex_of_bytes xs @ hex_of_bytes ys"
  by (simp add: hex_of_bytes_def)

lemma unat_byte_div16: "unat (b :: byte) div 16 < 16"
proof -
  have "unat b < 256" using unsigned_less [of b] by simp
  then show ?thesis by simp
qed

lemma byte_recompose: "(of_nat (unat (b :: byte) div 16 * 16 + unat b mod 16) :: byte) = b"
  by simp

lemma hex_pairs_hex_of_bytes: "hex_pairs (hex_of_bytes bs) = Inr bs"
  by (induction bs) (simp_all add: hex_of_bytes_Cons hex_digit_value unat_byte_div16)

lemma hex_pairs_append:
  "hex_pairs a = Inr x \<Longrightarrow> hex_pairs b = Inr y \<Longrightarrow> hex_pairs (a @ b) = Inr (x @ y)"
proof (induction a arbitrary: x rule: hex_pairs.induct)
  case 1
  then show ?case by simp
next
  case (2 a)
  then show ?case by simp
next
  case (3 a b cs)
  then show ?case
    by (auto split: option.splits sum.splits simp: ebind_def)
qed

lemma hex_pairs_valid:
  "hex_pairs s = Inr bs \<Longrightarrow> list_all is_hex_digit s \<and> even (length s) \<and> length s = 2 * length bs"
proof (induction s arbitrary: bs rule: hex_pairs.induct)
  case 1
  then show ?case by simp
next
  case (2 a)
  then show ?case by simp
next
  case (3 a b cs)
  then show ?case
    by (auto split: option.splits sum.splits simp: ebind_def is_hex_digit_def)
qed

lemma hex_pairs_total:
  "list_all is_hex_digit s \<Longrightarrow> even (length s) \<Longrightarrow> \<exists>bs. hex_pairs s = Inr bs"
proof (induction s rule: hex_pairs.induct)
  case 1
  then show ?case by simp
next
  case (2 a)
  then show ?case by simp
next
  case (3 a b cs)
  then show ?case
    by (auto split: option.splits sum.splits simp: ebind_def is_hex_digit_def)
qed

lemma length_be_bytes [simp]: "length (be_bytes w n) = w"
  by (induction w arbitrary: n) simp_all

lemma foldl_digits_acc:
  "foldl (\<lambda>acc c. acc * b + digit_of c) a s = a * b ^ length s + foldl (\<lambda>acc c. acc * b + digit_of c) 0 s"
proof (induction s arbitrary: a)
  case Nil
  then show ?case by simp
next
  case (Cons c s)
  define f where "f = (\<lambda>acc c. acc * b + digit_of c)"
  have IH: "foldl f x s = x * b ^ length s + foldl f 0 s" for x
    using Cons.IH [of x] by (simp add: f_def)
  have "foldl f a (c # s) = foldl f (a * b + digit_of c) s" by (simp add: f_def)
  also have "\<dots> = (a * b + digit_of c) * b ^ length s + foldl f 0 s" by (rule IH)
  also have "\<dots> = a * b ^ length (c # s) + (digit_of c * b ^ length s + foldl f 0 s)"
    by (simp add: algebra_simps)
  also have "digit_of c * b ^ length s + foldl f 0 s = foldl f (digit_of c) s"
    by (rule IH [symmetric])
  also have "foldl f (digit_of c) s = foldl f 0 (c # s)" by (simp add: f_def)
  finally show ?case by (simp only: f_def)
qed

lemma hex_value_Nil [simp]: "hex_value [] = 0"
  by (simp add: hex_value_def digits_value_def)

lemma hex_value_Cons: "hex_value (c # s) = digit_of c * 16 ^ length s + hex_value s"
  unfolding hex_value_def digits_value_def
  using foldl_digits_acc [of 16 "digit_of c" s] by simp

lemma hex_value_less: "hex_value s < 16 ^ length s"
proof (induction s)
  case Nil
  then show ?case by simp
next
  case (Cons c s)
  have "digit_of c \<le> 15" using digit_of_less [of c] by simp
  then have "digit_of c * 16 ^ length s \<le> 15 * 16 ^ length s" by simp
  moreover have "hex_value s < 16 ^ length s" by (rule Cons.IH)
  ultimately have "digit_of c * 16 ^ length s + hex_value s < 16 * 16 ^ length s" by linarith
  then show ?case by (simp add: hex_value_Cons)
qed

lemma hex_value_append: "hex_value (xs @ ys) = hex_value xs * 16 ^ length ys + hex_value ys"
  by (induction xs) (simp_all add: hex_value_Cons power_add algebra_simps)

lemma digit_of_zero [simp]: "digit_of CHR ''0'' = 0"
  by (simp add: digit_of_def charCodeToBase16_def)

lemma is_hex_digit_zero [simp]: "is_hex_digit CHR ''0''"
  by (simp add: is_hex_digit_def charCodeToBase16_def)

lemma hex_value_replicate_zero [simp]: "hex_value (replicate k CHR ''0'' @ s) = hex_value s"
  by (induction k) (simp_all add: hex_value_Cons)

lemma hex_value_padStart [simp]: "hex_value (padStart n CHR ''0'' s) = hex_value s"
  by (simp add: padStart_def)

lemma pow16_256: "(16::nat) ^ (2 * w) = 256 ^ w"
  by (simp add: power_mult)

lemma hex_pairs_be_bytes:
  "list_all is_hex_digit s \<Longrightarrow> length s = 2 * w \<Longrightarrow> hex_pairs s = Inr (be_bytes w (hex_value s))"
proof (induction s arbitrary: w rule: hex_pairs.induct)
  case 1
  then show ?case by simp
next
  case (2 a)
  then show ?case by simp
next
  case (3 a b cs)
  then obtain v where w: "w = Suc v" and len: "length cs = 2 * v"
    by (cases w) auto
  from 3 obtain x y where x: "charCodeToBase16 a = Some x" and y: "charCodeToBase16 b = Some y"
    by (auto simp: is_hex_digit_def)
  have da: "digit_of a = x" and db: "digit_of b = y" using x y by (simp_all add: digit_of_def)
  have IH: "hex_pairs cs = Inr (be_bytes v (hex_value cs))"
    using "3.IH" [OF refl x y _ len] "3.prems" by simp
  have lt: "hex_value cs < 256 ^ v"
    using hex_value_less [of cs] len by (simp add: pow16_256)
  have p: "(16::nat) ^ length cs = 256 ^ v" using len by (simp add: pow16_256)
  have val: "hex_value (a # b # cs) = (x * 16 + y) * 256 ^ v + hex_value cs"
    by (simp add: hex_value_Cons da db p algebra_simps)
  have "hex_value (a # b # cs) div 256 ^ v = x * 16 + y"
    using lt by (simp add: val)
  moreover have "hex_value (a # b # cs) mod 256 ^ v = hex_value cs"
    using lt by (simp add: val)
  ultimately show ?case
    using x y IH by (simp add: w)
qed

lemma hex_pairs_padStart:
  assumes "list_all is_hex_digit s" "length s \<le> 2 * w"
  shows "hex_pairs (padStart (2 * w) CHR ''0'' s) = Inr (be_bytes w (hex_value s))"
proof -
  have "list_all is_hex_digit (padStart (2 * w) CHR ''0'' s)"
    using assms by (auto simp: padStart_def list_all_iff)
  moreover have "length (padStart (2 * w) CHR ''0'' s) = 2 * w"
    using assms by (simp add: padStart_def)
  ultimately show ?thesis
    using hex_pairs_be_bytes [of "padStart (2 * w) CHR ''0'' s" w] by simp
qed

lemma hex_digits_of_valid: "list_all is_hex_digit (hex_digits_of n)"
proof (induction n rule: hex_digits_of.induct)
  case (1 n)
  then show ?case
    by (subst hex_digits_of.simps) (simp add: is_hex_digit_hex_digit)
qed

lemma hex_digits_of_value: "hex_value (hex_digits_of n) = n"
proof (induction n rule: hex_digits_of.induct)
  case (1 n)
  show ?case
  proof (cases "n < 16")
    case True
    then show ?thesis
      by (subst hex_digits_of.simps) (simp add: hex_value_Cons digit_of_hex_digit)
  next
    case False
    then have "hex_value (hex_digits_of (n div 16)) = n div 16" using 1 by simp
    then show ?thesis using False
      by (subst hex_digits_of.simps) (simp add: hex_value_append hex_value_Cons digit_of_hex_digit)
  qed
qed

lemma hex_digits_of_nonempty: "hex_digits_of n \<noteq> []"
  by (subst hex_digits_of.simps) simp

lemma hex_digits_of_length: "0 < k \<Longrightarrow> n < 16 ^ k \<Longrightarrow> length (hex_digits_of n) \<le> k"
proof (induction n arbitrary: k rule: hex_digits_of.induct)
  case (1 n)
  show ?case
  proof (cases "n < 16")
    case True
    then show ?thesis using 1(2) by (subst hex_digits_of.simps) simp
  next
    case False
    obtain j where k: "k = Suc j" using 1(2) by (cases k) auto
    have "j \<noteq> 0" using False 1(3) k by (cases j) auto
    moreover have "n div 16 < 16 ^ j" using 1(3) k
      by (simp add: less_mult_imp_div_less mult.commute)
    ultimately have "length (hex_digits_of (n div 16)) \<le> j"
      using 1(1) [of j] False by simp
    then show ?thesis using False k by (subst hex_digits_of.simps) simp
  qed
qed

lemma hex_digits_of_zero: "hex_digits_of 0 = ''0''"
  by (subst hex_digits_of.simps) (simp add: hex_digit_def)

subsection \<open>Keccak output length\<close>

lemma length_keccak_round [simp]: "length (keccak_round a r) = 25"
  by (simp add: keccak_round_def iota_def chi_def)

lemma length_keccak_f [simp]: "length (keccak_f a) = 25"
proof -
  have "keccak_f a = keccak_round (foldl keccak_round a [0..<23]) 23"
    unfolding keccak_f_def
    using foldl_append [of keccak_round a "[0..<23]" "[23]"] by (simp add: upt_rec [of 23 24] flip: upt_add_eq_append [of 0 23 1, simplified])
  then show ?thesis by simp
qed

lemma length_foldl_absorb: "length st = 25 \<Longrightarrow> length (foldl absorb st blks) = 25"
  by (induction blks arbitrary: st) (simp_all add: absorb_def)

lemma length_bytes_of_lane [simp]: "length (bytes_of_lane w) = 8"
  by (simp add: bytes_of_lane_def)

lemma length_concat_lanes: "length (concat (map bytes_of_lane st)) = 8 * length st"
  by (induction st) simp_all

lemma length_keccak_256 [simp]: "length (keccak_256 m) = 32"
  by (simp add: keccak_256_def length_concat_lanes length_foldl_absorb)

subsection \<open>viem conversions\<close>

lemma hexToBytes_0x:
  "hex_pairs h = Inr bs \<Longrightarrow> hexToBytes (CHR ''0'' # CHR ''x'' # h) = Inr bs"
  using hex_pairs_valid [of h bs] by (simp add: hexToBytes_def)

lemma isHex_0x:
  "isHex (CHR ''0'' # CHR ''x'' # h) = list_all is_hex_digit h"
  by (simp add: isHex_def)

lemma toBytes_0x:
  "hex_pairs h = Inr bs \<Longrightarrow> toBytes (CHR ''0'' # CHR ''x'' # h) = Inr bs"
  using hex_pairs_valid [of h bs] by (simp add: toBytes_def isHex_0x hexToBytes_0x)

lemma hexToBytes_total: "isHex v \<Longrightarrow> \<exists>bs. hexToBytes v = Inr bs"
proof -
  assume v: "isHex v"
  define h where "h = drop 2 v"
  define h' where "h' = (if odd (length h) then CHR ''0'' # h else h)"
  have "list_all is_hex_digit h'" using v by (simp add: isHex_def h_def h'_def)
  moreover have "even (length h')" by (simp add: h'_def)
  ultimately obtain bs where "hex_pairs h' = Inr bs" using hex_pairs_total by blast
  then show ?thesis by (auto simp: hexToBytes_def h_def h'_def Let_def)
qed

lemma toBytes_total: "\<exists>bs. toBytes v = Inr bs"
  using hexToBytes_total [of v] by (auto simp: toBytes_def)

lemma keccak256_total: "\<exists>d. length d = 32 \<and> keccak256 v = Inr (toHex d)"
proof -
  obtain bs where "toBytes v = Inr bs" using toBytes_total by blast
  then have "keccak256 v = Inr (toHex (keccak_256 bs))" by (simp add: keccak256_def)
  then show ?thesis using length_keccak_256 by blast
qed

lemma keccak256_0x:
  "hex_pairs h = Inr bs \<Longrightarrow> keccak256 (CHR ''0'' # CHR ''x'' # h) = Inr (toHex (keccak_256 bs))"
  by (simp add: keccak256_def toBytes_0x)

lemma length_toHex [simp]: "length (toHex bs) = 2 + 2 * length bs"
  by (simp add: toHex_def)

lemma hex_pairs_textToHex: "hex_pairs (textToHex s) = Inr (stringToBytes s)"
  by (simp add: textToHex_def hex_pairs_hex_of_bytes)

lemma hex_pairs_field:
  "hex_field w s \<Longrightarrow> hex_pairs (padStart (2 * w) CHR ''0'' s) = Inr (be_bytes w (hex_value s))"
  by (simp add: hex_field_def hex_pairs_padStart)

lemma hex_pairs_args:
  "list_all (\<lambda>a. list_all is_hex_digit a \<and> even (length a)) as \<Longrightarrow>
   hex_pairs (concat as) = Inr (concat (map bytes_of_hex as))"
proof (induction as)
  case Nil
  then show ?case by simp
next
  case (Cons a as)
  then have "length a = 2 * (length a div 2)" by simp
  then have "hex_pairs a = Inr (bytes_of_hex a)"
    using Cons.prems hex_pairs_be_bytes [of a "length a div 2"] by (simp add: bytes_of_hex_def)
  moreover have "hex_pairs (concat as) = Inr (concat (map bytes_of_hex as))"
    using Cons by simp
  ultimately show ?case
    using hex_pairs_append by simp
qed

lemma hex_pairs_uint32ToHex:
  assumes "0 \<le> n" "n < 2 ^ 32"
  shows "hex_pairs (uint32ToHex n) = Inr (be_bytes 4 (nat n))"
proof -
  have "nat n < 16 ^ 8" using assms by simp
  then have "length (hex_digits_of (nat n)) \<le> 2 * 4"
    using hex_digits_of_length [of 8 "nat n"] by simp
  then have "hex_pairs (padStart (2 * 4) CHR ''0'' (hex_digits_of (nat n)))
      = Inr (be_bytes 4 (hex_value (hex_digits_of (nat n))))"
    using hex_pairs_padStart [of "hex_digits_of (nat n)" 4] hex_digits_of_valid by blast
  then show ?thesis
    using assms by (simp add: uint32ToHex_def toString16_def hex_digits_of_value)
qed

lemma hex_pairs_packParams:
  assumes "valid_intent p"
  shows "hex_pairs (packParams p) = Inr (packed_intent p)"
proof -
  have f: "hex_pairs (padStart 40 CHR ''0'' (to p)) = Inr (be_bytes 20 (hex_value (to p)))"
    using assms hex_pairs_field [of 20 "to p"] by (simp add: valid_intent_def)
  have g: "hex_field 32 s \<Longrightarrow> hex_pairs (padStart 64 CHR ''0'' s) = Inr (be_bytes 32 (hex_value s))" for s
    using hex_pairs_field [of 32 s] by simp
  have a: "hex_pairs (concat (args p)) = Inr (concat (map bytes_of_hex (args p)))"
    using assms by (simp add: valid_intent_def hex_pairs_args)
  show ?thesis
    unfolding packParams_def packed_intent_def Let_def
    using assms
    by (intro hex_pairs_append f g a hex_pairs_textToHex) (simp_all add: valid_intent_def)
qed

lemma hex_pairs_request_text:
  assumes "valid_intent p" "0 \<le> keyVersion" "keyVersion < 2 ^ 32"
  shows "hex_pairs (textToHex sender @ packParams p @ textToHex caip2Id @ uint32ToHex keyVersion
                   @ textToHex path @ textToHex ''ECDSA'' @ textToHex ''ethereum'')
         = Inr (requestId_preimage sender p caip2Id keyVersion path)"
  unfolding requestId_preimage_def
  by (intro hex_pairs_append hex_pairs_textToHex hex_pairs_packParams hex_pairs_uint32ToHex assms)

lemma charCodeToBase16_less: "charCodeToBase16 c = Some d \<Longrightarrow> d < 16"
  by (auto simp: charCodeToBase16_def Let_def split: if_splits)

lemma digits_below_16: "digits_below 16 r \<longleftrightarrow> r \<noteq> [] \<and> list_all is_hex_digit r"
  by (auto simp: digits_below_def is_hex_digit_def list_all_iff charCodeToBase16_less split: option.splits)

lemma drop_white_space_id:
  assumes "\<forall>w\<in>set sp. \<not> prefix w s"
  shows "drop_white_space sp s = s"
proof -
  have "find (\<lambda>w. prefix w s) sp = None" using assms by (simp add: find_None_iff)
  then have "white_space_width sp s = 0" by (simp add: white_space_width_def)
  then show ?thesis by (simp add: drop_white_space.simps)
qed

lemma hex_digit_codes:
  "is_hex_digit c \<Longrightarrow> 48 \<le> (of_char c :: nat) \<and> (of_char c :: nat) \<le> 102"
  by (auto simp: is_hex_digit_def charCodeToBase16_def Let_def split: if_splits)

lemma no_white_space_at_hex_digit:
  assumes "is_hex_digit c"
  shows "\<forall>w\<in>set js_white_space. \<not> prefix w (c # xs)"
    and "\<forall>w\<in>set (map rev js_white_space). \<not> prefix w (c # xs)"
  using hex_digit_codes [OF assms] by (auto simp: js_white_space_def)

lemma js_trim_id:
  assumes "s \<noteq> []" "is_hex_digit (hd s)" "is_hex_digit (last s)"
  shows "js_trim s = s"
proof -
  obtain c xs where s: "s = c # xs" using assms(1) by (cases s) auto
  have a: "drop_white_space js_white_space s = s"
    using assms(2) unfolding s by (intro drop_white_space_id no_white_space_at_hex_digit) simp
  obtain ys where r: "rev s = last s # ys"
    using assms(1) by (cases s rule: rev_cases) auto
  have "drop_white_space (map rev js_white_space) (rev s) = rev s"
    unfolding r using assms(3) by (intro drop_white_space_id no_white_space_at_hex_digit)
  then show ?thesis by (simp add: js_trim_def a)
qed

text \<open>A no-break space before the literal is dropped.\<close>

lemma js_BigInt_no_break_space: "js_BigInt ([CHR 0xC2, CHR 0xA0] @ ''0x10'') = Inr 16"
proof -
  have a: "drop_white_space js_white_space ([CHR 0xC2, CHR 0xA0] @ ''0x10'') = ''0x10''"
    by (simp add: drop_white_space.simps white_space_width_def js_white_space_def)
  have "is_hex_digit CHR ''0''" by (simp add: is_hex_digit_def charCodeToBase16_def)
  then have "drop_white_space (map rev js_white_space) ''01x0'' = ''01x0''"
    by (intro drop_white_space_id no_white_space_at_hex_digit)
  then have "js_trim ([CHR 0xC2, CHR 0xA0] @ ''0x10'') = ''0x10''"
    using a by (simp add: js_trim_def)
  then show ?thesis
    by (simp add: js_BigInt_def Let_def digits_below_def digits_value_def digit_of_def
        charCodeToBase16_def)
qed

lemma js_BigInt_0x:
  assumes "r \<noteq> []" "list_all is_hex_digit r"
  shows "js_BigInt (CHR ''0'' # CHR ''x'' # r) = Inr (int (hex_value r))"
proof -
  let ?s = "CHR ''0'' # CHR ''x'' # r"
  have "is_hex_digit (last r)" using assms by (simp add: list_all_iff)
  then have "is_hex_digit (last ?s)" using assms by simp
  moreover have "is_hex_digit (hd ?s)" by (simp add: is_hex_digit_def charCodeToBase16_def)
  ultimately have "js_trim ?s = ?s" by (intro js_trim_id) simp_all
  then show ?thesis
    using assms by (simp add: js_BigInt_def Let_def digits_below_16 hex_value_def)
qed

lemma be_value_foldl_acc:
  "foldl (\<lambda>acc b. acc * 256 + unat (b :: byte)) a bs = a * 256 ^ length bs + be_value bs"
proof (induction bs arbitrary: a)
  case Nil
  then show ?case by (simp add: be_value_def)
next
  case (Cons b bs)
  define f where "f = (\<lambda>acc (b :: byte). acc * 256 + unat b)"
  have IH: "foldl f x bs = x * 256 ^ length bs + be_value bs" for x
    using Cons.IH [of x] by (simp add: f_def)
  have "foldl f a (b # bs) = foldl f (a * 256 + unat b) bs" by (simp add: f_def)
  also have "\<dots> = (a * 256 + unat b) * 256 ^ length bs + be_value bs" by (rule IH)
  also have "\<dots> = a * 256 ^ length (b # bs) + (unat b * 256 ^ length bs + be_value bs)"
    by (simp add: algebra_simps)
  also have "unat b * 256 ^ length bs + be_value bs = foldl f (unat b) bs"
    by (rule IH [symmetric])
  also have "foldl f (unat b) bs = be_value (b # bs)" by (simp add: f_def be_value_def)
  finally show ?case by (simp only: f_def)
qed

lemma be_value_Nil [simp]: "be_value [] = 0"
  by (simp add: be_value_def)

lemma be_value_Cons: "be_value (b # bs) = unat b * 256 ^ length bs + be_value bs"
  unfolding be_value_def [of "b # bs"]
  using be_value_foldl_acc [of "unat b" bs] by simp

lemma hex_value_hex_of_bytes: "hex_value (hex_of_bytes bs) = be_value bs"
proof (induction bs)
  case Nil
  then show ?case by simp
next
  case (Cons b bs)
  let ?P = "(256::nat) ^ length bs"
  have "hex_value (hex_of_bytes (b # bs))
        = unat b div 16 * (16 * ?P) + (unat b mod 16 * ?P + be_value bs)"
    using Cons
    by (simp add: hex_of_bytes_Cons hex_value_Cons digit_of_hex_digit unat_byte_div16 pow16_256)
  also have "\<dots> = (unat b div 16 * 16 + unat b mod 16) * ?P + be_value bs"
    by (simp only: distrib_right mult.assoc add.assoc)
  also have "\<dots> = unat b * ?P + be_value bs" by (simp only: div_mult_mod_eq)
  finally show ?case by (simp only: be_value_Cons)
qed

lemma hex_of_bytes_valid: "list_all is_hex_digit (hex_of_bytes bs)"
  by (induction bs) (simp_all add: hex_of_bytes_Cons is_hex_digit_hex_digit unat_byte_div16)

lemma js_BigInt_toHex:
  "bs \<noteq> [] \<Longrightarrow> js_BigInt (toHex bs) = Inr (int (be_value bs))"
proof -
  assume "bs \<noteq> []"
  then have "hex_of_bytes bs \<noteq> []" by (cases bs) (simp_all add: hex_of_bytes_Cons)
  then show ?thesis
    using js_BigInt_0x [of "hex_of_bytes bs"] hex_of_bytes_valid
    by (simp add: toHex_def hex_value_hex_of_bytes)
qed

lemma js_rem_nonneg: "0 \<le> a \<Longrightarrow> 0 < b \<Longrightarrow> js_rem a b = a mod b"
  by (cases "a = 0") (simp_all add: js_rem_def)

lemma child_scalar:
  assumes "0 \<le> (a :: int)" "0 < n"
  shows "js_rem (js_rem a n + n) n = a mod n"
proof -
  have "js_rem a n = a mod n" using assms by (rule js_rem_nonneg)
  moreover have "0 \<le> a mod n + n" using assms by (simp add: add_nonneg_nonneg)
  ultimately show ?thesis using assms by (simp add: js_rem_nonneg)
qed

lemma CURVE_ORDER_pos: "0 < CURVE_ORDER"
  by (simp add: CURVE_ORDER_def)

lemma CURVE_ORDER_less: "CURVE_ORDER < 16 ^ 64"
  by (simp add: CURVE_ORDER_def)

lemma toBytes_derivationPath:
  "toBytes (derivationPath caip2Id predecessorId path)
     = Inr (stringToBytes (derivationPath caip2Id predecessorId path))"
  by (simp add: toBytes_def isHex_def derivationPath_def EPSILON_DERIVATION_PREFIX_def)

lemma key_text_length:
  assumes "k < 16 ^ 64"
  shows "length (padStart 64 CHR ''0'' (hex_digits_of k)) = 64"
proof -
  have "length (hex_digits_of k) \<le> 64" using assms hex_digits_of_length [of 64 k] by simp
  then show ?thesis by (simp add: padStart_def)
qed

lemma js_BigInt_key_text:
  "js_BigInt (''0x'' @ padStart 64 CHR ''0'' (hex_digits_of k)) = Inr (int k)"
proof -
  let ?t = "padStart 64 CHR ''0'' (hex_digits_of k)"
  have "?t \<noteq> []" by (simp add: padStart_def hex_digits_of_nonempty)
  moreover have "list_all is_hex_digit ?t"
    using hex_digits_of_valid [of k] by (auto simp: padStart_def list_all_iff)
  ultimately have "js_BigInt (CHR ''0'' # CHR ''x'' # ?t) = Inr (int (hex_value ?t))"
    by (rule js_BigInt_0x)
  then show ?thesis by (simp add: hex_digits_of_value)
qed

lemma deriveChildPrivateKey_value:
  assumes "isHex root" "2 < length root"
  shows "deriveChildPrivateKey root pred path caip
         = Inr (''0x'' @ padStart 64 CHR ''0'' (toString16 (child_scalar_of root pred path caip)))"
proof -
  obtain r where root: "root = CHR ''0'' # CHR ''x'' # r" and r: "r \<noteq> []" "list_all is_hex_digit r"
  proof -
    from assms obtain a b r where abr: "root = a # b # r" "r \<noteq> []"
      by (cases root; cases "tl root"; cases "tl (tl root)") auto
    with assms(1) have "a = CHR ''0''" "b = CHR ''x''" "list_all is_hex_digit r"
      by (simp_all add: isHex_def)
    with abr that show ?thesis by blast
  qed
  have rk: "js_BigInt (CHR ''0'' # CHR ''x'' # r) = Inr (int (hex_value r))"
    using r by (rule js_BigInt_0x)
  let ?d = "keccak_256 (stringToBytes (derivationPath caip pred path))"
  have "?d \<noteq> []" using length_keccak_256 [of "stringToBytes (derivationPath caip pred path)"]
    by (metis length_0_conv zero_neq_numeral)
  then have ek: "js_BigInt (keccak256_bytes (stringToBytes (derivationPath caip pred path)))
                 = Inr (int (be_value ?d))"
    by (simp add: keccak256_bytes_def js_BigInt_toHex)
  have "js_rem (js_rem (int (hex_value r) + int (be_value ?d)) CURVE_ORDER + CURVE_ORDER) CURVE_ORDER
        = (int (hex_value r) + int (be_value ?d)) mod CURVE_ORDER"
    by (rule child_scalar) (simp_all add: CURVE_ORDER_pos)
  then show ?thesis
    unfolding child_scalar_of_def derivationPath_def [symmetric]
    by (simp add: deriveChildPrivateKey_def toBytes_derivationPath rk ek Let_def root)
qed


lemma hex_value_zero_Cons [simp]: "hex_value (CHR ''0'' # s) = hex_value s"
  by (simp add: hex_value_Cons)

lemma hexToBytes_bytes_of_hex:
  assumes "list_all is_hex_digit h"
  shows "hexToBytes (CHR ''0'' # CHR ''x'' # h) = Inr (bytes_of_hex h)"
proof (cases "even (length h)")
  case True
  then have "length h = 2 * ((length h + 1) div 2)" by auto
  then have "hex_pairs h = Inr (bytes_of_hex h)"
    using assms hex_pairs_be_bytes [of h "(length h + 1) div 2"] by (simp add: bytes_of_hex_def)
  then show ?thesis using True by (simp add: hexToBytes_def)
next
  case False
  then have "length (CHR ''0'' # h) = 2 * ((length h + 1) div 2)" by auto
  then have "hex_pairs (CHR ''0'' # h) = Inr (be_bytes ((length h + 1) div 2) (hex_value (CHR ''0'' # h)))"
    using assms hex_pairs_be_bytes [of "CHR ''0'' # h" "(length h + 1) div 2"] by simp
  then show ?thesis using False by (simp add: hexToBytes_def bytes_of_hex_def)
qed

lemma keccak256_hex_text:
  assumes "list_all is_hex_digit h"
  shows "keccak256 (CHR ''0'' # CHR ''x'' # h) = Inr (toHex (keccak_256 (bytes_of_hex h)))"
  using assms by (simp add: keccak256_def toBytes_def isHex_0x hexToBytes_bytes_of_hex)

lemma drop_hex_of_bytes: "drop (2 * n) (hex_of_bytes bs) = hex_of_bytes (drop n bs)"
proof (induction bs arbitrary: n)
  case Nil
  then show ?case by simp
next
  case (Cons b bs)
  show ?case
  proof (cases n)
    case 0
    then show ?thesis by simp
  next
    case (Suc m)
    then show ?thesis using Cons [of m] by (simp add: hex_of_bytes_Cons)
  qed
qed

lemma js_rem_twice:
  assumes "0 < n"
  shows "js_rem (js_rem a n + n) n = a mod n"
proof (cases "0 \<le> a")
  case True
  then show ?thesis using assms by (rule child_scalar)
next
  case False
  define m where "m = (- a) mod n"
  have m: "0 \<le> m" "m < n" using assms by (simp_all add: m_def)
  have r: "js_rem a n = - m" using False assms by (simp add: js_rem_def m_def)
  have "js_rem (n - m) n = (n - m) mod n"
    using m assms by (intro js_rem_nonneg) simp_all
  also have "\<dots> = (- m) mod n" by (metis add.commute mod_add_self2 uminus_add_conv_diff)
  also have "\<dots> = a mod n" unfolding m_def by (simp add: mod_minus_eq)
  finally show ?thesis by (simp add: r)
qed

lemma deriveChildPrivateKey_unfold:
  "deriveChildPrivateKey root pred path caip =
     ebind (js_BigInt root) (\<lambda>k. Inr (''0x'' @ padStart 64 CHR ''0'' (toString16
       ((k + int (be_value (keccak_256 (stringToBytes (derivationPath caip pred path)))))
         mod CURVE_ORDER))))"
proof -
  let ?d = "keccak_256 (stringToBytes (derivationPath caip pred path))"
  have "?d \<noteq> []" using length_keccak_256 [of "stringToBytes (derivationPath caip pred path)"]
    by (metis length_0_conv zero_neq_numeral)
  then have ek: "js_BigInt (keccak256_bytes (stringToBytes (derivationPath caip pred path)))
                 = Inr (int (be_value ?d))"
    by (simp add: keccak256_bytes_def js_BigInt_toHex)
  show ?thesis
    by (cases "js_BigInt root")
       (simp_all add: deriveChildPrivateKey_def toBytes_derivationPath ek Let_def
          js_rem_twice CURVE_ORDER_pos)
qed

lemma deriveChildPrivateKey_raises:
  "(\<exists>e. deriveChildPrivateKey root pred path caip = Inl e) \<longleftrightarrow> (\<exists>e. js_BigInt root = Inl e)"
  by (cases "js_BigInt root") (simp_all add: deriveChildPrivateKey_unfold)

lemma child_scalar_of_range:
  "0 \<le> child_scalar_of root pred path caip \<and> child_scalar_of root pred path caip < CURVE_ORDER"
  by (simp add: child_scalar_of_def CURVE_ORDER_pos)

lemma js_BigInt_child_key:
  assumes "0 \<le> k" "k < CURVE_ORDER"
  shows "js_BigInt (''0x'' @ padStart 64 CHR ''0'' (toString16 k)) = Inr k"
  using assms js_BigInt_key_text [of "nat k"] by (simp add: toString16_def)

lemma length_child_key:
  assumes "0 \<le> k" "k < CURVE_ORDER"
  shows "length (''0x'' @ padStart 64 CHR ''0'' (toString16 k)) = 66"
proof -
  have "k < 16 ^ 64" using assms CURVE_ORDER_less by linarith
  then have "nat k < nat (16 ^ 64)" using assms by (simp only: nat_less_eq_zless)
  then have "nat k < 16 ^ 64" by simp
  then show ?thesis using assms key_text_length [of "nat k"] by (simp add: toString16_def)
qed

lemma replicate_numeral_unfold: "replicate (numeral k) x = x # replicate (pred_numeral k) x"
  by (simp add: numeral_eq_Suc)

section \<open>Lemmas: the handlers\<close>

lemma extends_with_ids_refl [simp]: "extends_with_ids E w w"
  by (simp add: extends_with_ids_def)

lemma extends_with_ids_trans:
  assumes "extends_with_ids E w w1" and "extends_with_ids E w1 w2"
  shows "extends_with_ids E w w2"
proof -
  from assms(1) obtain xs where xs: "submissions w1 = submissions w @ xs"
      "uuid_count w1 = uuid_count w + length xs"
      "map commandId xs = map (randomUUID E) [uuid_count w..<uuid_count w + length xs]"
    unfolding extends_with_ids_def by blast
  from assms(2) obtain ys where ys: "submissions w2 = submissions w1 @ ys"
      "uuid_count w2 = uuid_count w1 + length ys"
      "map commandId ys = map (randomUUID E) [uuid_count w1..<uuid_count w1 + length ys]"
    unfolding extends_with_ids_def by blast
  have "[uuid_count w..<(uuid_count w + length xs) + length ys]
      = [uuid_count w..<uuid_count w + length xs]
        @ [uuid_count w + length xs..<(uuid_count w + length xs) + length ys]"
    by (rule upt_add_eq_append) simp
  then have "map (randomUUID E) [uuid_count w..<(uuid_count w + length xs) + length ys]
      = map commandId xs @ map commandId ys"
    using xs(2) xs(3) ys(3) by (simp only: map_append)
  then have "map commandId (xs @ ys)
      = map (randomUUID E) [uuid_count w..<uuid_count w + length (xs @ ys)]"
    by (simp only: map_append length_append add.assoc)
  moreover have "submissions w2 = submissions w @ (xs @ ys)" using xs ys by simp
  moreover have "uuid_count w2 = uuid_count w + length (xs @ ys)" using xs ys by simp
  ultimately show ?thesis unfolding extends_with_ids_def by blast
qed

lemma draws_ids_return: "draws_ids E (io_return x)"
  by (simp add: draws_ids_def io_return_def)

lemma draws_ids_lift: "draws_ids E (io_lift r)"
  by (simp add: draws_ids_def io_lift_def)

lemma draws_ids_bind:
  assumes "draws_ids E m" and "\<And>x. draws_ids E (f x)"
  shows "draws_ids E (io_bind m f)"
  unfolding draws_ids_def
proof
  fix w
  obtain r w1 where m: "m w = (r, w1)" by (cases "m w")
  have 1: "extends_with_ids E w w1"
    using assms(1) [unfolded draws_ids_def, rule_format, of w] m by simp
  show "extends_with_ids E w (snd (io_bind m f w))"
  proof (cases r)
    case (Inl e)
    then show ?thesis using m 1 by (simp add: io_bind_def)
  next
    case (Inr x)
    have "extends_with_ids E w1 (snd (f x w1))"
      using assms(2) [of x, unfolded draws_ids_def, rule_format, of w1] .
    with 1 have "extends_with_ids E w (snd (f x w1))" by (rule extends_with_ids_trans)
    then show ?thesis using m Inr by (simp add: io_bind_def)
  qed
qed

lemma draws_ids_catch:
  assumes "draws_ids E m" and "\<And>e. draws_ids E (h e)"
  shows "draws_ids E (io_catch m h)"
  unfolding draws_ids_def
proof
  fix w
  obtain r w1 where m: "m w = (r, w1)" by (cases "m w")
  have 1: "extends_with_ids E w w1"
    using assms(1) [unfolded draws_ids_def, rule_format, of w] m by simp
  show "extends_with_ids E w (snd (io_catch m h w))"
  proof (cases r)
    case (Inr x)
    then show ?thesis using m 1 by (simp add: io_catch_def)
  next
    case (Inl e)
    have "extends_with_ids E w1 (snd (h e w1))"
      using assms(2) [of e, unfolded draws_ids_def, rule_format, of w1] .
    with 1 have "extends_with_ids E w (snd (h e w1))" by (rule extends_with_ids_trans)
    then show ?thesis using m Inl by (simp add: io_catch_def)
  qed
qed

lemma draws_ids_submitAndWait: "draws_ids E (submitAndWait E u a c)"
  by (auto simp: draws_ids_def extends_with_ids_def submitAndWait_def Let_def split: reply.splits)

lemma draws_ids_exerciseChoice: "draws_ids E (exerciseChoice E u a t c ch arg)"
  by (simp add: exerciseChoice_def draws_ids_submitAndWait)

lemma draws_ids_getActiveContracts: "draws_ids E (getActiveContracts E ps t)"
  by (simp add: draws_ids_def getActiveContracts_def)

lemma draws_ids_submitRawTransaction: "draws_ids E (submitRawTransaction E u raw)"
  by (simp add: draws_ids_def extends_with_ids_def submitRawTransaction_def)

lemma draws_ids_waitForTransactionReceipt: "draws_ids E (waitForTransactionReceipt E u h)"
  by (simp add: draws_ids_def extends_with_ids_def waitForTransactionReceipt_def)

lemma draws_ids_case_option:
  "draws_ids E a \<Longrightarrow> (\<And>x. draws_ids E (b x)) \<Longrightarrow> draws_ids E (case v of None \<Rightarrow> a | Some x \<Rightarrow> b x)"
  by (cases v) simp_all

lemma draws_ids_case_prod3:
  "(\<And>a b c. draws_ids E (f a b c)) \<Longrightarrow> draws_ids E (case p of (a, b, c) \<Rightarrow> f a b c)"
  by (cases p) simp

lemma draws_ids_handlePendingEvmDeposit: "draws_ids E (handlePendingEvmDeposit L E p)"
  unfolding handlePendingEvmDeposit_def Let_def
  by (intro draws_ids_bind draws_ids_lift draws_ids_catch draws_ids_return
      draws_ids_exerciseChoice draws_ids_waitForTransactionReceipt draws_ids_case_prod3)

lemma draws_ids_handleEcdsaSignature: "draws_ids E (handleEcdsaSignature L E p)"
  unfolding handleEcdsaSignature_def Let_def
  by (intro draws_ids_bind draws_ids_lift draws_ids_return draws_ids_getActiveContracts
      draws_ids_submitRawTransaction draws_ids_case_option)

lemma draws_ids_handleEvmTxOutcomeSignature: "draws_ids E (handleEvmTxOutcomeSignature E p)"
  unfolding handleEvmTxOutcomeSignature_def Let_def
  by (intro draws_ids_bind draws_ids_lift draws_ids_return draws_ids_getActiveContracts
      draws_ids_exerciseChoice draws_ids_case_option)

lemma follows_return: "follows (io_return x) []"
  by (simp add: follows_def io_return_def choices_def)

lemma follows_lift: "follows (io_lift r) []"
  by (simp add: follows_def io_lift_def choices_def)

lemma follows_waitForTransactionReceipt: "follows (waitForTransactionReceipt E u h) []"
  by (simp add: follows_def waitForTransactionReceipt_def choices_def)

lemma follows_exerciseChoice: "follows (exerciseChoice E u a t c ch arg) [[Some ch]]"
  by (auto simp: follows_def exerciseChoice_def submitAndWait_def choices_def Let_def
      split: reply.splits)

lemma choices_append: "choices (xs @ ys) = choices xs @ choices ys"
  by (simp add: choices_def)

lemma follows_bind:
  assumes "follows m T1" and "\<And>x. follows (f x) T2"
  shows "follows (io_bind m f) (T1 @ T2)"
  unfolding follows_def
proof
  fix w
  obtain r w1 where m: "m w = (r, w1)" by (cases "m w")
  from assms(1) [unfolded follows_def, rule_format, of w] m
  obtain xs where xs: "submissions w1 = submissions w @ xs" "prefix (choices xs) T1"
      "isl r \<or> choices xs = T1" by auto
  show "\<exists>xs. submissions (snd (io_bind m f w)) = submissions w @ xs \<and>
            prefix (choices xs) (T1 @ T2) \<and> (isl (fst (io_bind m f w)) \<or> choices xs = T1 @ T2)"
  proof (cases r)
    case (Inl e)
    have "prefix (choices xs) (T1 @ T2)" using xs(2) by (rule prefix_prefix)
    then show ?thesis using m xs Inl by (auto simp: io_bind_def)
  next
    case (Inr x)
    obtain r2 w2 where f: "f x w1 = (r2, w2)" by (cases "f x w1")
    from assms(2) [of x, unfolded follows_def, rule_format, of w1] f
    obtain ys where ys: "submissions w2 = submissions w1 @ ys" "prefix (choices ys) T2"
      "isl r2 \<or> choices ys = T2" by auto
    have c: "choices xs = T1" using xs(3) Inr by simp
    have "submissions w2 = submissions w @ (xs @ ys)" using xs ys by simp
    moreover have "prefix (choices (xs @ ys)) (T1 @ T2)"
      using ys(2) by (simp add: choices_append c)
    moreover have "isl r2 \<or> choices (xs @ ys) = T1 @ T2"
      using ys(3) by (auto simp: choices_append c)
    ultimately show ?thesis using m f Inr by (auto simp: io_bind_def simp del: choices_append)
  qed
qed

lemma follows_bind_silent:
  assumes "follows m []" and "\<And>x. follows (f x) T"
  shows "follows (io_bind m f) T"
  using follows_bind [OF assms] by simp

lemma follows_exercise_then:
  assumes "\<And>x. follows (f x) T"
  shows "follows (io_bind (exerciseChoice E u a t c ch arg) f) ([Some ch] # T)"
  using follows_bind [OF follows_exerciseChoice assms] by simp

lemma follows_catch_silent:
  assumes "follows m []" and "\<And>e. follows (h e) []"
  shows "follows (io_catch m h) []"
  unfolding follows_def
proof
  fix w
  obtain r w1 where m: "m w = (r, w1)" by (cases "m w")
  from assms(1) [unfolded follows_def, rule_format, of w] m
  have 1: "submissions w1 = submissions w" by (auto simp: choices_def)
  show "\<exists>xs. submissions (snd (io_catch m h w)) = submissions w @ xs \<and>
            prefix (choices xs) [] \<and> (isl (fst (io_catch m h w)) \<or> choices xs = [])"
  proof (cases r)
    case (Inr x)
    then show ?thesis using m 1 by (auto simp: io_catch_def choices_def)
  next
    case (Inl e)
    from assms(2) [of e, unfolded follows_def, rule_format, of w1]
    have "submissions (snd (h e w1)) = submissions w1" by (auto simp: choices_def)
    then show ?thesis using m 1 Inl by (auto simp: io_catch_def choices_def)
  qed
qed

lemma follows_case_prod3:
  "(\<And>a b c. follows (f a b c) T) \<Longrightarrow> follows (case p of (a, b, c) \<Rightarrow> f a b c) T"
  by (cases p) simp

lemma follows_handlePendingEvmDeposit:
  "follows (handlePendingEvmDeposit L E p) [[Some ''SignEvmTx''], [Some ''ProvideEvmOutcomeSig'']]"
  unfolding handlePendingEvmDeposit_def Let_def
  by (intro follows_exercise_then follows_bind_silent follows_lift follows_return
      follows_catch_silent follows_waitForTransactionReceipt follows_case_prod3)

lemmas run_defs = io_bind_def io_lift_def io_catch_def io_return_def exerciseChoice_def
  submitAndWait_def waitForTransactionReceipt_def submitRawTransaction_def getActiveContracts_def
  choices_def Let_def

lemma handleEvmTxOutcomeSignature_commands:
  "\<exists>xs. submissions (snd (handleEvmTxOutcomeSignature E p w)) = submissions w @ xs \<and>
        choices xs \<in> {[], [[Some ''ClaimEvmDeposit'']]}"
  by (auto simp: handleEvmTxOutcomeSignature_def run_defs
      split: sum.splits prod.splits option.splits reply.splits)

lemma handleEcdsaSignature_no_command:
  "submissions (snd (handleEcdsaSignature L E p w)) = submissions w"
  by (auto simp: handleEcdsaSignature_def run_defs split: sum.splits prod.splits option.splits)

lemma handleEcdsaSignature_skip:
  assumes "js_prop (createArgument (sp_event p)) ''requestId'' = Inr rid"
    and "active_contracts E (submissions w) [sp_issuerParty p] ''Erc20Vault:PendingEvmDeposit'' = Inr cs"
    and "find_request rid cs = Inr None"
  shows "handleEcdsaSignature L E p w = (Inr (), w)"
proof -
  from assms(1) have "\<exists>x. js_prop (createArgument (sp_event p)) k = Inr x" for k
    by (cases "createArgument (sp_event p)") (simp_all add: js_prop_def)
  then obtain r s v where "js_prop (createArgument (sp_event p)) ''r'' = Inr r"
    "js_prop (createArgument (sp_event p)) ''s'' = Inr s"
    "js_prop (createArgument (sp_event p)) ''v'' = Inr v" by blast
  then show ?thesis using assms
    by (simp add: handleEcdsaSignature_def run_defs)
qed

lemma handleEvmTxOutcomeSignature_skip:
  assumes "js_prop (createArgument (op_event p)) ''requestId'' = Inr rid"
    and "active_contracts E (submissions w) [op_issuerParty p] ''Erc20Vault:PendingEvmDeposit'' = Inr cs"
    and "find_request rid cs = Inr None"
  shows "handleEvmTxOutcomeSignature E p w = (Inr (), w)"
  using assms by (simp add: handleEvmTxOutcomeSignature_def run_defs)

lemma find_Some_prefix:
  "find P xs = Some x \<Longrightarrow> x \<in> set xs \<and> P x"
  by (induction xs) (auto split: if_splits)

lemma find_exists: "\<exists>x\<in>set xs. P x \<Longrightarrow> \<exists>y. find P xs = Some y"
  by (induction xs) auto

lemma findPartyByHint_found:
  assumes "parties_reply E (party_calls w) = Data (Some ps)"
    and "find (party_with_hint hint) ps = Some (Some party)"
  shows "findPartyByHint E hint w = (Inr (Some party), w\<lparr>party_calls := Suc (party_calls w)\<rparr>)"
  using assms by (simp add: findPartyByHint_def Let_def)

lemma allocateParty_existing:
  assumes "allocate_reply E (party_calls w) hint = ErrorBody msg"
    and "str_includes msg ''Party already exists''"
    and "parties_reply E (Suc (party_calls w)) = Data (Some ps)"
    and "\<exists>p\<in>set ps. party_with_hint hint p"
  shows "\<exists>party. fst (allocateParty E hint w) = Inr party \<and> prefix (hint @ ''::'') party \<and>
           find (party_with_hint hint) ps = Some (Some party)"
proof -
  obtain y where y: "find (party_with_hint hint) ps = Some y"
    using find_exists [OF assms(4)] ..
  then have "party_with_hint hint y" using find_Some_prefix [OF y] by simp
  then obtain party where p: "y = Some party" "prefix (hint @ ''::'') party"
    by (cases y) (simp_all add: party_with_hint_def)
  from p(2) obtain zs where "party = (hint @ ''::'') @ zs" by (rule prefixE)
  then have ne: "party \<noteq> []" by simp
  have f: "find (party_with_hint hint) ps = Some (Some party)"
    using y p(1) by simp
  let ?w1 = "w\<lparr>party_calls := Suc (party_calls w)\<rparr>"
  have "findPartyByHint E hint ?w1 = (Inr (Some party), ?w1\<lparr>party_calls := Suc (party_calls ?w1)\<rparr>)"
    using assms(3) f by (intro findPartyByHint_found) simp_all
  then have "fst (allocateParty E hint w) = Inr party"
    using assms(1,2) ne
    by (simp add: allocateParty_def io_bind_def io_return_def Let_def)
  with p(2) f show ?thesis by (intro exI [of _ party] conjI)
qed

lemma js_BigInt_hex_literal:
  "r \<noteq> [] \<Longrightarrow> list_all is_hex_digit r \<Longrightarrow> \<exists>n. js_BigInt (CHR ''0'' # CHR ''x'' # r) = Inr n"
  by (simp add: js_BigInt_0x)

lemma demo_libs_simps:
  "toFunctionSelector demo_libs x = Inr ''0xa9059cbb''"
  "serializeTransaction demo_libs tx sg = Inr ''0x02c0''"
  "secp256k1_sign_recovered demo_libs m k = Inr (replicate 65 1)"
  "secp256k1_sign_compact demo_libs m k = Inr (replicate 64 1)"
  "DER_hexFromSig demo_libs r s = Inr ''3006020101020101''"
  by (simp_all add: demo_libs_def)

lemma demo_env_simps:
  "randomUUID demo_env n = (if n = 0 then ''3b241101-e2bb-4255-8caf-4136c566a962''
                        else ''9f1c2d0a-5b7e-4c3d-8a21-0e6f4b9d7c15'')"
  "submit_reply demo_env h r = Data (JObj [])"
  "active_contracts demo_env h ps t = Inr [anchor_event]"
  "send_reply demo_env c raw = Inr ''0x8f3a''"
  "receipt_reply demo_env c hash = Inr success"
  by (simp_all add: demo_env_def)

lemma demo_signEvmTxHash:
  "signEvmTxHash demo_libs k h
     = Inr (hex_of_bytes (replicate 32 1), hex_of_bytes (replicate 32 1), JNum 1)"
proof -
  obtain a where a: "toBytes h = Inr a" using toBytes_total by blast
  obtain b where b: "toBytes k = Inr b" using toBytes_total by blast
  have "(case replicate 65 (1 :: byte) of [] \<Rightarrow> JUndefined | c # _ \<Rightarrow> JNum (uint c)) = JNum 1"
    by (simp add: replicate_numeral_unfold)
  then show ?thesis
    by (simp add: signEvmTxHash_def demo_libs_simps a b Let_def)
qed

lemma demo_signMpcResponse:
  "signMpcResponse demo_libs k rid out = Inr ''3006020101020101''"
proof -
  obtain h where h: "keccak256 (''0x'' @ rid @ out) = Inr h" using keccak256_total by blast
  obtain a where a: "toBytes h = Inr a" using toBytes_total by blast
  obtain b where b: "toBytes k = Inr b" using toBytes_total by blast
  have "js_BigInt (toHex (replicate 32 1)) = Inr (int (be_value (replicate 32 1)))"
    by (rule js_BigInt_toHex) simp
  then have c: "js_BigInt (CHR ''0'' # CHR ''x'' # hex_of_bytes (replicate 32 1))
      = Inr (int (be_value (replicate 32 1)))"
    by (simp add: toHex_def)
  show ?thesis
    using h by (simp add: signMpcResponse_def demo_libs_simps a b c)
qed

lemma sample_calldata:
  "calldata_of_params demo_libs (evmParams_json sampleEvmParams)
   = Inr ''0xa9059cbb000000000000000000000000d8da6bf26964af9d7eed9e03e53415d37aa960450000000000000000000000000000000000000000000000000000000005f5e100''"
  by (simp add: calldata_of_params_def evmParams_json_def sampleEvmParams_def js_prop_def
      args_as_hex_def buildCalldata_def demo_libs_simps concatHex_def)

lemma sample_tx_fields: "\<exists>tx. tx_of_params (evmParams_json sampleEvmParams) c = Inr tx"
proof -
  have f: "\<exists>n. bigint_field (evmParams_json sampleEvmParams) k = Inr n"
    if "k \<in> {''chainId'', ''nonce'', ''maxPriorityFee'', ''maxFeePerGas'', ''gasLimit'', ''value''}" for k
    using that
    by (auto simp: bigint_field_def evmParams_json_def sampleEvmParams_def js_prop_def
        js_BigInt_0x is_hex_digit_def charCodeToBase16_def)
  obtain n1 n2 n3 n4 n5 n6 where
    "bigint_field (evmParams_json sampleEvmParams) ''chainId'' = Inr n1"
    "bigint_field (evmParams_json sampleEvmParams) ''nonce'' = Inr n2"
    "bigint_field (evmParams_json sampleEvmParams) ''maxPriorityFee'' = Inr n3"
    "bigint_field (evmParams_json sampleEvmParams) ''maxFeePerGas'' = Inr n4"
    "bigint_field (evmParams_json sampleEvmParams) ''gasLimit'' = Inr n5"
    "bigint_field (evmParams_json sampleEvmParams) ''value'' = Inr n6"
    using f by (metis insertCI)
  moreover have "\<exists>t. js_prop (evmParams_json sampleEvmParams) ''to'' = Inr t"
    by (simp add: evmParams_json_def js_prop_def)
  ultimately show ?thesis
    by (auto simp: tx_of_params_def)
qed

lemma sample_serializeUnsignedTx:
  "serializeUnsignedTx demo_libs (evmParams_json sampleEvmParams) = Inr ''0x02c0''"
proof -
  obtain tx where "tx_of_params (evmParams_json sampleEvmParams)
     ''0xa9059cbb000000000000000000000000d8da6bf26964af9d7eed9e03e53415d37aa960450000000000000000000000000000000000000000000000000000000005f5e100'' = Inr tx"
    using sample_tx_fields by blast
  then show ?thesis
    by (simp add: serializeUnsignedTx_def sample_calldata demo_libs_simps)
qed

lemma sample_reconstructSignedTx:
  "reconstructSignedTx demo_libs (evmParams_json sampleEvmParams) sig = Inr ''0x02c0''"
proof -
  obtain tx where "tx_of_params (evmParams_json sampleEvmParams)
     ''0xa9059cbb000000000000000000000000d8da6bf26964af9d7eed9e03e53415d37aa960450000000000000000000000000000000000000000000000000000000005f5e100'' = Inr tx"
    using sample_tx_fields by blast
  then show ?thesis
    by (simp add: reconstructSignedTx_def sample_calldata demo_libs_simps)
qed

lemma js_prop_JObj:
  "js_prop (JObj kvs) k = Inr (case map_of kvs k of Some x \<Rightarrow> x | None \<Rightarrow> JUndefined)"
  by (simp add: js_prop_def)

lemma evmParams_json_chainId:
  "js_prop (evmParams_json p) ''chainId'' = Inr (JStr (chainId p))"
  by (simp add: evmParams_json_def js_prop_def)

lemma evmParams_json_args:
  "js_prop (evmParams_json p) ''args'' = Inr (JArr (map JStr (args p)))"
  by (simp add: evmParams_json_def js_prop_def)

lemma sample_chain:
  "hexChainIdToDecimal (JStr (chainId sampleEvmParams)) = Inr (Num 11155111)"
proof -
  have "js_BigInt ''0xaa36a7'' = Inr (int (hex_value ''aa36a7''))"
    by (rule js_BigInt_0x) (simp_all add: is_hex_digit_def charCodeToBase16_def)
  moreover have "hex_value ''aa36a7'' = 11155111"
    by (simp add: hex_value_def digits_value_def digit_of_def charCodeToBase16_def)
  ultimately show ?thesis
    by (simp add: hexChainIdToDecimal_def sampleEvmParams_def number_of_bigint_def)
qed

lemma sample_caip2Id:
  "jsnum_to_string L (Num 11155111) = ''11155111''"
  by (simp add: jsnum_to_string_def int_toString_def dec_digits_of.simps hex_digit_def)

lemma demo_handlePendingEvmDeposit_run:
  "fst (handlePendingEvmDeposit demo_libs demo_env demo_deposit_params world0) = Inr () \<and>
   map commandId (submissions (snd (handlePendingEvmDeposit demo_libs demo_env demo_deposit_params world0)))
     = [''3b241101-e2bb-4255-8caf-4136c566a962'', ''9f1c2d0a-5b7e-4c3d-8a21-0e6f4b9d7c15''] \<and>
   choices (submissions (snd (handlePendingEvmDeposit demo_libs demo_env demo_deposit_params world0)))
     = [[Some ''SignEvmTx''], [Some ''ProvideEvmOutcomeSig'']]"
proof -
  obtain txHash where 1: "keccak256 ''0x02c0'' = Inr txHash" using keccak256_total by blast
  have "isHex MPC_ROOT_PRIVATE_KEY" "2 < length MPC_ROOT_PRIVATE_KEY"
    by (simp_all add: MPC_ROOT_PRIVATE_KEY_def isHex_def is_hex_digit_def charCodeToBase16_def)
  then obtain child where 2: "deriveChildPrivateKey MPC_ROOT_PRIVATE_KEY ''Issuer::1220abcdef''
      ''m/44/60/0/0'' ''eip155:11155111'' = Inr child"
    using deriveChildPrivateKey_value by blast
  show ?thesis
    by (simp add: handlePendingEvmDeposit_def demo_deposit_params_def anchor_event_def
        js_prop_JObj evmParams_json_chainId sample_chain sample_caip2Id sample_serializeUnsignedTx 1 2
        demo_signEvmTxHash sample_reconstructSignedTx demo_signMpcResponse
        io_bind_def io_lift_def io_catch_def io_return_def exerciseChoice_def submitAndWait_def
        waitForTransactionReceipt_def demo_env_simps world0_def choices_def Let_def
        VAULT_ORCHESTRATOR_def)
qed

lemma anchor_event_simps:
  "js_prop (createArgument anchor_event) ''requestId'' = Inr (JStr demo_requestId)"
  "js_prop (createArgument anchor_event) ''evmParams'' = Inr (evmParams_json sampleEvmParams)"
  "contractId anchor_event = ''00a1pending''"
  by (simp_all add: anchor_event_def js_prop_def)

lemma find_request_anchor:
  "find_request (JStr demo_requestId) [anchor_event] = Inr (Some anchor_event)"
  by (simp add: anchor_event_simps)

lemma demo_outcome_run:
  "handleEvmTxOutcomeSignature demo_env demo_outcome_params w =
     (Inr (), w\<lparr>uuid_count := Suc (uuid_count w),
                submissions := submissions w @
                  [\<lparr> commands = [ExerciseCommand ''Erc20Vault:VaultOrchestrator'' ''00d4orchestrator''
                        ''ClaimEvmDeposit''
                        (JObj [(''pendingCid'', JStr ''00a1pending''),
                               (''outcomeCid'', JStr ''00b2outcome''),
                               (''amount'', JStr ''100000000'')])],
                     commandId = randomUUID demo_env (uuid_count w),
                     userId = ''relayer'', actAs = [''Issuer::1220abcdef''],
                     readAs = [''Issuer::1220abcdef''] \<rparr>]\<rparr>)"
proof -
  have r: "js_prop (createArgument outcome_event) ''requestId'' = Inr (JStr demo_requestId)"
    "contractId outcome_event = ''00b2outcome''"
    by (simp_all add: outcome_event_def js_prop_def)
  have a: "js_index (JArr (map JStr (args sampleEvmParams))) (Suc 0)
     = Inr (JStr ''0000000000000000000000000000000000000000000000000000000005f5e100'')"
    by (simp add: js_index_def sampleEvmParams_def)
  have b: "js_BigInt ''0x0000000000000000000000000000000000000000000000000000000005f5e100''
     = Inr 100000000"
  proof -
    have "js_BigInt ''0x0000000000000000000000000000000000000000000000000000000005f5e100''
     = Inr (int (hex_value ''0000000000000000000000000000000000000000000000000000000005f5e100''))"
      by (rule js_BigInt_0x) (simp_all add: is_hex_digit_def charCodeToBase16_def)
    moreover have "hex_value ''0000000000000000000000000000000000000000000000000000000005f5e100''
     = 100000000"
      by (simp add: hex_value_def digits_value_def digit_of_def charCodeToBase16_def)
    ultimately show ?thesis by simp
  qed
  have c: "int_toString 100000000 = ''100000000''"
    by (simp add: int_toString_def dec_digits_of.simps hex_digit_def)
  show ?thesis
    by (simp add: handleEvmTxOutcomeSignature_def demo_outcome_params_def r
        io_bind_def io_lift_def io_return_def getActiveContracts_def demo_env_simps(2,3)
        find_request_anchor anchor_event_simps evmParams_json_args a b c
        exerciseChoice_def submitAndWait_def Let_def)
qed

lemma demo_outcome_twice:
  "map commandId (submissions (snd (handleEvmTxOutcomeSignature demo_env demo_outcome_params
       (snd (handleEvmTxOutcomeSignature demo_env demo_outcome_params world0)))))
     = [''3b241101-e2bb-4255-8caf-4136c566a962'', ''9f1c2d0a-5b7e-4c3d-8a21-0e6f4b9d7c15'']"
  by (simp add: demo_outcome_run world0_def demo_env_simps(1))

lemma demo_signature_run:
  "handleEcdsaSignature demo_libs demo_env demo_signature_params world0 =
     (Inr (), world0\<lparr>rpc_calls := [SendRawTransaction ''http://localhost:8545'' ''0x02c0'']\<rparr>)"
proof -
  have r: "js_prop (createArgument signature_event) k
      = Inr (case map_of [(''issuer'', JStr ''Issuer::1220abcdef''), (''requestId'', JStr demo_requestId),
        (''r'', JStr ''0101''), (''s'', JStr ''0101''), (''v'', JNum 1)] k of Some x \<Rightarrow> x | None \<Rightarrow> JUndefined)" for k
    by (simp add: signature_event_def js_prop_def)
  show ?thesis
    by (simp add: handleEcdsaSignature_def demo_signature_params_def r
        io_bind_def io_lift_def io_return_def getActiveContracts_def demo_env_simps
        find_request_anchor anchor_event_simps sample_reconstructSignedTx
        submitRawTransaction_def world0_def Let_def)
qed


section \<open>Lemmas: the ledger update stream\<close>

lemma trace_emit [simp]: "trace (emit e s) = trace s @ [e]"
  and closed_emit [simp]: "closed (emit e s) = closed s"
  and polls_emit [simp]: "polls (emit e s) = polls s"
  and live_emit [simp]: "live (emit e s) = live s"
  and pending_emit [simp]: "pending (emit e s) = pending s"
  and sockets_emit [simp]: "sockets (emit e s) = sockets s"
  and timers_emit [simp]: "timers (emit e s) = timers s"
  and ws_emit [simp]: "ws (emit e s) = ws s"
  and currentOffset_emit [simp]: "currentOffset (emit e s) = currentOffset s"
  and reconnectAttempt_emit [simp]: "reconnectAttempt (emit e s) = reconnectAttempt s"
  and reconnectTimer_emit [simp]: "reconnectTimer (emit e s) = reconnectTimer s"
  by (simp_all add: emit_def)

lemma updates_of_simps [simp]:
  "updates_of [] = []"
  "updates_of (xs @ ys) = updates_of xs @ updates_of ys"
  "updates_of [Update u] = [u]"
  "updates_of [NewWebSocket url] = []"
  "updates_of [WsSend i v ps] = []"
  "updates_of [WsClose i] = []"
  "updates_of [SetTimeout t d] = []"
  "updates_of [ClearTimeout t] = []"
  "updates_of [GetUpdates v ps d] = []"
  "updates_of [Sleep d] = []"
  "updates_of [Failure e] = []"
  "updates_of [Uncaught e] = []"
  by (simp_all add: updates_of_def)

subsection \<open>Closing\<close>

lemma close_fields:
  "closed (close s)" "ws (close s) = None" "reconnectTimer (close s) = None"
  "polls (close s) = polls s" "live (close s) = live s" "sockets (close s) = sockets s"
  "timers (close s) = timers s" "currentOffset (close s) = currentOffset s"
  "reconnectAttempt (close s) = reconnectAttempt s"
  by (simp_all add: close_def Let_def split: option.splits)

lemma trace_close:
  "trace (close s) = trace s
     @ (case reconnectTimer s of None \<Rightarrow> [] | Some t \<Rightarrow> [ClearTimeout t])
     @ (case ws s of None \<Rightarrow> [] | Some w \<Rightarrow> [WsClose w])"
  by (simp add: close_def Let_def split: option.splits)

lemma pending_close:
  "pending (close s) = (case reconnectTimer s of None \<Rightarrow> pending s | Some t \<Rightarrow> removeAll t (pending s))"
  by (simp add: close_def Let_def split: option.splits)

lemma close_close: "close (close s) = close s"
  by (simp add: close_def Let_def emit_def split: option.splits)

lemma frame_refl [simp]: "frame s s" by (simp add: frame_def)

lemma frame_trans: "frame s s' \<Longrightarrow> frame s' s'' \<Longrightarrow> frame s s''" by (simp add: frame_def)

lemma frame_call_onError: "frame s (snd (call_onError opts err s))"
  by (simp add: call_onError_def frame_def split: option.splits)

lemma frame_handleUpdate: "frame s (snd (handleUpdate opts item s))"
  by (simp add: handleUpdate_def frame_def Let_def split: sum.splits)

lemma frame_handle_items: "frame s (snd (handle_items opts items s))"
proof (induction items arbitrary: s)
  case Nil
  show ?case by simp
next
  case (Cons item items)
  show ?case
  proof (cases "closed s")
    case True
    then show ?thesis by simp
  next
    case False
    obtain r s1 where h: "handleUpdate opts item s = (r, s1)" by (cases "handleUpdate opts item s")
    have f1: "frame s s1" using frame_handleUpdate [of s opts item] h by simp
    show ?thesis
    proof (cases r)
      case None
      then show ?thesis using False h f1 Cons.IH [of s1] by (simp add: frame_trans)
    next
      case (Some e)
      then show ?thesis using False h f1 by simp
    qed
  qed
qed

lemma handle_items_closed: "closed s \<Longrightarrow> handle_items opts items s = (None, s)"
  by (cases items) simp_all

lemma frame_message_catch: "frame s (message_catch opts e s)"
  by (simp add: message_catch_def call_onError_def frame_def split: option.splits)

lemma frame_call_onErrorD: "call_onError opts err s = (r, s') \<Longrightarrow> frame s s'"
  using frame_call_onError [of s opts err] by simp

lemma frame_handleUpdateD: "handleUpdate opts item s = (r, s') \<Longrightarrow> frame s s'"
  using frame_handleUpdate [of s opts item] by simp

lemma frame_handle_itemsD: "handle_items opts items s = (r, s') \<Longrightarrow> frame s s'"
  using frame_handle_items [of s opts items] by simp

lemma frame_message_catch': "frame s s' \<Longrightarrow> frame s (message_catch opts e s')"
  using frame_message_catch frame_trans by blast

lemma frame_on_message: "frame s (on_message J opts d s)"
  unfolding on_message_def
  by (auto split: sum.splits bool.splits prod.splits option.splits
      intro!: frame_message_catch' frame_message_catch
      dest: frame_call_onErrorD frame_handleUpdateD)

lemma frame_on_error: "frame s (on_error opts err s)"
  by (simp add: on_error_def call_onError_def frame_def split: option.splits)

lemma run_Nil [simp]: "run J opts s [] = s" by (simp add: run_def)

lemma run_append: "run J opts s (es @ fs) = run J opts (run J opts s es) fs"
  by (simp add: run_def)

lemma run_Cons: "run J opts s (e # es) = run J opts (step J opts s e) es"
  by (simp add: run_def)

lemma failures_Suc: "failures i t (Suc n) = failures i t n @ [WsClosed (i + n), TimerFired (t + n)]"
  by (simp add: failures_def)

lemma backoff_trace_Suc:
  "backoff_trace opts a t (Suc n) = backoff_trace opts a t n
     @ [SetTimeout (t + n) (min (1000 * 2 ^ (a + n)) (maxDelay opts)), NewWebSocket (wsUrl opts)]"
  by (simp add: backoff_trace_def)

lemma step_WsClosed_backoff:
  assumes "\<not> closed s" "i \<in> set (live s)" "int (reconnectAttempt s) < maxAttempts opts"
  shows "step J opts s (WsClosed i) =
     s\<lparr>ws := None, reconnectAttempt := Suc (reconnectAttempt s), reconnectTimer := Some (timers s),
       live := removeAll i (live s), timers := Suc (timers s), pending := pending s @ [timers s],
       trace := trace s @ [SetTimeout (timers s)
                  (min (1000 * 2 ^ reconnectAttempt s) (maxDelay opts))]\<rparr>"
  using assms by (simp add: on_close_def scheduleReconnect_def emit_def Let_def)

lemma step_WsClosed_exhausted:
  assumes "\<not> closed s" "i \<in> set (live s)" "maxAttempts opts \<le> int (reconnectAttempt s)"
  shows "step J opts s (WsClosed i) =
     s\<lparr>ws := None, live := removeAll i (live s), polls := polls s @ [Requesting],
       trace := trace s @ [GetUpdates (currentOffset s) (parties opts) (pollingIdleTimeout opts)]\<rparr>"
  using assms
  by (simp add: on_close_def scheduleReconnect_def startPolling_def poll_next_def emit_def)

lemma step_TimerFired:
  assumes "\<not> closed s" "t \<in> set (pending s)"
  shows "step J opts s (TimerFired t) =
     s\<lparr>ws := Some (sockets s), sockets := Suc (sockets s), live := live s @ [sockets s],
       pending := removeAll t (pending s), trace := trace s @ [NewWebSocket (wsUrl opts)]\<rparr>"
  using assms by (simp add: connect_def emit_def)

lemma one_failure:
  assumes "streaming s i" "int (reconnectAttempt s) < maxAttempts opts"
  shows "streaming (step J opts (step J opts s (WsClosed i)) (TimerFired (timers s))) (Suc i) \<and>
    timers (step J opts (step J opts s (WsClosed i)) (TimerFired (timers s))) = Suc (timers s) \<and>
    reconnectAttempt (step J opts (step J opts s (WsClosed i)) (TimerFired (timers s)))
      = Suc (reconnectAttempt s) \<and>
    polls (step J opts (step J opts s (WsClosed i)) (TimerFired (timers s))) = polls s \<and>
    currentOffset (step J opts (step J opts s (WsClosed i)) (TimerFired (timers s))) = currentOffset s \<and>
    trace (step J opts (step J opts s (WsClosed i)) (TimerFired (timers s)))
      = trace s @ [SetTimeout (timers s) (min (1000 * 2 ^ reconnectAttempt s) (maxDelay opts)),
                   NewWebSocket (wsUrl opts)]"
proof -
  have c: "\<not> closed s" "i \<in> set (live s)" using assms(1) by (simp_all add: streaming_def)
  show ?thesis
    unfolding step_WsClosed_backoff [OF c assms(2)]
    using assms(1) by (simp add: streaming_def connect_def emit_def)
qed

lemma failures_run:
  assumes "streaming s i" "int (reconnectAttempt s + n) \<le> maxAttempts opts"
  shows "streaming (run J opts s (failures i (timers s) n)) (i + n) \<and>
    timers (run J opts s (failures i (timers s) n)) = timers s + n \<and>
    reconnectAttempt (run J opts s (failures i (timers s) n)) = reconnectAttempt s + n \<and>
    polls (run J opts s (failures i (timers s) n)) = polls s \<and>
    currentOffset (run J opts s (failures i (timers s) n)) = currentOffset s \<and>
    trace (run J opts s (failures i (timers s) n))
      = trace s @ backoff_trace opts (reconnectAttempt s) (timers s) n"
  using assms(2)
proof (induction n)
  case 0
  show ?case using assms(1) by (simp add: failures_def backoff_trace_def)
next
  case (Suc n)
  let ?s = "run J opts s (failures i (timers s) n)"
  have ih: "streaming ?s (i + n)" "timers ?s = timers s + n"
    "reconnectAttempt ?s = reconnectAttempt s + n" "polls ?s = polls s"
    "currentOffset ?s = currentOffset s"
    "trace ?s = trace s @ backoff_trace opts (reconnectAttempt s) (timers s) n"
    using Suc by simp_all
  have lt: "int (reconnectAttempt ?s) < maxAttempts opts" using Suc.prems ih(3) by simp
  have r: "run J opts s (failures i (timers s) (Suc n))
      = step J opts (step J opts ?s (WsClosed (i + n))) (TimerFired (timers ?s))"
    by (simp add: failures_Suc run_append run_Cons ih(2))
  show ?case
    unfolding r using one_failure [OF ih(1) lt, of J] ih
    by (simp add: backoff_trace_Suc)
qed

lemma call_onError_returns:
  "returns opts \<Longrightarrow> call_onError opts err s
     = (None, s\<lparr>trace := trace s @ (case onError opts of None \<Rightarrow> [] | Some f \<Rightarrow> [Failure err])\<rparr>)"
  by (simp add: call_onError_def returns_def emit_def split: option.splits)

lemma step_PollReply_error:
  assumes "\<not> closed s" "p < length (polls s)" "polls s ! p = Requesting" "returns opts"
  shows "step J opts s (PollReply p (Inl err)) =
     s\<lparr>polls := (polls s)[p := Sleeping],
       trace := trace s @ (case onError opts of None \<Rightarrow> [] | Some f \<Rightarrow> [Failure err])
                  @ [Sleep (pollingErrorBackoff opts)]\<rparr>"
  using assms by (simp add: poll_catch_def call_onError_returns emit_def)

lemma step_SleepDone:
  assumes "\<not> closed s" "p < length (polls s)" "polls s ! p = Sleeping"
  shows "step J opts s (SleepDone p) =
     s\<lparr>polls := (polls s)[p := Requesting],
       trace := trace s @ [GetUpdates (currentOffset s) (parties opts) (pollingIdleTimeout opts)]\<rparr>"
  using assms by (simp add: poll_next_def emit_def)

lemma poll_next_polling:
  "\<not> closed s \<Longrightarrow> closed (poll_next opts p s) = closed s \<and>
     polls (poll_next opts p s) = (polls s)[p := Requesting] \<and>
     live (poll_next opts p s) = live s \<and> pending (poll_next opts p s) = pending s \<and>
     sockets (poll_next opts p s) = sockets s \<and> timers (poll_next opts p s) = timers s"
  by (simp add: poll_next_def)

lemma poll_catch_polling:
  "\<not> closed s \<Longrightarrow> returns opts \<Longrightarrow> closed (poll_catch opts p err s) = closed s \<and>
     polls (poll_catch opts p err s) = (polls s)[p := Sleeping] \<and>
     live (poll_catch opts p err s) = live s \<and> pending (poll_catch opts p err s) = pending s \<and>
     sockets (poll_catch opts p err s) = sockets s \<and> timers (poll_catch opts p err s) = timers s"
  by (simp add: poll_catch_def call_onError_returns)

lemma step_PollReply_polling:
  assumes "\<not> closed s" "p < length (polls s)" "polls s ! p = Requesting" "returns opts"
  shows "\<not> closed (step J opts s (PollReply p r)) \<and>
     (polls (step J opts s (PollReply p r)) = (polls s)[p := Requesting] \<or>
      polls (step J opts s (PollReply p r)) = (polls s)[p := Sleeping])"
proof (cases r)
  case (Inl err)
  then show ?thesis using assms poll_catch_polling [of s opts p err] by simp
next
  case (Inr items)
  obtain e s' where h: "handle_items opts items s = (e, s')" by (cases "handle_items opts items s")
  have f: "frame s s'" using frame_handle_itemsD [OF h] .
  then have c: "\<not> closed s'" "polls s' = polls s" using assms(1) by (simp_all add: frame_def)
  show ?thesis
  proof (cases e)
    case None
    then show ?thesis using Inr assms h c poll_next_polling [of s' opts p] by simp
  next
    case (Some err)
    then show ?thesis using Inr assms h c poll_catch_polling [of s' opts p err] by simp
  qed
qed

text \<open>Apart from \<open>close()\<close>, nothing closes the stream or ends a polling loop.\<close>

lemma step_keeps_polling:
  assumes "e \<noteq> Close" "returns opts" "\<not> closed s" "polling s p"
  shows "\<not> closed (step J opts s e) \<and> polling (step J opts s e) p"
proof (cases e)
  case Close
  then show ?thesis using assms(1) by simp
next
  case (WsOpen i)
  then show ?thesis using assms(3,4)
    by (simp add: on_open_def polling_def Let_def split: option.splits)
next
  case (WsMessage i d)
  have "frame s (on_message J opts d s)" by (rule frame_on_message)
  then show ?thesis using WsMessage assms(3,4) by (simp add: frame_def polling_def)
next
  case (WsClosed i)
  then show ?thesis using assms(3,4)
    by (simp add: on_close_def scheduleReconnect_def startPolling_def poll_next_def polling_def
        Let_def nth_append)
next
  case (WsError i err)
  have "frame s (on_error opts err s)" by (rule frame_on_error)
  then show ?thesis using WsError assms(3,4) by (simp add: frame_def polling_def)
next
  case (TimerFired t)
  then show ?thesis using assms(3,4) by (simp add: connect_def polling_def)
next
  case (PollReply q r)
  show ?thesis
  proof (cases "q < length (polls s) \<and> polls s ! q = Requesting")
    case True
    then have "\<not> closed (step J opts s (PollReply q r)) \<and>
     (polls (step J opts s (PollReply q r)) = (polls s)[q := Requesting] \<or>
      polls (step J opts s (PollReply q r)) = (polls s)[q := Sleeping])"
      using step_PollReply_polling [OF assms(3) _ _ assms(2), of q J r] by blast
    then show ?thesis using assms(4) True unfolding PollReply
      by (auto simp add: polling_def nth_list_update simp del: step.simps split: if_splits)
  next
    case False
    then show ?thesis using PollReply assms(3,4) by auto
  qed
next
  case (SleepDone q)
  then show ?thesis using assms(3,4)
    by (auto simp add: poll_next_def polling_def nth_list_update)
qed

lemma run_keeps_polling:
  assumes "returns opts" "Close \<notin> set es" "\<not> closed s" "polling s p"
  shows "\<not> closed (run J opts s es) \<and> polling (run J opts s es) p"
  using assms(2-)
proof (induction es arbitrary: s)
  case Nil
  then show ?case by simp
next
  case (Cons e es)
  have "e \<noteq> Close" "Close \<notin> set es" using Cons.prems(1) by auto
  from step_keeps_polling [OF this(1) assms(1) Cons.prems(2,3), of J] Cons.IH [OF this(2)]
  show ?case by (simp add: run_Cons)
qed

text \<open>With no socket and no timer left, none is ever made again.\<close>

lemma step_quiet:
  assumes "live s = []" "pending s = []"
  shows "live (step J opts s e) = [] \<and> pending (step J opts s e) = [] \<and>
     sockets (step J opts s e) = sockets s \<and> timers (step J opts s e) = timers s"
proof (cases e)
  case Close
  then show ?thesis using assms by (simp add: close_fields pending_close split: option.splits)
next
  case (PollReply q r)
  show ?thesis
  proof (cases r)
    case (Inl err)
    then show ?thesis using PollReply assms
      by (simp add: poll_catch_def call_onError_def split: option.splits)
  next
    case (Inr items)
    obtain x s' where h: "handle_items opts items s = (x, s')" by (cases "handle_items opts items s")
    have "frame s s'" using frame_handle_itemsD [OF h] .
    then show ?thesis using PollReply Inr assms h
      by (cases x) (simp_all add: frame_def poll_next_def poll_catch_def call_onError_def
          split: option.splits)
  qed
next
  case (SleepDone q)
  then show ?thesis using assms by (simp add: poll_next_def)
qed (use assms in simp_all)

lemma run_quiet:
  assumes "live s = []" "pending s = []"
  shows "live (run J opts s es) = [] \<and> pending (run J opts s es) = [] \<and>
     sockets (run J opts s es) = sockets s \<and> timers (run J opts s es) = timers s"
  using assms
proof (induction es arbitrary: s)
  case Nil
  then show ?case by simp
next
  case (Cons e es)
  from step_quiet [OF Cons.prems, of J opts e] Cons.IH [of "step J opts s e"]
  show ?case by (simp add: run_Cons)
qed

lemma exhausted_run:
  assumes "streaming s i" "reconnectAttempt s = 0" "n = nat (maxAttempts opts)"
  shows "trace (run J opts s (failures i (timers s) n @ [WsClosed (i + n)]))
       = trace s @ backoff_trace opts 0 (timers s) n
           @ [GetUpdates (currentOffset s) (parties opts) (pollingIdleTimeout opts)] \<and>
     polls (run J opts s (failures i (timers s) n @ [WsClosed (i + n)])) = polls s @ [Requesting] \<and>
     live (run J opts s (failures i (timers s) n @ [WsClosed (i + n)])) = [] \<and>
     pending (run J opts s (failures i (timers s) n @ [WsClosed (i + n)])) = [] \<and>
     \<not> closed (run J opts s (failures i (timers s) n @ [WsClosed (i + n)]))"
proof -
  let ?s = "run J opts s (failures i (timers s) n)"
  have f: "streaming ?s (i + n) \<and> timers ?s = timers s + n \<and>
    reconnectAttempt ?s = reconnectAttempt s + n \<and> polls ?s = polls s \<and>
    currentOffset ?s = currentOffset s \<and>
    trace ?s = trace s @ backoff_trace opts (reconnectAttempt s) (timers s) n"
  proof (cases "n = 0")
    case True
    then show ?thesis using assms(1) by (simp add: failures_def backoff_trace_def)
  next
    case False
    then have "int (reconnectAttempt s + n) \<le> maxAttempts opts" using assms(2,3) by simp
    then show ?thesis by (rule failures_run [OF assms(1)])
  qed
  have c: "\<not> closed ?s" "i + n \<in> set (live ?s)" "live ?s = [i + n]" "pending ?s = []"
    using f by (simp_all add: streaming_def)
  have e: "maxAttempts opts \<le> int (reconnectAttempt ?s)" using f assms(2,3) by simp
  have r: "run J opts s (failures i (timers s) n @ [WsClosed (i + n)])
      = ?s\<lparr>ws := None, live := removeAll (i + n) (live ?s), polls := polls ?s @ [Requesting],
          trace := trace ?s @ [GetUpdates (currentOffset ?s) (parties opts)
                                  (pollingIdleTimeout opts)]\<rparr>"
    by (simp only: run_append run_Cons run_Nil step_WsClosed_exhausted [OF c(1,2) e])
  show ?thesis
    unfolding r using f c(1,3,4) assms(2) by simp
qed

lemma step_closed: "closed s \<Longrightarrow> closed (step J opts s e)"
proof (cases e)
  case (WsMessage i d)
  have "frame s (on_message J opts d s)" by (rule frame_on_message)
  then show "closed s \<Longrightarrow> ?thesis" using WsMessage by (simp add: frame_def)
next
  case (PollReply q r)
  then show "closed s \<Longrightarrow> ?thesis"
    by (cases r) (simp_all add: poll_catch_def poll_next_def handle_items_closed)
qed (simp_all add: close_fields on_open_def on_close_def on_error_def connect_def poll_next_def
      Let_def split: option.splits)

lemma step_closed_silent:
  assumes "closed s" "\<forall>i d. e \<noteq> WsMessage i d"
  shows "updates_of (trace (step J opts s e)) = updates_of (trace s)"
proof (cases e)
  case Close
  then show ?thesis by (simp add: trace_close split: option.splits)
next
  case (WsMessage i d)
  then show ?thesis using assms(2) by simp
next
  case (PollReply q r)
  then show ?thesis using assms(1)
    by (cases r) (simp_all add: poll_catch_def poll_next_def handle_items_closed)
qed (use assms(1) in \<open>simp_all add: on_open_def on_close_def on_error_def connect_def poll_next_def
      Let_def split: option.splits\<close>)

lemma run_closed_silent:
  assumes "closed s" "\<forall>i d. WsMessage i d \<notin> set es"
  shows "closed (run J opts s es) \<and> updates_of (trace (run J opts s es)) = updates_of (trace s)"
  using assms
proof (induction es arbitrary: s)
  case Nil
  then show ?case by simp
next
  case (Cons e es)
  have a: "\<forall>i d. e \<noteq> WsMessage i d" "\<forall>i d. WsMessage i d \<notin> set es" using Cons.prems(2) by auto
  from step_closed [OF Cons.prems(1), of J opts e] step_closed_silent [OF Cons.prems(1) a(1), of J opts]
    Cons.IH [OF _ a(2), of "step J opts s e"]
  show ?case by (simp add: run_Cons)
qed

text \<open>
  What \<open>close()\<close> does: a second call changes nothing, the timer of the reconnection is
  cleared and the socket held is closed.
\<close>

lemma close_tears_down:
  "close (close s) = close s \<and> closed (close s) \<and> ws (close s) = None \<and>
   reconnectTimer (close s) = None \<and>
   (reconnectTimer s = Some t \<longrightarrow> t \<notin> set (pending (close s)) \<and> ClearTimeout t \<in> set (trace (close s))) \<and>
   (ws s = Some w \<longrightarrow> WsClose w \<in> set (trace (close s)))"
  by (simp add: close_close close_fields pending_close trace_close split: option.splits)

lemma demo_stream_opts_simps:
  "parties demo_stream_opts = [''Issuer::1220abcdef'']"
  "onUpdate demo_stream_opts item = None"
  "onError demo_stream_opts = Some (\<lambda>_. None)"
  "maxDelay demo_stream_opts = 1500"
  "maxAttempts demo_stream_opts = 2"
  "pollingIdleTimeout demo_stream_opts = 2000"
  "pollingErrorBackoff demo_stream_opts = 1000"
  "wsUrl demo_stream_opts = ''ws://localhost:7575/v2/updates''"
  "returns demo_stream_opts"
  by (simp_all add: demo_stream_opts_def maxDelay_def maxAttempts_def pollingIdleTimeout_def
      pollingErrorBackoff_def wsUrl_def nullish_or_def BASE_URL_def returns_def)

lemma demo_stream_created:
  "createLedgerStream demo_stream_opts =
     \<lparr> currentOffset = JNum 42, closed = False, ws = Some 0, reconnectAttempt = 0,
       reconnectTimer = None, sockets = 1, live = [0], timers = 0, pending = [], polls = [],
       trace = [NewWebSocket ''ws://localhost:7575/v2/updates''] \<rparr>"
  by (simp add: createLedgerStream_def connect_def emit_def demo_stream_opts_simps)
    (simp add: demo_stream_opts_def)

lemma extractOffset_checkpoint: "extractOffset checkpoint = Inr (JNum 43)"
  by (simp add: extractOffset_def checkpoint_def js_prop_def js_in_def ebind_def)

lemma demo_stream_two_failures:
  "run J demo_stream_opts (createLedgerStream demo_stream_opts) (failures 0 0 2) =
     \<lparr> currentOffset = JNum 42, closed = False, ws = Some 2, reconnectAttempt = 2,
       reconnectTimer = Some 1, sockets = 3, live = [2], timers = 2, pending = [], polls = [],
       trace = [NewWebSocket ''ws://localhost:7575/v2/updates'', SetTimeout 0 1000,
                NewWebSocket ''ws://localhost:7575/v2/updates'', SetTimeout 1 1500,
                NewWebSocket ''ws://localhost:7575/v2/updates''] \<rparr>"
  by (simp add: demo_stream_created run_def failures_def upt_rec on_close_def
      scheduleReconnect_def connect_def emit_def demo_stream_opts_simps Let_def)

lemma demo_stream_polling:
  "run J demo_stream_opts (createLedgerStream demo_stream_opts) (failures 0 0 2 @ [WsClosed 2]) =
     \<lparr> currentOffset = JNum 42, closed = False, ws = None, reconnectAttempt = 2,
       reconnectTimer = Some 1, sockets = 3, live = [], timers = 2, pending = [],
       polls = [Requesting],
       trace = [NewWebSocket ''ws://localhost:7575/v2/updates'', SetTimeout 0 1000,
                NewWebSocket ''ws://localhost:7575/v2/updates'', SetTimeout 1 1500,
                NewWebSocket ''ws://localhost:7575/v2/updates'',
                GetUpdates (JNum 42) [''Issuer::1220abcdef''] 2000] \<rparr>"
  by (simp add: run_append demo_stream_two_failures)
    (simp add: run_def on_close_def scheduleReconnect_def startPolling_def poll_next_def emit_def
      demo_stream_opts_simps)

lemma demo_polling_stream_eq:
  "demo_polling_stream =
     \<lparr> currentOffset = JNum 42, closed = False, ws = None, reconnectAttempt = 2,
       reconnectTimer = Some 1, sockets = 3, live = [], timers = 2, pending = [],
       polls = [Requesting],
       trace = [NewWebSocket ''ws://localhost:7575/v2/updates'', SetTimeout 0 1000,
                NewWebSocket ''ws://localhost:7575/v2/updates'', SetTimeout 1 1500,
                NewWebSocket ''ws://localhost:7575/v2/updates'',
                GetUpdates (JNum 42) [''Issuer::1220abcdef''] 2000] \<rparr>"
  unfolding demo_polling_stream_def by (rule demo_stream_polling)

section \<open>Lemmas: two digests computed round by round\<close>

lemma upt_0_24:
  "[0..<24] = [0, 1, 2, 3, 4, 5, 6, 7, 8, 9, 10, 11, 12, 13, 14, 15, 16, 17, 18, 19, 20, 21, 22, 23]"
  by (simp add: upt_rec)

lemma code_path_block:
  "keccak_pad (stringToBytes code_path_text) =
    [0x73, 0x69, 0x67, 0x2E, 0x6E, 0x65, 0x74, 0x77, 0x6F, 0x72, 0x6B, 0x20, 0x76, 0x32, 0x2E, 0x30,
     0x2E, 0x30, 0x20, 0x65, 0x70, 0x73, 0x69, 0x6C, 0x6F, 0x6E, 0x20, 0x64, 0x65, 0x72, 0x69, 0x76,
     0x61, 0x74, 0x69, 0x6F, 0x6E, 0x3A, 0x65, 0x69, 0x70, 0x31, 0x35, 0x35, 0x3A, 0x31, 0x3A, 0x49,
     0x73, 0x73, 0x75, 0x65, 0x72, 0x3A, 0x3A, 0x31, 0x32, 0x32, 0x30, 0x61, 0x62, 0x63, 0x64, 0x65,
     0x66, 0x3A, 0x6D, 0x2F, 0x34, 0x34, 0x2F, 0x36, 0x30, 0x2F, 0x30, 0x2F, 0x30, 0x01, 0x00, 0x00,
     0x00, 0x00, 0x00, 0x00, 0x00, 0x00, 0x00, 0x00, 0x00, 0x00, 0x00, 0x00, 0x00, 0x00, 0x00, 0x00,
     0x00, 0x00, 0x00, 0x00, 0x00, 0x00, 0x00, 0x00, 0x00, 0x00, 0x00, 0x00, 0x00, 0x00, 0x00, 0x00,
     0x00, 0x00, 0x00, 0x00, 0x00, 0x00, 0x00, 0x00, 0x00, 0x00, 0x00, 0x00, 0x00, 0x00, 0x00, 0x00,
     0x00, 0x00, 0x00, 0x00, 0x00, 0x00, 0x00, 0x80]"
  by (simp add: code_path_text_def keccak_pad_def stringToBytes_def byte_of_char_def replicate_numeral_unfold)

lemma code_path_absorbed:
  "map2 (XOR) (replicate 25 0) (map lane_of_bytes (chunks 8
    [0x73, 0x69, 0x67, 0x2E, 0x6E, 0x65, 0x74, 0x77, 0x6F, 0x72, 0x6B, 0x20, 0x76, 0x32, 0x2E, 0x30,
     0x2E, 0x30, 0x20, 0x65, 0x70, 0x73, 0x69, 0x6C, 0x6F, 0x6E, 0x20, 0x64, 0x65, 0x72, 0x69, 0x76,
     0x61, 0x74, 0x69, 0x6F, 0x6E, 0x3A, 0x65, 0x69, 0x70, 0x31, 0x35, 0x35, 0x3A, 0x31, 0x3A, 0x49,
     0x73, 0x73, 0x75, 0x65, 0x72, 0x3A, 0x3A, 0x31, 0x32, 0x32, 0x30, 0x61, 0x62, 0x63, 0x64, 0x65,
     0x66, 0x3A, 0x6D, 0x2F, 0x34, 0x34, 0x2F, 0x36, 0x30, 0x2F, 0x30, 0x2F, 0x30, 0x01, 0x00, 0x00,
     0x00, 0x00, 0x00, 0x00, 0x00, 0x00, 0x00, 0x00, 0x00, 0x00, 0x00, 0x00, 0x00, 0x00, 0x00, 0x00,
     0x00, 0x00, 0x00, 0x00, 0x00, 0x00, 0x00, 0x00, 0x00, 0x00, 0x00, 0x00, 0x00, 0x00, 0x00, 0x00,
     0x00, 0x00, 0x00, 0x00, 0x00, 0x00, 0x00, 0x00, 0x00, 0x00, 0x00, 0x00, 0x00, 0x00, 0x00, 0x00,
     0x00, 0x00, 0x00, 0x00, 0x00, 0x00, 0x00, 0x80]) @ replicate 8 0) =
    [0x7774656E2E676973, 0x302E3276206B726F, 0x6C6973706520302E, 0x7669726564206E6F,
     0x69653A6E6F697461, 0x493A313A35353170, 0x313A3A7265757373, 0x6564636261303232,
     0x362F34342F6D3A66, 0x000001302F302F30, 0x0000000000000000, 0x0000000000000000,
     0x0000000000000000, 0x0000000000000000, 0x0000000000000000, 0x0000000000000000,
     0x8000000000000000, 0x0000000000000000, 0x0000000000000000, 0x0000000000000000,
     0x0000000000000000, 0x0000000000000000, 0x0000000000000000, 0x0000000000000000,
     0x0000000000000000]"
  by (simp add: lane_of_bytes_def replicate_numeral_unfold)

lemma code_path_round_0:
  "keccak_round
    [0x7774656E2E676973, 0x302E3276206B726F, 0x6C6973706520302E, 0x7669726564206E6F,
     0x69653A6E6F697461, 0x493A313A35353170, 0x313A3A7265757373, 0x6564636261303232,
     0x362F34342F6D3A66, 0x000001302F302F30, 0x0000000000000000, 0x0000000000000000,
     0x0000000000000000, 0x0000000000000000, 0x0000000000000000, 0x0000000000000000,
     0x8000000000000000, 0x0000000000000000, 0x0000000000000000, 0x0000000000000000,
     0x0000000000000000, 0x0000000000000000, 0x0000000000000000, 0x0000000000000000,
     0x0000000000000000] 0 =
    [0x19313E30E4072086, 0xA2640584F73A6F00, 0x0F663B24AC25B18E, 0xD1D1945613DB48E5,
     0xD97ADEBC79E3C856, 0xBC607F8F5AD2E30D, 0xFD1308943F77CD82, 0xDA595AA2035A5E42,
     0x758F58A38E046222, 0x80A610847B519983, 0x78F4884D36A35C6C, 0xBDDF49382D66CE29,
     0x781845E979B62ECD, 0xCA4A7D75EBF65FB4, 0xAA5258B5ECA52E25, 0xB84544CEBAADB694,
     0xF704A80033F6A683, 0xED59466963704E81, 0x4257694304AE5CCC, 0xFBD94666ABD4A2FF,
     0x8BFC7E638D8B3E70, 0x66762469DF5566C7, 0xC5B3069E28FE2CD6, 0xC09EFCE33A76AB94,
     0xD55351C80D9DB16B]"
  by (simp add: keccak_round_def theta_def rho_pi_def chi_def iota_def keccak_rot_def
      keccak_rc_def rotl64_def upt_rec Let_def)

lemma code_path_round_1:
  "keccak_round
    [0x19313E30E4072086, 0xA2640584F73A6F00, 0x0F663B24AC25B18E, 0xD1D1945613DB48E5,
     0xD97ADEBC79E3C856, 0xBC607F8F5AD2E30D, 0xFD1308943F77CD82, 0xDA595AA2035A5E42,
     0x758F58A38E046222, 0x80A610847B519983, 0x78F4884D36A35C6C, 0xBDDF49382D66CE29,
     0x781845E979B62ECD, 0xCA4A7D75EBF65FB4, 0xAA5258B5ECA52E25, 0xB84544CEBAADB694,
     0xF704A80033F6A683, 0xED59466963704E81, 0x4257694304AE5CCC, 0xFBD94666ABD4A2FF,
     0x8BFC7E638D8B3E70, 0x66762469DF5566C7, 0xC5B3069E28FE2CD6, 0xC09EFCE33A76AB94,
     0xD55351C80D9DB16B] 1 =
    [0x47B101833B48D1BA, 0x9A42C1AD7B6F1BCB, 0xE8676AC0C33F0E02, 0xF0A10BA45267B671,
     0x6C970EFB477653EF, 0x93EA0C578BE115BA, 0x0D75F0134AF79468, 0xD3369FE0CB716EBA,
     0x3EE5A1745AAC99E5, 0xEDEEA0D3A608B088, 0xDE4C6DDCF6487D7F, 0x267649734C797D54,
     0xD5C718487DCB1803, 0x3D40DD5945CEEB83, 0xBF39DB32271F47B5, 0x7E7D83A15524EDE0,
     0x9BED4E757C16407C, 0x6D0658B0EA5D1121, 0xF334FCAC3154D3BD, 0x0A7F32C215258FD0,
     0x8901AE890C1F862C, 0x5BA37C9F9E63350E, 0x708124D5594D1549, 0x6507DBC5EDB9DD8A,
     0x5964790B58E8A426]"
  by (simp add: keccak_round_def theta_def rho_pi_def chi_def iota_def keccak_rot_def
      keccak_rc_def rotl64_def upt_rec Let_def)

lemma code_path_round_2:
  "keccak_round
    [0x47B101833B48D1BA, 0x9A42C1AD7B6F1BCB, 0xE8676AC0C33F0E02, 0xF0A10BA45267B671,
     0x6C970EFB477653EF, 0x93EA0C578BE115BA, 0x0D75F0134AF79468, 0xD3369FE0CB716EBA,
     0x3EE5A1745AAC99E5, 0xEDEEA0D3A608B088, 0xDE4C6DDCF6487D7F, 0x267649734C797D54,
     0xD5C718487DCB1803, 0x3D40DD5945CEEB83, 0xBF39DB32271F47B5, 0x7E7D83A15524EDE0,
     0x9BED4E757C16407C, 0x6D0658B0EA5D1121, 0xF334FCAC3154D3BD, 0x0A7F32C215258FD0,
     0x8901AE890C1F862C, 0x5BA37C9F9E63350E, 0x708124D5594D1549, 0x6507DBC5EDB9DD8A,
     0x5964790B58E8A426] 2 =
    [0x48FC990BA9C0A312, 0x7B77C161D9B08DE2, 0x1C7CDFDC659D578D, 0x80C81104A9DE5276,
     0x5FE9BDCD22EAFDA1, 0xE074874CAF98A478, 0xE21185495CF735A2, 0x985E33E04EEFEA8B,
     0xAD6FB41C2539B3FC, 0x9E7C19F72CC60057, 0xE035592FE31EE19E, 0x0D0D633485DF4E4E,
     0xE72E85523021C663, 0x9CF97FBEBBD6F73A, 0x059EE2F814090750, 0xD7D97BDF629AB666,
     0xF76B5145CAD807B0, 0xF8DDA3494B551478, 0x17AA72CC01F1E933, 0x314CA037E75C3D2E,
     0xD4D5F8599FD6CE71, 0xFDC025C4FF1782FE, 0xA0303B006E04C96C, 0x969A3DABFDC0FCD3,
     0x28A64FB6524D4865]"
  by (simp add: keccak_round_def theta_def rho_pi_def chi_def iota_def keccak_rot_def
      keccak_rc_def rotl64_def upt_rec Let_def)

lemma code_path_round_3:
  "keccak_round
    [0x48FC990BA9C0A312, 0x7B77C161D9B08DE2, 0x1C7CDFDC659D578D, 0x80C81104A9DE5276,
     0x5FE9BDCD22EAFDA1, 0xE074874CAF98A478, 0xE21185495CF735A2, 0x985E33E04EEFEA8B,
     0xAD6FB41C2539B3FC, 0x9E7C19F72CC60057, 0xE035592FE31EE19E, 0x0D0D633485DF4E4E,
     0xE72E85523021C663, 0x9CF97FBEBBD6F73A, 0x059EE2F814090750, 0xD7D97BDF629AB666,
     0xF76B5145CAD807B0, 0xF8DDA3494B551478, 0x17AA72CC01F1E933, 0x314CA037E75C3D2E,
     0xD4D5F8599FD6CE71, 0xFDC025C4FF1782FE, 0xA0303B006E04C96C, 0x969A3DABFDC0FCD3,
     0x28A64FB6524D4865] 3 =
    [0x1919977B699A2E6E, 0x867A1EE43A2E028F, 0x65FED0DD9366667B, 0x0599266A7370F90E,
     0xD288C2D20F98F26B, 0x4C99DC3DD02AEBAA, 0xA6B97C71E6CB275A, 0x03E33AB1E5260591,
     0xBEAC6FFF2EF83DF0, 0x99E18961F5BB6381, 0xA32ECF877B669AE6, 0xD0DAFFBB2725D2DF,
     0xA5B63BBFB44DF5F9, 0x47B6AC9D2A099592, 0xC851590A987592CA, 0xDBDDFC9EFDE6098F,
     0xA085754031D49076, 0xED025B19496094C0, 0xEB62B200848E076A, 0x5936B9DE0B853915,
     0xFC9028A0B06FDA69, 0x2AB4B2A5EE22A40D, 0x885CEAC145FF7046, 0x79AE740FE179C54E,
     0x05CE8B99226162FB]"
  by (simp add: keccak_round_def theta_def rho_pi_def chi_def iota_def keccak_rot_def
      keccak_rc_def rotl64_def upt_rec Let_def)

lemma code_path_round_4:
  "keccak_round
    [0x1919977B699A2E6E, 0x867A1EE43A2E028F, 0x65FED0DD9366667B, 0x0599266A7370F90E,
     0xD288C2D20F98F26B, 0x4C99DC3DD02AEBAA, 0xA6B97C71E6CB275A, 0x03E33AB1E5260591,
     0xBEAC6FFF2EF83DF0, 0x99E18961F5BB6381, 0xA32ECF877B669AE6, 0xD0DAFFBB2725D2DF,
     0xA5B63BBFB44DF5F9, 0x47B6AC9D2A099592, 0xC851590A987592CA, 0xDBDDFC9EFDE6098F,
     0xA085754031D49076, 0xED025B19496094C0, 0xEB62B200848E076A, 0x5936B9DE0B853915,
     0xFC9028A0B06FDA69, 0x2AB4B2A5EE22A40D, 0x885CEAC145FF7046, 0x79AE740FE179C54E,
     0x05CE8B99226162FB] 4 =
    [0x828982036B77306D, 0x4A907CAB828D9D19, 0x308080BA333B65A5, 0x4E7AAF09CC1F02B0,
     0xC63A1A023E86BD18, 0x96C823F12004E02D, 0x039EB7AE8C3046A1, 0x453E8F3BC5CAB4D4,
     0xED1306B1FDFF443C, 0xCCCACACE1CA59434, 0xB4417E9C502F55D2, 0x7E519D3B377A4CAD,
     0x94E7366D25B98F18, 0xBFFE361F0C1B5654, 0xB62A4FE13E47542B, 0x10B68F545A904A23,
     0x1D11786EF084B195, 0x09BD97D53AC4CB37, 0x33F4245DB8D0A5DB, 0x69218B77D8BC1A5A,
     0xB2DE3206CCAB18E6, 0x5DF0AEC716A983CB, 0xD65C8D958D49EB48, 0x53AD75E09E5BAD98,
     0x96F54596F177B093]"
  by (simp add: keccak_round_def theta_def rho_pi_def chi_def iota_def keccak_rot_def
      keccak_rc_def rotl64_def upt_rec Let_def)

lemma code_path_round_5:
  "keccak_round
    [0x828982036B77306D, 0x4A907CAB828D9D19, 0x308080BA333B65A5, 0x4E7AAF09CC1F02B0,
     0xC63A1A023E86BD18, 0x96C823F12004E02D, 0x039EB7AE8C3046A1, 0x453E8F3BC5CAB4D4,
     0xED1306B1FDFF443C, 0xCCCACACE1CA59434, 0xB4417E9C502F55D2, 0x7E519D3B377A4CAD,
     0x94E7366D25B98F18, 0xBFFE361F0C1B5654, 0xB62A4FE13E47542B, 0x10B68F545A904A23,
     0x1D11786EF084B195, 0x09BD97D53AC4CB37, 0x33F4245DB8D0A5DB, 0x69218B77D8BC1A5A,
     0xB2DE3206CCAB18E6, 0x5DF0AEC716A983CB, 0xD65C8D958D49EB48, 0x53AD75E09E5BAD98,
     0x96F54596F177B093] 5 =
    [0x26F8DAF6615FFF54, 0xD3F966C0E30DA49D, 0xCA123CE620DEE7CF, 0xA1346B8E6A356E11,
     0x03F8593A0989BB32, 0x1D387F6F7DC9E2E3, 0x389D5DA3091A5FC1, 0x499341D816A66D32,
     0x676DC15008C4D69C, 0xA9CE72A6CC9A62EA, 0x7B13B29B00C7F9C8, 0xEEE4F2DB33A86063,
     0xD6130809A85EA5C8, 0x5F81B4408BAD6B51, 0x0FF15F4626F07887, 0x09F9E0D539F96886,
     0xE6FDD772899732E0, 0x34A17DDE8D8FD835, 0x4CABA9EF06C5634C, 0xB4ED1EF75697D054,
     0x0BF9E3226E8EBD63, 0xDAA42BDBC3641C6A, 0xF67107E35A22415F, 0xF1A6367BBD333397,
     0x5BA0364C4963A048]"
  by (simp add: keccak_round_def theta_def rho_pi_def chi_def iota_def keccak_rot_def
      keccak_rc_def rotl64_def upt_rec Let_def)

lemma code_path_round_6:
  "keccak_round
    [0x26F8DAF6615FFF54, 0xD3F966C0E30DA49D, 0xCA123CE620DEE7CF, 0xA1346B8E6A356E11,
     0x03F8593A0989BB32, 0x1D387F6F7DC9E2E3, 0x389D5DA3091A5FC1, 0x499341D816A66D32,
     0x676DC15008C4D69C, 0xA9CE72A6CC9A62EA, 0x7B13B29B00C7F9C8, 0xEEE4F2DB33A86063,
     0xD6130809A85EA5C8, 0x5F81B4408BAD6B51, 0x0FF15F4626F07887, 0x09F9E0D539F96886,
     0xE6FDD772899732E0, 0x34A17DDE8D8FD835, 0x4CABA9EF06C5634C, 0xB4ED1EF75697D054,
     0x0BF9E3226E8EBD63, 0xDAA42BDBC3641C6A, 0xF67107E35A22415F, 0xF1A6367BBD333397,
     0x5BA0364C4963A048] 6 =
    [0x975174873359851C, 0x746A25405775B613, 0x1B9A9E7209EE44E6, 0xDC9620BA5968DEEA,
     0x47852229543AD6B6, 0x6CA537AA587C39C6, 0x68C016D92420EBE9, 0x015C60C6564F0B42,
     0xA0C1A0F559826BB4, 0x1080E65CE807FC45, 0x7D7CD8F56671FF70, 0xF4DFB2484EF7E35E,
     0x5374D2FF1CB32605, 0xB4EA1FD013615765, 0x5583F70814AECB09, 0x5DEB19D429E5578E,
     0x547898E35106B2BB, 0x8572CBAEE6FD8F0C, 0x3565D79338D76AE1, 0x6EE774A3F20C1777,
     0x27D440BCC492960D, 0xC613999BCE589CE7, 0x1B04DADF2D2BD349, 0xCBB55C71030DFFC7,
     0xDBEE19EB6519255E]"
  by (simp add: keccak_round_def theta_def rho_pi_def chi_def iota_def keccak_rot_def
      keccak_rc_def rotl64_def upt_rec Let_def)

lemma code_path_round_7:
  "keccak_round
    [0x975174873359851C, 0x746A25405775B613, 0x1B9A9E7209EE44E6, 0xDC9620BA5968DEEA,
     0x47852229543AD6B6, 0x6CA537AA587C39C6, 0x68C016D92420EBE9, 0x015C60C6564F0B42,
     0xA0C1A0F559826BB4, 0x1080E65CE807FC45, 0x7D7CD8F56671FF70, 0xF4DFB2484EF7E35E,
     0x5374D2FF1CB32605, 0xB4EA1FD013615765, 0x5583F70814AECB09, 0x5DEB19D429E5578E,
     0x547898E35106B2BB, 0x8572CBAEE6FD8F0C, 0x3565D79338D76AE1, 0x6EE774A3F20C1777,
     0x27D440BCC492960D, 0xC613999BCE589CE7, 0x1B04DADF2D2BD349, 0xCBB55C71030DFFC7,
     0xDBEE19EB6519255E] 7 =
    [0x1E2503E14832D511, 0x2019526DEEE15DD0, 0x48C23A2D42516766, 0x0CBBEB7F1C73C5EE,
     0x023D735D67458D7B, 0x289E284A9604C886, 0x7D0B4178F4B96C23, 0xB6E43289FB9A4B39,
     0x21297062E0049E1B, 0x35B80F41FB578590, 0x4F626B8905BCBEDE, 0x02168B7916397885,
     0x1BC3112FCC81E125, 0xE564BF10576017C7, 0xDF7AFFD590F8D199, 0x2DE36582C44C4F84,
     0x11E8365279B38D82, 0x042B5371713A7EBB, 0x187E8A733CE7704B, 0x846FF58D10C6442F,
     0x0707AFC57ECC048B, 0xDA8F55A060DB417D, 0x1CECA68D0DF39A66, 0x360C52BCB2AD6E26,
     0xAC3885687FDEF56A]"
  by (simp add: keccak_round_def theta_def rho_pi_def chi_def iota_def keccak_rot_def
      keccak_rc_def rotl64_def upt_rec Let_def)

lemma code_path_round_8:
  "keccak_round
    [0x1E2503E14832D511, 0x2019526DEEE15DD0, 0x48C23A2D42516766, 0x0CBBEB7F1C73C5EE,
     0x023D735D67458D7B, 0x289E284A9604C886, 0x7D0B4178F4B96C23, 0xB6E43289FB9A4B39,
     0x21297062E0049E1B, 0x35B80F41FB578590, 0x4F626B8905BCBEDE, 0x02168B7916397885,
     0x1BC3112FCC81E125, 0xE564BF10576017C7, 0xDF7AFFD590F8D199, 0x2DE36582C44C4F84,
     0x11E8365279B38D82, 0x042B5371713A7EBB, 0x187E8A733CE7704B, 0x846FF58D10C6442F,
     0x0707AFC57ECC048B, 0xDA8F55A060DB417D, 0x1CECA68D0DF39A66, 0x360C52BCB2AD6E26,
     0xAC3885687FDEF56A] 8 =
    [0x744A15E14953322F, 0x54ECED47015B394B, 0x4640BC31C51BD698, 0x2F9C51C1307D05B4,
     0xD2688E23ADC2737B, 0x054B7FC865C42594, 0xB201C2E07826545C, 0x304BFC4A80AEF9DD,
     0xE3D07452099FA962, 0x782054A2FA7B4700, 0x0EF00AD92CFBE1B3, 0x6381A4CA8A9E537F,
     0x507257DC0F0B2E48, 0x809F84BFAF86BCD5, 0x4E58F8959CBFBFEA, 0xAD2529ED921A26DA,
     0xFECAAC6827D249AD, 0xFD2DA188C73672BA, 0xA8B59761EFC4BAE8, 0xBC10ED589E7C0BB2,
     0x146B0E4F07705F9C, 0xEBFEEDBD3ED730B3, 0x5DADB96B8197267B, 0x5A7B438A9CE3351F,
     0x2658BD9C6BD8C9F2]"
  by (simp add: keccak_round_def theta_def rho_pi_def chi_def iota_def keccak_rot_def
      keccak_rc_def rotl64_def upt_rec Let_def)

lemma code_path_round_9:
  "keccak_round
    [0x744A15E14953322F, 0x54ECED47015B394B, 0x4640BC31C51BD698, 0x2F9C51C1307D05B4,
     0xD2688E23ADC2737B, 0x054B7FC865C42594, 0xB201C2E07826545C, 0x304BFC4A80AEF9DD,
     0xE3D07452099FA962, 0x782054A2FA7B4700, 0x0EF00AD92CFBE1B3, 0x6381A4CA8A9E537F,
     0x507257DC0F0B2E48, 0x809F84BFAF86BCD5, 0x4E58F8959CBFBFEA, 0xAD2529ED921A26DA,
     0xFECAAC6827D249AD, 0xFD2DA188C73672BA, 0xA8B59761EFC4BAE8, 0xBC10ED589E7C0BB2,
     0x146B0E4F07705F9C, 0xEBFEEDBD3ED730B3, 0x5DADB96B8197267B, 0x5A7B438A9CE3351F,
     0x2658BD9C6BD8C9F2] 9 =
    [0x3A15FA20A039A5B1, 0x4709F59BD9FBA9D5, 0x13BA95E08193D93B, 0x9AB381AFB0C36F9E,
     0x14B7ACB1DBA4CF0E, 0x54DE44BFBD745BF2, 0xB123576CA482F53F, 0x12DFDACD3CA1BEFA,
     0x0DAD4A84DFF7457F, 0x3E38E04BD6BE6FD4, 0x8ACBC9AE5CD39771, 0x4A755F6833EA03B4,
     0x33143ADF37F48CDC, 0x6B5673502ACCCABF, 0xA78FA63A41A16A8D, 0x1A44278A96DE7B89,
     0x2AA59924BE298E9C, 0x02D4401EF33392F3, 0xCA4BB6BB1412CBAF, 0x918A3AAC46CC3CE3,
     0x921BA6713DDF3209, 0x870C408E5B206265, 0xFA9351A6DBA1BAA9, 0x81C3EBA6A9DE32F3,
     0x868A99108D9C11A6]"
  by (simp add: keccak_round_def theta_def rho_pi_def chi_def iota_def keccak_rot_def
      keccak_rc_def rotl64_def upt_rec Let_def)

lemma code_path_round_10:
  "keccak_round
    [0x3A15FA20A039A5B1, 0x4709F59BD9FBA9D5, 0x13BA95E08193D93B, 0x9AB381AFB0C36F9E,
     0x14B7ACB1DBA4CF0E, 0x54DE44BFBD745BF2, 0xB123576CA482F53F, 0x12DFDACD3CA1BEFA,
     0x0DAD4A84DFF7457F, 0x3E38E04BD6BE6FD4, 0x8ACBC9AE5CD39771, 0x4A755F6833EA03B4,
     0x33143ADF37F48CDC, 0x6B5673502ACCCABF, 0xA78FA63A41A16A8D, 0x1A44278A96DE7B89,
     0x2AA59924BE298E9C, 0x02D4401EF33392F3, 0xCA4BB6BB1412CBAF, 0x918A3AAC46CC3CE3,
     0x921BA6713DDF3209, 0x870C408E5B206265, 0xFA9351A6DBA1BAA9, 0x81C3EBA6A9DE32F3,
     0x868A99108D9C11A6] 10 =
    [0xB3B2295DE8C7AEA4, 0x44242481C795B423, 0x54033A6E1CF10B35, 0x8296212AB9218A28,
     0x2078ECA594602A7F, 0xD1E442A3C600FE70, 0xEF8F8151EFA2567C, 0x89B6C0656068BC09,
     0x64543A56D2AF7213, 0x7A972EABE92F676F, 0xBB77050EC4BA1ED1, 0x1A3D4D39908BD2EF,
     0xCF873F8BB23AEB0B, 0x97565CE3E0EE95FF, 0x9D93BC57D9116FD4, 0x16B530AA634C616B,
     0x1CDEBAEE5A0CC296, 0x19887F6A669267E7, 0xD1F354C2CB72BE51, 0x59777F59852447BB,
     0x0A736EE656DE12B4, 0x0E9F47DD1BB1202C, 0xA99125E4FC4565D7, 0x02F5AFC772CD7C8A,
     0xF8757A5FDD7A3961]"
  by (simp add: keccak_round_def theta_def rho_pi_def chi_def iota_def keccak_rot_def
      keccak_rc_def rotl64_def upt_rec Let_def)

lemma code_path_round_11:
  "keccak_round
    [0xB3B2295DE8C7AEA4, 0x44242481C795B423, 0x54033A6E1CF10B35, 0x8296212AB9218A28,
     0x2078ECA594602A7F, 0xD1E442A3C600FE70, 0xEF8F8151EFA2567C, 0x89B6C0656068BC09,
     0x64543A56D2AF7213, 0x7A972EABE92F676F, 0xBB77050EC4BA1ED1, 0x1A3D4D39908BD2EF,
     0xCF873F8BB23AEB0B, 0x97565CE3E0EE95FF, 0x9D93BC57D9116FD4, 0x16B530AA634C616B,
     0x1CDEBAEE5A0CC296, 0x19887F6A669267E7, 0xD1F354C2CB72BE51, 0x59777F59852447BB,
     0x0A736EE656DE12B4, 0x0E9F47DD1BB1202C, 0xA99125E4FC4565D7, 0x02F5AFC772CD7C8A,
     0xF8757A5FDD7A3961] 11 =
    [0xB06318BF64C476D1, 0xD13E9663FDBBDD09, 0x62BAE55F58BB393C, 0x3C6C896A09D3E622,
     0x24F7925EE349FD4A, 0x706DFBC57F4E16C9, 0x1CC61262BE55FD9E, 0xD4BEA7265DD90EC8,
     0xD879656DE449C520, 0x4D6E690B4C0E550A, 0xAFB84043E9576B8D, 0xDA09A8F7118C1E0B,
     0x74887590039FACE6, 0x28AAAE0864935011, 0xA83241CBBE74AA9E, 0x05C50FF69845EBE8,
     0x88F07FBF47E0310D, 0x8522655E335A6A6C, 0x09417026FDE87FBD, 0x315C42CF75DEBD8E,
     0x24E4EBF2241373E0, 0x8327018D7BFF6D1A, 0x28D09ACB57AADD0E, 0x9F32906ECAC1E0DA,
     0x2CBC25FC61768BEC]"
  by (simp add: keccak_round_def theta_def rho_pi_def chi_def iota_def keccak_rot_def
      keccak_rc_def rotl64_def upt_rec Let_def)

lemma code_path_round_12:
  "keccak_round
    [0xB06318BF64C476D1, 0xD13E9663FDBBDD09, 0x62BAE55F58BB393C, 0x3C6C896A09D3E622,
     0x24F7925EE349FD4A, 0x706DFBC57F4E16C9, 0x1CC61262BE55FD9E, 0xD4BEA7265DD90EC8,
     0xD879656DE449C520, 0x4D6E690B4C0E550A, 0xAFB84043E9576B8D, 0xDA09A8F7118C1E0B,
     0x74887590039FACE6, 0x28AAAE0864935011, 0xA83241CBBE74AA9E, 0x05C50FF69845EBE8,
     0x88F07FBF47E0310D, 0x8522655E335A6A6C, 0x09417026FDE87FBD, 0x315C42CF75DEBD8E,
     0x24E4EBF2241373E0, 0x8327018D7BFF6D1A, 0x28D09ACB57AADD0E, 0x9F32906ECAC1E0DA,
     0x2CBC25FC61768BEC] 12 =
    [0x4CF466BB0EA18F71, 0x236CA8CC88DB764C, 0x9AD46E79BB3EF25A, 0x3416BA6DFB1ED028,
     0x817A48D01072CAD3, 0xCA978A12BF0C0E9E, 0x7160F39BB043A040, 0xDDD833B18904557B,
     0x794C0931E3074AAE, 0xA14D801948F26CAD, 0x9EBB8364EEC6A9C8, 0xE208F907316D6A9B,
     0x1D0A55A231F784B2, 0x3ECEF0520F22EC96, 0x0F1BADD918020199, 0x930379F4164D6CD2,
     0x52FC66AA4EAA384C, 0xCFBC812C77F5B188, 0xB589B0A34F1F931C, 0xB3B4DDEA0803E8AD,
     0x53F15CF1DA91A2D9, 0x5C83CDCB210FBDC0, 0xA4B3B017A926E252, 0xFAF4A10796EEC6C1,
     0x4931D929E0FC809C]"
  by (simp add: keccak_round_def theta_def rho_pi_def chi_def iota_def keccak_rot_def
      keccak_rc_def rotl64_def upt_rec Let_def)

lemma code_path_round_13:
  "keccak_round
    [0x4CF466BB0EA18F71, 0x236CA8CC88DB764C, 0x9AD46E79BB3EF25A, 0x3416BA6DFB1ED028,
     0x817A48D01072CAD3, 0xCA978A12BF0C0E9E, 0x7160F39BB043A040, 0xDDD833B18904557B,
     0x794C0931E3074AAE, 0xA14D801948F26CAD, 0x9EBB8364EEC6A9C8, 0xE208F907316D6A9B,
     0x1D0A55A231F784B2, 0x3ECEF0520F22EC96, 0x0F1BADD918020199, 0x930379F4164D6CD2,
     0x52FC66AA4EAA384C, 0xCFBC812C77F5B188, 0xB589B0A34F1F931C, 0xB3B4DDEA0803E8AD,
     0x53F15CF1DA91A2D9, 0x5C83CDCB210FBDC0, 0xA4B3B017A926E252, 0xFAF4A10796EEC6C1,
     0x4931D929E0FC809C] 13 =
    [0x703B074A793C045A, 0xCA47ADBF0CBEC194, 0x9AD51EC55F0C3773, 0xAA934A47BF39F8D9,
     0x0DC06AE3DF41386F, 0x3A6A31788AACF440, 0x72F24C68B892D3A0, 0xF706842A30DCF253,
     0xB4D2ED680B78A8E5, 0x2C63478E5B4E589E, 0x73A92B4D07E1E1F4, 0x9C7DA4BDB20CEFAC,
     0xFD05A616BDA9E895, 0x0BB3D1AEA407387A, 0x31442D20CCE9F4BA, 0x1DCA392BB95E393F,
     0xA9BB71EE5A8B9A37, 0xE245192089AB9E41, 0xCC2A5638EFE0B05C, 0x8571A98FF59A8929,
     0x85D97487403EA31E, 0x8571EBCDCBB7FBD7, 0x49BA9641D1371462, 0x64B24673E83888E1,
     0xBACF5DF88193BDBB]"
  by (simp add: keccak_round_def theta_def rho_pi_def chi_def iota_def keccak_rot_def
      keccak_rc_def rotl64_def upt_rec Let_def)

lemma code_path_round_14:
  "keccak_round
    [0x703B074A793C045A, 0xCA47ADBF0CBEC194, 0x9AD51EC55F0C3773, 0xAA934A47BF39F8D9,
     0x0DC06AE3DF41386F, 0x3A6A31788AACF440, 0x72F24C68B892D3A0, 0xF706842A30DCF253,
     0xB4D2ED680B78A8E5, 0x2C63478E5B4E589E, 0x73A92B4D07E1E1F4, 0x9C7DA4BDB20CEFAC,
     0xFD05A616BDA9E895, 0x0BB3D1AEA407387A, 0x31442D20CCE9F4BA, 0x1DCA392BB95E393F,
     0xA9BB71EE5A8B9A37, 0xE245192089AB9E41, 0xCC2A5638EFE0B05C, 0x8571A98FF59A8929,
     0x85D97487403EA31E, 0x8571EBCDCBB7FBD7, 0x49BA9641D1371462, 0x64B24673E83888E1,
     0xBACF5DF88193BDBB] 14 =
    [0x81EF89C973EC4CD2, 0x31773154E5A98C05, 0x0A8CF47FAD049930, 0xB3C1D7AA8E5D3A62,
     0x66B5111F3AA7F318, 0xD54A31EFDCE25318, 0x0675EFF1BFED2DF8, 0xE38E1F332C99ABDF,
     0x3B5AAEAC38119848, 0xAD48DE83AE2FC9DD, 0xBB7576A6A8040AFA, 0x3D653DA23C31FB4A,
     0xB43F73BC74CCF110, 0xCE28D7E227CE4D91, 0xBCB9C2E0FBED1F15, 0x6EDEDBD35713E54A,
     0x061446D4D225FD59, 0x564C5EB356B53F09, 0xBF685B259167AD49, 0x44212C1D9F7F1A7F,
     0xB011882285CA04FF, 0x71EAA45B42FE2030, 0xE07CBFDDBD65DEE0, 0x2142AF451CAC0779,
     0x0BCF54E60F80DDD1]"
  by (simp add: keccak_round_def theta_def rho_pi_def chi_def iota_def keccak_rot_def
      keccak_rc_def rotl64_def upt_rec Let_def)

lemma code_path_round_15:
  "keccak_round
    [0x81EF89C973EC4CD2, 0x31773154E5A98C05, 0x0A8CF47FAD049930, 0xB3C1D7AA8E5D3A62,
     0x66B5111F3AA7F318, 0xD54A31EFDCE25318, 0x0675EFF1BFED2DF8, 0xE38E1F332C99ABDF,
     0x3B5AAEAC38119848, 0xAD48DE83AE2FC9DD, 0xBB7576A6A8040AFA, 0x3D653DA23C31FB4A,
     0xB43F73BC74CCF110, 0xCE28D7E227CE4D91, 0xBCB9C2E0FBED1F15, 0x6EDEDBD35713E54A,
     0x061446D4D225FD59, 0x564C5EB356B53F09, 0xBF685B259167AD49, 0x44212C1D9F7F1A7F,
     0xB011882285CA04FF, 0x71EAA45B42FE2030, 0xE07CBFDDBD65DEE0, 0x2142AF451CAC0779,
     0x0BCF54E60F80DDD1] 15 =
    [0xC45D3E9FC70B0197, 0xF9D51E3E585FC75B, 0xCECEAFD62E29ED95, 0x34D98B2D154F2739,
     0xC4A06E1B94446839, 0xB7D69C4900878553, 0xE6D7A03474C178F7, 0xE368C0CC5C7721C2,
     0x1BDA20A22583A34C, 0x6D9BE17DFB2B40ED, 0x8A60AF344C705B5B, 0xC92AE6D0A87FD9FF,
     0x9F1EF141D2E9E28B, 0x8368D8288BB6CFA6, 0xBBD81CFF05FC4AA7, 0xC56E58AE4EEB13EA,
     0x964BADA575E4338E, 0x83EDAC6AC5329BE9, 0xB1598C8493E0CE79, 0xB1AABE3CF5F97CF5,
     0x71009A3ED9DF247E, 0xF95090C69EE65AB6, 0x5277E2032F7503C6, 0x8811C17FDD1AAF97,
     0x5BEF29DAAE9E90E3]"
  by (simp add: keccak_round_def theta_def rho_pi_def chi_def iota_def keccak_rot_def
      keccak_rc_def rotl64_def upt_rec Let_def)

lemma code_path_round_16:
  "keccak_round
    [0xC45D3E9FC70B0197, 0xF9D51E3E585FC75B, 0xCECEAFD62E29ED95, 0x34D98B2D154F2739,
     0xC4A06E1B94446839, 0xB7D69C4900878553, 0xE6D7A03474C178F7, 0xE368C0CC5C7721C2,
     0x1BDA20A22583A34C, 0x6D9BE17DFB2B40ED, 0x8A60AF344C705B5B, 0xC92AE6D0A87FD9FF,
     0x9F1EF141D2E9E28B, 0x8368D8288BB6CFA6, 0xBBD81CFF05FC4AA7, 0xC56E58AE4EEB13EA,
     0x964BADA575E4338E, 0x83EDAC6AC5329BE9, 0xB1598C8493E0CE79, 0xB1AABE3CF5F97CF5,
     0x71009A3ED9DF247E, 0xF95090C69EE65AB6, 0x5277E2032F7503C6, 0x8811C17FDD1AAF97,
     0x5BEF29DAAE9E90E3] 16 =
    [0x9E91A9B02A391107, 0x07C2A1DDFCD64B94, 0x378458E00DD01BA1, 0x85923E3CA92DE6EE,
     0x63189EE28E703BAB, 0x12C56894087B3176, 0xAE9F119BC4261BA5, 0x4D231D8D1736DF4A,
     0xB5094321725F4BBD, 0xD4324C4BD176C11A, 0x2C2BEE98BACC8D6D, 0x056CF306E59A6622,
     0x9D85054D2F132D01, 0x223CA478C84ADED3, 0x5798CE90D621DF91, 0x1AE4AC149E440F74,
     0xBBC17E7B7169B40A, 0x0F2D47944AF04A0A, 0x4A75A068E47CCC3C, 0x4E0B2D1AF2D5330F,
     0x13F6E9B762EA8F41, 0xBB426AF932270905, 0xBE99091AFA4E1BC8, 0xA62AB02AFDAFC7C1,
     0x6243ED084A3B3D69]"
  by (simp add: keccak_round_def theta_def rho_pi_def chi_def iota_def keccak_rot_def
      keccak_rc_def rotl64_def upt_rec Let_def)

lemma code_path_round_17:
  "keccak_round
    [0x9E91A9B02A391107, 0x07C2A1DDFCD64B94, 0x378458E00DD01BA1, 0x85923E3CA92DE6EE,
     0x63189EE28E703BAB, 0x12C56894087B3176, 0xAE9F119BC4261BA5, 0x4D231D8D1736DF4A,
     0xB5094321725F4BBD, 0xD4324C4BD176C11A, 0x2C2BEE98BACC8D6D, 0x056CF306E59A6622,
     0x9D85054D2F132D01, 0x223CA478C84ADED3, 0x5798CE90D621DF91, 0x1AE4AC149E440F74,
     0xBBC17E7B7169B40A, 0x0F2D47944AF04A0A, 0x4A75A068E47CCC3C, 0x4E0B2D1AF2D5330F,
     0x13F6E9B762EA8F41, 0xBB426AF932270905, 0xBE99091AFA4E1BC8, 0xA62AB02AFDAFC7C1,
     0x6243ED084A3B3D69] 17 =
    [0x819DEE5C37BB29FE, 0xC46D8A2DA75D3869, 0x26B3146632C75C3F, 0xD10BCCBE7318AEA2,
     0x68646285C7956119, 0x8C7380A53C8F181C, 0x05232B9E3245A26F, 0xED7DE1B774750C91,
     0xDD2A77F431AF3373, 0xECFB64C8CD770D04, 0x074E8B3FE810B9FA, 0x3116017723282A85,
     0x40189AEA6D30A625, 0x2E3203255A1105BA, 0x7055BDEAD9D31BA7, 0x7A67CAE8AE35981B,
     0x1EBCA0197DA33093, 0x92701B2A76E43C0C, 0xDB0AF04934962F21, 0x61F94916839B5589,
     0xD8F32DDE30A91C99, 0x043D3578CC5C7277, 0x3176BF1CDF29C45A, 0x89D5960CF437FD26,
     0xF80066CDBE0312B0]"
  by (simp add: keccak_round_def theta_def rho_pi_def chi_def iota_def keccak_rot_def
      keccak_rc_def rotl64_def upt_rec Let_def)

lemma code_path_round_18:
  "keccak_round
    [0x819DEE5C37BB29FE, 0xC46D8A2DA75D3869, 0x26B3146632C75C3F, 0xD10BCCBE7318AEA2,
     0x68646285C7956119, 0x8C7380A53C8F181C, 0x05232B9E3245A26F, 0xED7DE1B774750C91,
     0xDD2A77F431AF3373, 0xECFB64C8CD770D04, 0x074E8B3FE810B9FA, 0x3116017723282A85,
     0x40189AEA6D30A625, 0x2E3203255A1105BA, 0x7055BDEAD9D31BA7, 0x7A67CAE8AE35981B,
     0x1EBCA0197DA33093, 0x92701B2A76E43C0C, 0xDB0AF04934962F21, 0x61F94916839B5589,
     0xD8F32DDE30A91C99, 0x043D3578CC5C7277, 0x3176BF1CDF29C45A, 0x89D5960CF437FD26,
     0xF80066CDBE0312B0] 18 =
    [0xBD1C117A5685FFF9, 0x4A9DDEEB74B27596, 0x8644544FC0A296DE, 0x67B1614AD9C0BE30,
     0x2D6109DC3908762D, 0xAC915C5F9A18EAF0, 0xF02ABCA0C350C5FB, 0xFD3B2250C03279F9,
     0xA4B664E734BC8230, 0xF76866DDE8D91157, 0x5BF03589BE5752D2, 0xD2CAD5D0C11C5BB9,
     0xA02B1A8BC0E80A4B, 0x6DC2E52070A48251, 0xCFA9460F625D08E2, 0x7B6521FA328E03C8,
     0x9AB5C591CA36B1A5, 0xBA44730D684CB520, 0x4B697110AF1DC9D0, 0x7DE3A674B58AD2A7,
     0x095CD645D9C18EF1, 0x508F4E4F847FF5AC, 0xA2067F626933113C, 0x0FC4CEA4EC6BBE3E,
     0xA2A18EC4D5DFDC51]"
  by (simp add: keccak_round_def theta_def rho_pi_def chi_def iota_def keccak_rot_def
      keccak_rc_def rotl64_def upt_rec Let_def)

lemma code_path_round_19:
  "keccak_round
    [0xBD1C117A5685FFF9, 0x4A9DDEEB74B27596, 0x8644544FC0A296DE, 0x67B1614AD9C0BE30,
     0x2D6109DC3908762D, 0xAC915C5F9A18EAF0, 0xF02ABCA0C350C5FB, 0xFD3B2250C03279F9,
     0xA4B664E734BC8230, 0xF76866DDE8D91157, 0x5BF03589BE5752D2, 0xD2CAD5D0C11C5BB9,
     0xA02B1A8BC0E80A4B, 0x6DC2E52070A48251, 0xCFA9460F625D08E2, 0x7B6521FA328E03C8,
     0x9AB5C591CA36B1A5, 0xBA44730D684CB520, 0x4B697110AF1DC9D0, 0x7DE3A674B58AD2A7,
     0x095CD645D9C18EF1, 0x508F4E4F847FF5AC, 0xA2067F626933113C, 0x0FC4CEA4EC6BBE3E,
     0xA2A18EC4D5DFDC51] 19 =
    [0xB250225FB4F26306, 0xFA97B5EC240658CF, 0x3091C4A344CDE238, 0x52D955491B92F64E,
     0xBB790ABEAB0E8291, 0x4B3573F1F61F1000, 0x6F24D7D7C2A24293, 0xEC605EC8EB9A65BE,
     0xBE5184CAF36AAA3B, 0xEE923BAE9D5BED21, 0xEDEF021C56145A26, 0xE9EB51C971998A00,
     0xF12CA7853866210D, 0x42CD6A5831EEBFCE, 0xBFC5F45FE0931802, 0x16A5F87AE5B0AB46,
     0xFA7C66C32F5350FA, 0x892CD3467E4471A6, 0xFC399F81D1F5662B, 0x1B1114AD28C88A8C,
     0x0C36B9365550A2D8, 0xCEA90143A21911A0, 0x77AE4CAEC941EA58, 0x745ACEFA12B19520,
     0x795500AFDF7BF2BF]"
  by (simp add: keccak_round_def theta_def rho_pi_def chi_def iota_def keccak_rot_def
      keccak_rc_def rotl64_def upt_rec Let_def)

lemma code_path_round_20:
  "keccak_round
    [0xB250225FB4F26306, 0xFA97B5EC240658CF, 0x3091C4A344CDE238, 0x52D955491B92F64E,
     0xBB790ABEAB0E8291, 0x4B3573F1F61F1000, 0x6F24D7D7C2A24293, 0xEC605EC8EB9A65BE,
     0xBE5184CAF36AAA3B, 0xEE923BAE9D5BED21, 0xEDEF021C56145A26, 0xE9EB51C971998A00,
     0xF12CA7853866210D, 0x42CD6A5831EEBFCE, 0xBFC5F45FE0931802, 0x16A5F87AE5B0AB46,
     0xFA7C66C32F5350FA, 0x892CD3467E4471A6, 0xFC399F81D1F5662B, 0x1B1114AD28C88A8C,
     0x0C36B9365550A2D8, 0xCEA90143A21911A0, 0x77AE4CAEC941EA58, 0x745ACEFA12B19520,
     0x795500AFDF7BF2BF] 20 =
    [0xA5234871604DE69A, 0x70B84C38A290142F, 0xBEC3DDA9016DB835, 0x6BB63DD88A87F878,
     0x6370874EE0CEC0B4, 0xF757C1439937804D, 0x0E38D1EA8CDD484F, 0x2AD3CC0A8487FF5C,
     0x50C5EE1B47030D7C, 0xC645EB0BDA3A0B65, 0x24E3C737A1EC8DF1, 0x2D6E6EF1DABC361A,
     0x8A82623B64069BCF, 0xA1D9346F28714005, 0x0A693BA86F552711, 0x1BCF50986F0A3E2E,
     0x3179D8DD64F0A77C, 0x62993ED385517C04, 0x20720E5B48EB46FE, 0x76A7588B6620EE37,
     0xD41453649A12858E, 0x22B7FDDF284AFCE4, 0xF194AF82F83D894C, 0x510D973FE90527E2,
     0xBA97F24738E97595]"
  by (simp add: keccak_round_def theta_def rho_pi_def chi_def iota_def keccak_rot_def
      keccak_rc_def rotl64_def upt_rec Let_def)

lemma code_path_round_21:
  "keccak_round
    [0xA5234871604DE69A, 0x70B84C38A290142F, 0xBEC3DDA9016DB835, 0x6BB63DD88A87F878,
     0x6370874EE0CEC0B4, 0xF757C1439937804D, 0x0E38D1EA8CDD484F, 0x2AD3CC0A8487FF5C,
     0x50C5EE1B47030D7C, 0xC645EB0BDA3A0B65, 0x24E3C737A1EC8DF1, 0x2D6E6EF1DABC361A,
     0x8A82623B64069BCF, 0xA1D9346F28714005, 0x0A693BA86F552711, 0x1BCF50986F0A3E2E,
     0x3179D8DD64F0A77C, 0x62993ED385517C04, 0x20720E5B48EB46FE, 0x76A7588B6620EE37,
     0xD41453649A12858E, 0x22B7FDDF284AFCE4, 0xF194AF82F83D894C, 0x510D973FE90527E2,
     0xBA97F24738E97595] 21 =
    [0x060EA93B59F7209E, 0x3EB90DD48D192585, 0xD5D7B863C26C5AD7, 0x98184770211FD48A,
     0xB56E4B3F24294977, 0x2C7DD3DD328F086B, 0x238C1396ED57C481, 0x1637B228E19CCAAE,
     0xC488D1104811FE4A, 0x6FC3D084BC58D292, 0x2C9389A62D3830F9, 0x74C05E9C1ED3A0C9,
     0xC946448C1FF5E659, 0x4F39B87D0F8705E6, 0x5A73E1FB56615DE2, 0xFCFC6CA5AF85EF33,
     0xA4B85C377583FA9F, 0x37906C31CCD4035C, 0xAD555EB6F17E509A, 0xC81B499FF44B55EC,
     0x0A727D869E4D0863, 0xEB59D0CB0C661DE4, 0x2A29C6CFA17F436E, 0xE01738F1C847F428,
     0x221C56AFB3315F7A]"
  by (simp add: keccak_round_def theta_def rho_pi_def chi_def iota_def keccak_rot_def
      keccak_rc_def rotl64_def upt_rec Let_def)

lemma code_path_round_22:
  "keccak_round
    [0x060EA93B59F7209E, 0x3EB90DD48D192585, 0xD5D7B863C26C5AD7, 0x98184770211FD48A,
     0xB56E4B3F24294977, 0x2C7DD3DD328F086B, 0x238C1396ED57C481, 0x1637B228E19CCAAE,
     0xC488D1104811FE4A, 0x6FC3D084BC58D292, 0x2C9389A62D3830F9, 0x74C05E9C1ED3A0C9,
     0xC946448C1FF5E659, 0x4F39B87D0F8705E6, 0x5A73E1FB56615DE2, 0xFCFC6CA5AF85EF33,
     0xA4B85C377583FA9F, 0x37906C31CCD4035C, 0xAD555EB6F17E509A, 0xC81B499FF44B55EC,
     0x0A727D869E4D0863, 0xEB59D0CB0C661DE4, 0x2A29C6CFA17F436E, 0xE01738F1C847F428,
     0x221C56AFB3315F7A] 22 =
    [0x627E740F7E2C2545, 0x383FDFF606955998, 0xD0B6BAD42A50D53F, 0x0DA454B42125FF6F,
     0xA38D4B340B05B592, 0x943D67BEA1ABD6BA, 0x6DA484D2513D4B5F, 0x411AB49754358274,
     0x6D3EEBEDAA47D4AA, 0x57BDFB4B7978D71B, 0xC3501FCB3F9A4CF7, 0x583FAD96237E0C71,
     0x48919D4FA9431B25, 0xECD50BC47BA38C87, 0x3EE3C74E663C320A, 0x183667EAC456C61D,
     0x4949112669F3FE9A, 0x45F237383C44EEF8, 0x1CD7FB860931940D, 0x596A2216010B14D9,
     0x13911C3D5C2F7801, 0xA1CA8AFBFD04B528, 0xA03605B9407EABD3, 0x3F598DA0053662D2,
     0x7821E9A9C2CABF58]"
  by (simp add: keccak_round_def theta_def rho_pi_def chi_def iota_def keccak_rot_def
      keccak_rc_def rotl64_def upt_rec Let_def)

lemma code_path_round_23:
  "keccak_round
    [0x627E740F7E2C2545, 0x383FDFF606955998, 0xD0B6BAD42A50D53F, 0x0DA454B42125FF6F,
     0xA38D4B340B05B592, 0x943D67BEA1ABD6BA, 0x6DA484D2513D4B5F, 0x411AB49754358274,
     0x6D3EEBEDAA47D4AA, 0x57BDFB4B7978D71B, 0xC3501FCB3F9A4CF7, 0x583FAD96237E0C71,
     0x48919D4FA9431B25, 0xECD50BC47BA38C87, 0x3EE3C74E663C320A, 0x183667EAC456C61D,
     0x4949112669F3FE9A, 0x45F237383C44EEF8, 0x1CD7FB860931940D, 0x596A2216010B14D9,
     0x13911C3D5C2F7801, 0xA1CA8AFBFD04B528, 0xA03605B9407EABD3, 0x3F598DA0053662D2,
     0x7821E9A9C2CABF58] 23 =
    [0xA1C8D74F69464C47, 0x150D32A27B120596, 0x667AC5A1B9ABB585, 0x2069A5C3297AF7A8,
     0x25163311293B6912, 0x56430893FE666660, 0x83275668CEDA515D, 0x166190E569C88CEF,
     0xBDA101C310F688B7, 0xABF60ADC2BB27AB0, 0xFE998AA4D990BD0C, 0xAC97A0DB675C56F7,
     0x804F74572E26BAB2, 0xD54F270D54D5788B, 0xE8B70EE78225CBEF, 0x285CDF15BBC68332,
     0x6B0869DB5AB05D79, 0x72200135B87FBC69, 0x47B85CD487EBFF89, 0xD454B15F74313754,
     0x12B410550DDF1A60, 0xD54D5B187ED50D17, 0x8B200EF22815DFED, 0x29AE28F3C09E37A7,
     0x7F75923FFF62BFCE]"
  by (simp add: keccak_round_def theta_def rho_pi_def chi_def iota_def keccak_rot_def
      keccak_rc_def rotl64_def upt_rec Let_def)

lemma code_path_permuted:
  "keccak_f
    [0x7774656E2E676973, 0x302E3276206B726F, 0x6C6973706520302E, 0x7669726564206E6F,
     0x69653A6E6F697461, 0x493A313A35353170, 0x313A3A7265757373, 0x6564636261303232,
     0x362F34342F6D3A66, 0x000001302F302F30, 0x0000000000000000, 0x0000000000000000,
     0x0000000000000000, 0x0000000000000000, 0x0000000000000000, 0x0000000000000000,
     0x8000000000000000, 0x0000000000000000, 0x0000000000000000, 0x0000000000000000,
     0x0000000000000000, 0x0000000000000000, 0x0000000000000000, 0x0000000000000000,
     0x0000000000000000] =
    [0xA1C8D74F69464C47, 0x150D32A27B120596, 0x667AC5A1B9ABB585, 0x2069A5C3297AF7A8,
     0x25163311293B6912, 0x56430893FE666660, 0x83275668CEDA515D, 0x166190E569C88CEF,
     0xBDA101C310F688B7, 0xABF60ADC2BB27AB0, 0xFE998AA4D990BD0C, 0xAC97A0DB675C56F7,
     0x804F74572E26BAB2, 0xD54F270D54D5788B, 0xE8B70EE78225CBEF, 0x285CDF15BBC68332,
     0x6B0869DB5AB05D79, 0x72200135B87FBC69, 0x47B85CD487EBFF89, 0xD454B15F74313754,
     0x12B410550DDF1A60, 0xD54D5B187ED50D17, 0x8B200EF22815DFED, 0x29AE28F3C09E37A7,
     0x7F75923FFF62BFCE]"
  by (simp only: keccak_f_def upt_0_24 foldl.simps
      code_path_round_0 code_path_round_1 code_path_round_2 code_path_round_3 code_path_round_4 code_path_round_5 code_path_round_6 code_path_round_7 code_path_round_8 code_path_round_9 code_path_round_10 code_path_round_11 code_path_round_12 code_path_round_13 code_path_round_14 code_path_round_15 code_path_round_16 code_path_round_17 code_path_round_18 code_path_round_19 code_path_round_20 code_path_round_21 code_path_round_22 code_path_round_23)

lemma code_path_digest:
  "keccak_256 (stringToBytes code_path_text) =
    [0x47, 0x4C, 0x46, 0x69, 0x4F, 0xD7, 0xC8, 0xA1, 0x96, 0x05, 0x12, 0x7B, 0xA2, 0x32, 0x0D, 0x15,
     0x85, 0xB5, 0xAB, 0xB9, 0xA1, 0xC5, 0x7A, 0x66, 0xA8, 0xF7, 0x7A, 0x29, 0xC3, 0xA5, 0x69, 0x20]"
proof -
  have "chunks 136 (keccak_pad (stringToBytes code_path_text)) = [keccak_pad (stringToBytes code_path_text)]"
    by (simp add: code_path_block)
  moreover have "absorb (replicate 25 0) (keccak_pad (stringToBytes code_path_text)) =
    [0xA1C8D74F69464C47, 0x150D32A27B120596, 0x667AC5A1B9ABB585, 0x2069A5C3297AF7A8,
     0x25163311293B6912, 0x56430893FE666660, 0x83275668CEDA515D, 0x166190E569C88CEF,
     0xBDA101C310F688B7, 0xABF60ADC2BB27AB0, 0xFE998AA4D990BD0C, 0xAC97A0DB675C56F7,
     0x804F74572E26BAB2, 0xD54F270D54D5788B, 0xE8B70EE78225CBEF, 0x285CDF15BBC68332,
     0x6B0869DB5AB05D79, 0x72200135B87FBC69, 0x47B85CD487EBFF89, 0xD454B15F74313754,
     0x12B410550DDF1A60, 0xD54D5B187ED50D17, 0x8B200EF22815DFED, 0x29AE28F3C09E37A7,
     0x7F75923FFF62BFCE]"
    by (simp only: absorb_def code_path_block code_path_absorbed code_path_permuted)
  ultimately show ?thesis
    by (simp add: keccak_256_def bytes_of_lane_def upt_rec)
qed

lemma claimed_path_block:
  "keccak_pad (stringToBytes claimed_path_text) =
    [0x73, 0x69, 0x67, 0x2E, 0x6E, 0x65, 0x74, 0x77, 0x6F, 0x72, 0x6B, 0x20, 0x76, 0x32, 0x2E, 0x30,
     0x2E, 0x30, 0x20, 0x65, 0x70, 0x73, 0x69, 0x6C, 0x6F, 0x6E, 0x20, 0x64, 0x65, 0x72, 0x69, 0x76,
     0x61, 0x74, 0x69, 0x6F, 0x6E, 0x65, 0x69, 0x70, 0x31, 0x35, 0x35, 0x3A, 0x31, 0x49, 0x73, 0x73,
     0x75, 0x65, 0x72, 0x3A, 0x3A, 0x31, 0x32, 0x32, 0x30, 0x61, 0x62, 0x63, 0x64, 0x65, 0x66, 0x6D,
     0x2F, 0x34, 0x34, 0x2F, 0x36, 0x30, 0x2F, 0x30, 0x2F, 0x30, 0x01, 0x00, 0x00, 0x00, 0x00, 0x00,
     0x00, 0x00, 0x00, 0x00, 0x00, 0x00, 0x00, 0x00, 0x00, 0x00, 0x00, 0x00, 0x00, 0x00, 0x00, 0x00,
     0x00, 0x00, 0x00, 0x00, 0x00, 0x00, 0x00, 0x00, 0x00, 0x00, 0x00, 0x00, 0x00, 0x00, 0x00, 0x00,
     0x00, 0x00, 0x00, 0x00, 0x00, 0x00, 0x00, 0x00, 0x00, 0x00, 0x00, 0x00, 0x00, 0x00, 0x00, 0x00,
     0x00, 0x00, 0x00, 0x00, 0x00, 0x00, 0x00, 0x80]"
  by (simp add: claimed_path_text_def keccak_pad_def stringToBytes_def byte_of_char_def replicate_numeral_unfold)

lemma claimed_path_absorbed:
  "map2 (XOR) (replicate 25 0) (map lane_of_bytes (chunks 8
    [0x73, 0x69, 0x67, 0x2E, 0x6E, 0x65, 0x74, 0x77, 0x6F, 0x72, 0x6B, 0x20, 0x76, 0x32, 0x2E, 0x30,
     0x2E, 0x30, 0x20, 0x65, 0x70, 0x73, 0x69, 0x6C, 0x6F, 0x6E, 0x20, 0x64, 0x65, 0x72, 0x69, 0x76,
     0x61, 0x74, 0x69, 0x6F, 0x6E, 0x65, 0x69, 0x70, 0x31, 0x35, 0x35, 0x3A, 0x31, 0x49, 0x73, 0x73,
     0x75, 0x65, 0x72, 0x3A, 0x3A, 0x31, 0x32, 0x32, 0x30, 0x61, 0x62, 0x63, 0x64, 0x65, 0x66, 0x6D,
     0x2F, 0x34, 0x34, 0x2F, 0x36, 0x30, 0x2F, 0x30, 0x2F, 0x30, 0x01, 0x00, 0x00, 0x00, 0x00, 0x00,
     0x00, 0x00, 0x00, 0x00, 0x00, 0x00, 0x00, 0x00, 0x00, 0x00, 0x00, 0x00, 0x00, 0x00, 0x00, 0x00,
     0x00, 0x00, 0x00, 0x00, 0x00, 0x00, 0x00, 0x00, 0x00, 0x00, 0x00, 0x00, 0x00, 0x00, 0x00, 0x00,
     0x00, 0x00, 0x00, 0x00, 0x00, 0x00, 0x00, 0x00, 0x00, 0x00, 0x00, 0x00, 0x00, 0x00, 0x00, 0x00,
     0x00, 0x00, 0x00, 0x00, 0x00, 0x00, 0x00, 0x80]) @ replicate 8 0) =
    [0x7774656E2E676973, 0x302E3276206B726F, 0x6C6973706520302E, 0x7669726564206E6F,
     0x7069656E6F697461, 0x737349313A353531, 0x3232313A3A726575, 0x6D66656463626130,
     0x302F30362F34342F, 0x000000000001302F, 0x0000000000000000, 0x0000000000000000,
     0x0000000000000000, 0x0000000000000000, 0x0000000000000000, 0x0000000000000000,
     0x8000000000000000, 0x0000000000000000, 0x0000000000000000, 0x0000000000000000,
     0x0000000000000000, 0x0000000000000000, 0x0000000000000000, 0x0000000000000000,
     0x0000000000000000]"
  by (simp add: lane_of_bytes_def replicate_numeral_unfold)

lemma claimed_path_round_0:
  "keccak_round
    [0x7774656E2E676973, 0x302E3276206B726F, 0x6C6973706520302E, 0x7669726564206E6F,
     0x7069656E6F697461, 0x737349313A353531, 0x3232313A3A726575, 0x6D66656463626130,
     0x302F30362F34342F, 0x000000000001302F, 0x0000000000000000, 0x0000000000000000,
     0x0000000000000000, 0x0000000000000000, 0x0000000000000000, 0x0000000000000000,
     0x8000000000000000, 0x0000000000000000, 0x0000000000000000, 0x0000000000000000,
     0x0000000000000000, 0x0000000000000000, 0x0000000000000000, 0x0000000000000000,
     0x0000000000000000] 0 =
    [0x872946AC71160748, 0x59B3B1498354F9B0, 0x8BBC98D08C9E5461, 0x981F144B75503BB3,
     0x4E2BE9AEBAB1C3B0, 0xDBC22FDC093859B0, 0xF392FB5C0EB84481, 0xA29B1F8E8B5347BA,
     0x45C6FBC1A877A992, 0x65C600FC77029072, 0x6C6F600270780903, 0xB5B26BFB64D0EEDE,
     0x167025BB0CCEAAB8, 0x283CED61E0F0CC6C, 0x1E49EED02D6D73DD, 0x7866C4F620285BF4,
     0x1501F6B8F226AB36, 0xE40145A753E96889, 0x5BF34639F0EC0E6C, 0x8470EDDC9ADA36DB,
     0x10AF7F27BA40406C, 0xF26C6DBEFDB95B70, 0xD0516333651567F9, 0xB44E8ACA3AC3E8B3,
     0xDE24818C26606AEA]"
  by (simp add: keccak_round_def theta_def rho_pi_def chi_def iota_def keccak_rot_def
      keccak_rc_def rotl64_def upt_rec Let_def)

lemma claimed_path_round_1:
  "keccak_round
    [0x872946AC71160748, 0x59B3B1498354F9B0, 0x8BBC98D08C9E5461, 0x981F144B75503BB3,
     0x4E2BE9AEBAB1C3B0, 0xDBC22FDC093859B0, 0xF392FB5C0EB84481, 0xA29B1F8E8B5347BA,
     0x45C6FBC1A877A992, 0x65C600FC77029072, 0x6C6F600270780903, 0xB5B26BFB64D0EEDE,
     0x167025BB0CCEAAB8, 0x283CED61E0F0CC6C, 0x1E49EED02D6D73DD, 0x7866C4F620285BF4,
     0x1501F6B8F226AB36, 0xE40145A753E96889, 0x5BF34639F0EC0E6C, 0x8470EDDC9ADA36DB,
     0x10AF7F27BA40406C, 0xF26C6DBEFDB95B70, 0xD0516333651567F9, 0xB44E8ACA3AC3E8B3,
     0xDE24818C26606AEA] 1 =
    [0x78A5FCAF183FBCBF, 0x8A425AF500713CF5, 0xA1F1EAC0EA950D15, 0xAC8EBBEEE461C286,
     0x4CFCFE2916AF5F7B, 0xEE07C75BCC5E87DC, 0xDA56430B636AD052, 0x9192709A0ED94775,
     0x9D6A5C2AE9D8232D, 0x93BBC09D4FA886AC, 0x67239C1492B301CE, 0x260A55A9986345D9,
     0x6C5BA380E7B987FC, 0x982491594F3F0E4C, 0x149CEC6DEC027698, 0xC9096D3F242F2011,
     0xB10F299DC4F30DF9, 0x0F066AB445878F6F, 0x32B62B5BFD021636, 0xFCD6A919476FE94E,
     0x01DDAB8824536637, 0xEC8883D098838873, 0x949388EA4562C36B, 0x1785B3CEF7A7EA4B,
     0x1EBB4FA85BE56C96]"
  by (simp add: keccak_round_def theta_def rho_pi_def chi_def iota_def keccak_rot_def
      keccak_rc_def rotl64_def upt_rec Let_def)

lemma claimed_path_round_2:
  "keccak_round
    [0x78A5FCAF183FBCBF, 0x8A425AF500713CF5, 0xA1F1EAC0EA950D15, 0xAC8EBBEEE461C286,
     0x4CFCFE2916AF5F7B, 0xEE07C75BCC5E87DC, 0xDA56430B636AD052, 0x9192709A0ED94775,
     0x9D6A5C2AE9D8232D, 0x93BBC09D4FA886AC, 0x67239C1492B301CE, 0x260A55A9986345D9,
     0x6C5BA380E7B987FC, 0x982491594F3F0E4C, 0x149CEC6DEC027698, 0xC9096D3F242F2011,
     0xB10F299DC4F30DF9, 0x0F066AB445878F6F, 0x32B62B5BFD021636, 0xFCD6A919476FE94E,
     0x01DDAB8824536637, 0xEC8883D098838873, 0x949388EA4562C36B, 0x1785B3CEF7A7EA4B,
     0x1EBB4FA85BE56C96] 2 =
    [0x22216CC2DB285BCB, 0x5B6A87CDD945CA4E, 0x2463ECD78D4E668F, 0x07F5A1C80E348933,
     0xC01D25A3A1D3B806, 0xB745F36A2AE5F10B, 0xC1F0EDD6D49E9E29, 0x9DA6B457A9661C98,
     0x254A21C33E783005, 0x1465BA48CE479731, 0x78B55AE511F444DA, 0x7C93380C65D12D2A,
     0x586C6385B139F725, 0xBF0DAFC690DFC09C, 0xCC55AB3A3122D441, 0x7C9E14ED0D5D2094,
     0x944F6A3D4A35E0DE, 0xC78F9F63A9492F42, 0x2A43B8CBE647183C, 0x7D820E109B85795C,
     0x16A9FE32F756C531, 0x8DA400FDA6D66B78, 0xB4D7086502F17FB4, 0x64447D6F8E6EC517,
     0xA31D57FA68BBF56F]"
  by (simp add: keccak_round_def theta_def rho_pi_def chi_def iota_def keccak_rot_def
      keccak_rc_def rotl64_def upt_rec Let_def)

lemma claimed_path_round_3:
  "keccak_round
    [0x22216CC2DB285BCB, 0x5B6A87CDD945CA4E, 0x2463ECD78D4E668F, 0x07F5A1C80E348933,
     0xC01D25A3A1D3B806, 0xB745F36A2AE5F10B, 0xC1F0EDD6D49E9E29, 0x9DA6B457A9661C98,
     0x254A21C33E783005, 0x1465BA48CE479731, 0x78B55AE511F444DA, 0x7C93380C65D12D2A,
     0x586C6385B139F725, 0xBF0DAFC690DFC09C, 0xCC55AB3A3122D441, 0x7C9E14ED0D5D2094,
     0x944F6A3D4A35E0DE, 0xC78F9F63A9492F42, 0x2A43B8CBE647183C, 0x7D820E109B85795C,
     0x16A9FE32F756C531, 0x8DA400FDA6D66B78, 0xB4D7086502F17FB4, 0x64447D6F8E6EC517,
     0xA31D57FA68BBF56F] 3 =
    [0x93517856DB2B4D59, 0x2771E1FF1BA699E7, 0x026BE81F3DFC4825, 0xD4A26F8340353AD9,
     0xD80D633051207DFF, 0xC8B0C9AA60843F79, 0x70562DD20E7D8468, 0x1B98EB898D362A43,
     0xC82D05EA82B720DA, 0xADC8FC9C2E95380B, 0xD6F729B3FD08D573, 0xD1C704EF66235E31,
     0x65EACDF7A3452CED, 0x8BFDFDE57B8AE221, 0x839958795C2DB77F, 0x62F0285DC0A32495,
     0xCB67A7F8EB3FF369, 0x1976610BD3DEE30E, 0x1B33F63E0A556F82, 0xD17DC08B38F70C9E,
     0x85181034E236AC3F, 0xA4596FA81BBD2091, 0x4CB20EAC10C037CE, 0x4C5E0C9B30306113,
     0x9E80B22C1F562DB8]"
  by (simp add: keccak_round_def theta_def rho_pi_def chi_def iota_def keccak_rot_def
      keccak_rc_def rotl64_def upt_rec Let_def)

lemma claimed_path_round_4:
  "keccak_round
    [0x93517856DB2B4D59, 0x2771E1FF1BA699E7, 0x026BE81F3DFC4825, 0xD4A26F8340353AD9,
     0xD80D633051207DFF, 0xC8B0C9AA60843F79, 0x70562DD20E7D8468, 0x1B98EB898D362A43,
     0xC82D05EA82B720DA, 0xADC8FC9C2E95380B, 0xD6F729B3FD08D573, 0xD1C704EF66235E31,
     0x65EACDF7A3452CED, 0x8BFDFDE57B8AE221, 0x839958795C2DB77F, 0x62F0285DC0A32495,
     0xCB67A7F8EB3FF369, 0x1976610BD3DEE30E, 0x1B33F63E0A556F82, 0xD17DC08B38F70C9E,
     0x85181034E236AC3F, 0xA4596FA81BBD2091, 0x4CB20EAC10C037CE, 0x4C5E0C9B30306113,
     0x9E80B22C1F562DB8] 4 =
    [0xDB42CC6199FF1FF3, 0x48E0621B3EA79836, 0x26CE6175F18FF36F, 0xFB96DEEA4A89A986,
     0xA7626587C53E625E, 0xF9CDD65A72E3FA5A, 0x079649891421C7ED, 0xC7FEEFAE4C053A85,
     0xC405FE3440C9A7C7, 0xE2B8530CB6A429F8, 0x3D2A8515FF4D0371, 0x8EA57C43B9D0C11C,
     0x8F44D03663F8E67F, 0xB38DEA737FA5DEC4, 0x138BD1EB7CEF649A, 0xA3C05CA1376F5A52,
     0x70ECECA92CD55F9F, 0x098FD24CF9FD39B6, 0xF524251F89109069, 0x071A41DDB17857D8,
     0x08E4CABFB785C940, 0xA8E939F7A62D3B0A, 0xB25F0F451D3A6471, 0xD52FA6A15F3F1585,
     0x917B214F3A98CD74]"
  by (simp add: keccak_round_def theta_def rho_pi_def chi_def iota_def keccak_rot_def
      keccak_rc_def rotl64_def upt_rec Let_def)

lemma claimed_path_round_5:
  "keccak_round
    [0xDB42CC6199FF1FF3, 0x48E0621B3EA79836, 0x26CE6175F18FF36F, 0xFB96DEEA4A89A986,
     0xA7626587C53E625E, 0xF9CDD65A72E3FA5A, 0x079649891421C7ED, 0xC7FEEFAE4C053A85,
     0xC405FE3440C9A7C7, 0xE2B8530CB6A429F8, 0x3D2A8515FF4D0371, 0x8EA57C43B9D0C11C,
     0x8F44D03663F8E67F, 0xB38DEA737FA5DEC4, 0x138BD1EB7CEF649A, 0xA3C05CA1376F5A52,
     0x70ECECA92CD55F9F, 0x098FD24CF9FD39B6, 0xF524251F89109069, 0x071A41DDB17857D8,
     0x08E4CABFB785C940, 0xA8E939F7A62D3B0A, 0xB25F0F451D3A6471, 0xD52FA6A15F3F1585,
     0x917B214F3A98CD74] 5 =
    [0x384898FDAC37BE66, 0x27282005C527134E, 0x09BFDA7DDAA6F0E4, 0x03875355014156F1,
     0x1BAF4D09DCA21403, 0xC789454D5ECD3520, 0x0FA5C1ADE8025370, 0x73985DD3640A1430,
     0x385F15E6CECF0880, 0x1E16E37D88624C4E, 0xCA50EFCCDEE8027E, 0x89BD49B40FFBA523,
     0xC4DC778B4EDE59E9, 0x830A77FA5AC536D0, 0x21E3013620C16CE4, 0x0F3C5FE513532DF6,
     0x128BA463159F6B54, 0xA34A45680525CF41, 0xE90E4726A788ACCA, 0xA6034A2A0468E304,
     0xB8698F352FA92CDB, 0x1C5A2CB9AB0138DF, 0xB96D23764A076C6D, 0x4F7ECCE2DBB1DB68,
     0x9E84BC350FE22A92]"
  by (simp add: keccak_round_def theta_def rho_pi_def chi_def iota_def keccak_rot_def
      keccak_rc_def rotl64_def upt_rec Let_def)

lemma claimed_path_round_6:
  "keccak_round
    [0x384898FDAC37BE66, 0x27282005C527134E, 0x09BFDA7DDAA6F0E4, 0x03875355014156F1,
     0x1BAF4D09DCA21403, 0xC789454D5ECD3520, 0x0FA5C1ADE8025370, 0x73985DD3640A1430,
     0x385F15E6CECF0880, 0x1E16E37D88624C4E, 0xCA50EFCCDEE8027E, 0x89BD49B40FFBA523,
     0xC4DC778B4EDE59E9, 0x830A77FA5AC536D0, 0x21E3013620C16CE4, 0x0F3C5FE513532DF6,
     0x128BA463159F6B54, 0xA34A45680525CF41, 0xE90E4726A788ACCA, 0xA6034A2A0468E304,
     0xB8698F352FA92CDB, 0x1C5A2CB9AB0138DF, 0xB96D23764A076C6D, 0x4F7ECCE2DBB1DB68,
     0x9E84BC350FE22A92] 6 =
    [0xABDC029F2A3D3EF6, 0x8E005D05945B6568, 0x568BCAA388529060, 0x7FFB79C4B6BF8318,
     0x74D85D9049ACE16B, 0x446BDBC920FA9759, 0x7B044F0E36235FC3, 0x4E6E9C25EF94E3E1,
     0xBBEC1A16443D0C1A, 0x2FFD2AC176943C1F, 0x689ED99802C79E77, 0x4702F9C22A670C21,
     0xA1B505A74E3F19E4, 0xA81FA2FDCF342E9C, 0x5895A08C5A07CDD2, 0xE2A5A45FDC04259C,
     0x943853686ACD5125, 0x059DA5AE8C573303, 0xE87AA5D1BBEC9977, 0x1B884BC862FA2E7E,
     0x26E781ED6138AF9D, 0xF5989418B1474E7E, 0x7DB5E71E751F60F3, 0x913BAAF8668EE6B0,
     0x0D8F959B87E173C5]"
  by (simp add: keccak_round_def theta_def rho_pi_def chi_def iota_def keccak_rot_def
      keccak_rc_def rotl64_def upt_rec Let_def)

lemma claimed_path_round_7:
  "keccak_round
    [0xABDC029F2A3D3EF6, 0x8E005D05945B6568, 0x568BCAA388529060, 0x7FFB79C4B6BF8318,
     0x74D85D9049ACE16B, 0x446BDBC920FA9759, 0x7B044F0E36235FC3, 0x4E6E9C25EF94E3E1,
     0xBBEC1A16443D0C1A, 0x2FFD2AC176943C1F, 0x689ED99802C79E77, 0x4702F9C22A670C21,
     0xA1B505A74E3F19E4, 0xA81FA2FDCF342E9C, 0x5895A08C5A07CDD2, 0xE2A5A45FDC04259C,
     0x943853686ACD5125, 0x059DA5AE8C573303, 0xE87AA5D1BBEC9977, 0x1B884BC862FA2E7E,
     0x26E781ED6138AF9D, 0xF5989418B1474E7E, 0x7DB5E71E751F60F3, 0x913BAAF8668EE6B0,
     0x0D8F959B87E173C5] 7 =
    [0x9D4372270C1B2C81, 0x3A9A5B8AAE955333, 0x18343B9421233CE0, 0xF28B328753304DDC,
     0xC4490ADBC50FB5A3, 0x96646A2B595AD7F0, 0xC33D630DDFE92FBA, 0xD32C4B603A0C166E,
     0xF59E8ABE4BBC6ED6, 0x711B8B65DAE57EB8, 0xBF022DB5048B4474, 0xC30B00BF7B162425,
     0xA23F9308E6805333, 0x8CFD91CD578A928C, 0x048C1890AE9AF0FA, 0x7EAE6AA4813972C1,
     0x7749957A79388314, 0x728C5470C38D4F1B, 0x6A8D0D31D03876DE, 0x1E3BB9F31CB6F655,
     0xEEFB9E64468B98E8, 0xDAEABD0C75A32441, 0x953C15FB851439E8, 0x3F97D221FF70C6B6,
     0xC00E28169D266027]"
  by (simp add: keccak_round_def theta_def rho_pi_def chi_def iota_def keccak_rot_def
      keccak_rc_def rotl64_def upt_rec Let_def)

lemma claimed_path_round_8:
  "keccak_round
    [0x9D4372270C1B2C81, 0x3A9A5B8AAE955333, 0x18343B9421233CE0, 0xF28B328753304DDC,
     0xC4490ADBC50FB5A3, 0x96646A2B595AD7F0, 0xC33D630DDFE92FBA, 0xD32C4B603A0C166E,
     0xF59E8ABE4BBC6ED6, 0x711B8B65DAE57EB8, 0xBF022DB5048B4474, 0xC30B00BF7B162425,
     0xA23F9308E6805333, 0x8CFD91CD578A928C, 0x048C1890AE9AF0FA, 0x7EAE6AA4813972C1,
     0x7749957A79388314, 0x728C5470C38D4F1B, 0x6A8D0D31D03876DE, 0x1E3BB9F31CB6F655,
     0xEEFB9E64468B98E8, 0xDAEABD0C75A32441, 0x953C15FB851439E8, 0x3F97D221FF70C6B6,
     0xC00E28169D266027] 8 =
    [0xF58E5A30B00C3E6B, 0x4441FE067AEABB6F, 0x687898448B547507, 0x52B753F457DF53F7,
     0x5540D1E03C85D499, 0x680C7B9BC63C2836, 0xFF2DE57F52F3738F, 0xF1527B1CE422983F,
     0xF1108952800D1323, 0x00DBD92BB8AD6830, 0x0F99FE385C835944, 0x5168BDEF183E1136,
     0x891AF1AEEB996476, 0x2FCFF4489D5DE28C, 0xA8E9EFA42A5A3E80, 0x76492E90AA3883DF,
     0x4173599D29158BD4, 0xD810726D899E5069, 0x74FA0A60730DFC57, 0xDFFE876C9121A392,
     0x0C9A31C5F9E5F251, 0x3B122FAA1FC90195, 0x98B906490FEE5B72, 0x746253FA1F87E748,
     0xDD94AC7250D5BA4F]"
  by (simp add: keccak_round_def theta_def rho_pi_def chi_def iota_def keccak_rot_def
      keccak_rc_def rotl64_def upt_rec Let_def)

lemma claimed_path_round_9:
  "keccak_round
    [0xF58E5A30B00C3E6B, 0x4441FE067AEABB6F, 0x687898448B547507, 0x52B753F457DF53F7,
     0x5540D1E03C85D499, 0x680C7B9BC63C2836, 0xFF2DE57F52F3738F, 0xF1527B1CE422983F,
     0xF1108952800D1323, 0x00DBD92BB8AD6830, 0x0F99FE385C835944, 0x5168BDEF183E1136,
     0x891AF1AEEB996476, 0x2FCFF4489D5DE28C, 0xA8E9EFA42A5A3E80, 0x76492E90AA3883DF,
     0x4173599D29158BD4, 0xD810726D899E5069, 0x74FA0A60730DFC57, 0xDFFE876C9121A392,
     0x0C9A31C5F9E5F251, 0x3B122FAA1FC90195, 0x98B906490FEE5B72, 0x746253FA1F87E748,
     0xDD94AC7250D5BA4F] 9 =
    [0x607D670352022F39, 0xA48FA8847F8190BE, 0x1E895006FCFF9D2A, 0xA248C5E9FD0F48DE,
     0x5220A96F33083077, 0x4AE4C6758DDBDE80, 0xE91FE64ACD8119A2, 0xC2561E59F7BB29BB,
     0x9EBD79759DDFDA38, 0xF735860A48A7CE6F, 0xDB776C4C4C7784A4, 0x3AA1552A2CCB795C,
     0x900BF4BC630ACB31, 0x975414CDFD33F802, 0x575A7F748AA3047F, 0xCD40D187084D0D58,
     0xE0D10EFD7DE1EA02, 0x1A0ABF997EEE3972, 0xA51241B538B9A0E2, 0xF45BC4F5BF7277D0,
     0xF82F49C33469352B, 0xDFADD53A81AD8E53, 0x0B7DF65A4E6C065E, 0xA12169D1448E5696,
     0xCC201F190F662471]"
  by (simp add: keccak_round_def theta_def rho_pi_def chi_def iota_def keccak_rot_def
      keccak_rc_def rotl64_def upt_rec Let_def)

lemma claimed_path_round_10:
  "keccak_round
    [0x607D670352022F39, 0xA48FA8847F8190BE, 0x1E895006FCFF9D2A, 0xA248C5E9FD0F48DE,
     0x5220A96F33083077, 0x4AE4C6758DDBDE80, 0xE91FE64ACD8119A2, 0xC2561E59F7BB29BB,
     0x9EBD79759DDFDA38, 0xF735860A48A7CE6F, 0xDB776C4C4C7784A4, 0x3AA1552A2CCB795C,
     0x900BF4BC630ACB31, 0x975414CDFD33F802, 0x575A7F748AA3047F, 0xCD40D187084D0D58,
     0xE0D10EFD7DE1EA02, 0x1A0ABF997EEE3972, 0xA51241B538B9A0E2, 0xF45BC4F5BF7277D0,
     0xF82F49C33469352B, 0xDFADD53A81AD8E53, 0x0B7DF65A4E6C065E, 0xA12169D1448E5696,
     0xCC201F190F662471] 10 =
    [0x38F268AA5EB58CD4, 0xB19109E9F11F543D, 0x23302852992586B9, 0x9F7E48062A7D1F45,
     0x08796D2C89CD7B8C, 0x30BF3C3FB7B80217, 0xAC23E63C36955E20, 0x8DC31BBE4B403B05,
     0x54B392DF55A84E6C, 0x0F82E4825DED4D25, 0x96DA2EF6C1BAA491, 0x8E17A4541521A2E7,
     0x2E4F5D2C47B33FE1, 0x7DFE0B05B271AC42, 0x40C741FBF77F8865, 0x3F76413BB1E5A508,
     0xBCA559610C9DDA40, 0x1F9850C6674AD851, 0x17EEEFD09A0082A9, 0x17E95DCD0F862BA5,
     0xA3786423B77C021C, 0x18B3DBC9CD37B064, 0x31259928C563DE9C, 0xB7491D2E5EB43D18,
     0x9D2E03DE3E7E99F6]"
  by (simp add: keccak_round_def theta_def rho_pi_def chi_def iota_def keccak_rot_def
      keccak_rc_def rotl64_def upt_rec Let_def)

lemma claimed_path_round_11:
  "keccak_round
    [0x38F268AA5EB58CD4, 0xB19109E9F11F543D, 0x23302852992586B9, 0x9F7E48062A7D1F45,
     0x08796D2C89CD7B8C, 0x30BF3C3FB7B80217, 0xAC23E63C36955E20, 0x8DC31BBE4B403B05,
     0x54B392DF55A84E6C, 0x0F82E4825DED4D25, 0x96DA2EF6C1BAA491, 0x8E17A4541521A2E7,
     0x2E4F5D2C47B33FE1, 0x7DFE0B05B271AC42, 0x40C741FBF77F8865, 0x3F76413BB1E5A508,
     0xBCA559610C9DDA40, 0x1F9850C6674AD851, 0x17EEEFD09A0082A9, 0x17E95DCD0F862BA5,
     0xA3786423B77C021C, 0x18B3DBC9CD37B064, 0x31259928C563DE9C, 0xB7491D2E5EB43D18,
     0x9D2E03DE3E7E99F6] 11 =
    [0x082E6C3ACA930DFD, 0x41B5792ADF35F67C, 0xB246D16AB6BA2A96, 0x163D7211EAD54759,
     0x620289CD650891A2, 0x619D9D380268A1AA, 0x9CA422411639426F, 0xE602559FB8717F87,
     0x894CF461EB2845A9, 0x5117C0C9ED99117B, 0xD756B1BC231DA0B5, 0xD6A52DCA993CF9E1,
     0xCF5F8643FE1C1590, 0x11C029C78A725320, 0x80FF0B20B4BE1CD1, 0xC0F14D0C1056FEC5,
     0xF8C8816D2D360239, 0x26D7C1D1C0DA0662, 0xAFB1B33D9F0F7886, 0x868A0DD7AE6D0598,
     0xD622F0EEE64D2364, 0x63A0E49EFAA3C4E3, 0x01CF312993FE97D4, 0x4410977E108B7F7A,
     0x393729BA2B3A5C84]"
  by (simp add: keccak_round_def theta_def rho_pi_def chi_def iota_def keccak_rot_def
      keccak_rc_def rotl64_def upt_rec Let_def)

lemma claimed_path_round_12:
  "keccak_round
    [0x082E6C3ACA930DFD, 0x41B5792ADF35F67C, 0xB246D16AB6BA2A96, 0x163D7211EAD54759,
     0x620289CD650891A2, 0x619D9D380268A1AA, 0x9CA422411639426F, 0xE602559FB8717F87,
     0x894CF461EB2845A9, 0x5117C0C9ED99117B, 0xD756B1BC231DA0B5, 0xD6A52DCA993CF9E1,
     0xCF5F8643FE1C1590, 0x11C029C78A725320, 0x80FF0B20B4BE1CD1, 0xC0F14D0C1056FEC5,
     0xF8C8816D2D360239, 0x26D7C1D1C0DA0662, 0xAFB1B33D9F0F7886, 0x868A0DD7AE6D0598,
     0xD622F0EEE64D2364, 0x63A0E49EFAA3C4E3, 0x01CF312993FE97D4, 0x4410977E108B7F7A,
     0x393729BA2B3A5C84] 12 =
    [0x6D422CF2F8A7953E, 0xB71CF5C9309824D2, 0x7BA300BF9C1D4B8F, 0x9DC9E96027817F39,
     0x8429953BA913C350, 0x063FF9C4CB589DC8, 0x127D03854F0246CB, 0xD48BC824E9FBAF97,
     0xCEBB945B3B358E2D, 0x932640A8778FF437, 0x232A61C70537C8A1, 0xFC9C52CC70071C7E,
     0x34B7A07A3F6C162A, 0xD47C1B9597A93332, 0xDCDD49F33007DA78, 0x1A97C22052B9DFD4,
     0x6792AE44C7ADD74E, 0x55903705B96BB53A, 0x68A2E5B4D8B348D5, 0x20C0917D26C5892F,
     0x1E4EF86E8F626139, 0x131DF065621FD407, 0xA370C97E43D92877, 0xFA7301DA301BC10D,
     0x8F57F5FFD2FBCB38]"
  by (simp add: keccak_round_def theta_def rho_pi_def chi_def iota_def keccak_rot_def
      keccak_rc_def rotl64_def upt_rec Let_def)

lemma claimed_path_round_13:
  "keccak_round
    [0x6D422CF2F8A7953E, 0xB71CF5C9309824D2, 0x7BA300BF9C1D4B8F, 0x9DC9E96027817F39,
     0x8429953BA913C350, 0x063FF9C4CB589DC8, 0x127D03854F0246CB, 0xD48BC824E9FBAF97,
     0xCEBB945B3B358E2D, 0x932640A8778FF437, 0x232A61C70537C8A1, 0xFC9C52CC70071C7E,
     0x34B7A07A3F6C162A, 0xD47C1B9597A93332, 0xDCDD49F33007DA78, 0x1A97C22052B9DFD4,
     0x6792AE44C7ADD74E, 0x55903705B96BB53A, 0x68A2E5B4D8B348D5, 0x20C0917D26C5892F,
     0x1E4EF86E8F626139, 0x131DF065621FD407, 0xA370C97E43D92877, 0xFA7301DA301BC10D,
     0x8F57F5FFD2FBCB38] 13 =
    [0x926520C0A6A6C270, 0x0E60C04CEF01DC06, 0x4D77C043DADEDAB4, 0x5C29980E9749EADA,
     0x5698C1DA576CBCE1, 0xE62C66D737A7D943, 0xF3DC3DC80A48FE5C, 0xDC45C3F1DA26FFEC,
     0x84E95E1863B9893A, 0xA5E7A7CBED83BE58, 0x44FA9883E79509A5, 0x918783F26B8DF470,
     0x4314B0603B6312EA, 0x02CE6A10707CADA8, 0x463A4704D9B4D3EB, 0x85251182C247F1F7,
     0x1A2EE9D1A4FB465C, 0xB5889E8D12F1A9FB, 0xE4B26A9F7FB639AA, 0x38470F278D0D6EF8,
     0x1559E7E7B1762C57, 0xA434A7B9E2CB2367, 0xDA96369F8F8BF744, 0xCF5FB00877992A69,
     0xB5954FA7A778D206]"
  by (simp add: keccak_round_def theta_def rho_pi_def chi_def iota_def keccak_rot_def
      keccak_rc_def rotl64_def upt_rec Let_def)

lemma claimed_path_round_14:
  "keccak_round
    [0x926520C0A6A6C270, 0x0E60C04CEF01DC06, 0x4D77C043DADEDAB4, 0x5C29980E9749EADA,
     0x5698C1DA576CBCE1, 0xE62C66D737A7D943, 0xF3DC3DC80A48FE5C, 0xDC45C3F1DA26FFEC,
     0x84E95E1863B9893A, 0xA5E7A7CBED83BE58, 0x44FA9883E79509A5, 0x918783F26B8DF470,
     0x4314B0603B6312EA, 0x02CE6A10707CADA8, 0x463A4704D9B4D3EB, 0x85251182C247F1F7,
     0x1A2EE9D1A4FB465C, 0xB5889E8D12F1A9FB, 0xE4B26A9F7FB639AA, 0x38470F278D0D6EF8,
     0x1559E7E7B1762C57, 0xA434A7B9E2CB2367, 0xDA96369F8F8BF744, 0xCF5FB00877992A69,
     0xB5954FA7A778D206] 14 =
    [0x8E704069F7212222, 0xB01F12F656AE94A2, 0x90C36B939B72EE3E, 0x4A29403925E4DC13,
     0xEA321AB22472057A, 0x8A470CC8D913F458, 0x018496BDDFA57529, 0x957CCC3DBB93133E,
     0x897F789A8ED4DD95, 0x5CEE9F4349271648, 0x3DB7BE44544D8313, 0x62A7E702E15DF433,
     0x759C20FBE1DF9156, 0x1AAA4C33A5A09ECC, 0xD93DA7C63E525E9B, 0x4EF627F03F162F35,
     0xF7854DE7FFCCF5ED, 0xFE7100C709A451A4, 0xE35C47314DCAC912, 0x8C0A416F62C37452,
     0x976C0767804B4D0E, 0xB6108FC3B92BC60D, 0xD44205FF292092A7, 0x04F4F46AE06B50B1,
     0xDAAE9BA6D3907B38]"
  by (simp add: keccak_round_def theta_def rho_pi_def chi_def iota_def keccak_rot_def
      keccak_rc_def rotl64_def upt_rec Let_def)

lemma claimed_path_round_15:
  "keccak_round
    [0x8E704069F7212222, 0xB01F12F656AE94A2, 0x90C36B939B72EE3E, 0x4A29403925E4DC13,
     0xEA321AB22472057A, 0x8A470CC8D913F458, 0x018496BDDFA57529, 0x957CCC3DBB93133E,
     0x897F789A8ED4DD95, 0x5CEE9F4349271648, 0x3DB7BE44544D8313, 0x62A7E702E15DF433,
     0x759C20FBE1DF9156, 0x1AAA4C33A5A09ECC, 0xD93DA7C63E525E9B, 0x4EF627F03F162F35,
     0xF7854DE7FFCCF5ED, 0xFE7100C709A451A4, 0xE35C47314DCAC912, 0x8C0A416F62C37452,
     0x976C0767804B4D0E, 0xB6108FC3B92BC60D, 0xD44205FF292092A7, 0x04F4F46AE06B50B1,
     0xDAAE9BA6D3907B38] 15 =
    [0x56741AC94867AC13, 0xB1E40E5BEC083D39, 0x0FD4C07DE4B40D59, 0x9469DB58703B5CA6,
     0xDFAB3BABF0DD48BC, 0x99074D6C1DBF603A, 0xB4549157606BBCCD, 0x8940620773CA4B0D,
     0x63859E7BD568DF29, 0xE1984563487E7FE0, 0xC848CCB68F93B8D4, 0xF71AB1F75016311E,
     0xD30DD9DC378643F7, 0x63634141161DCC67, 0xE23CCCB55DFE28E0, 0xF0E8367DBAC69BD4,
     0xE547B28AF01B6EE6, 0x10E6E09868B75D98, 0x175EA0D3BD358ABC, 0x603BEF07BFDC1D78,
     0x0F3BD8C856CA656D, 0xE3107621C44C6A7B, 0x1B360A9992A262DC, 0x57521EF5C133E928,
     0x28ED47AF7CE73DC5]"
  by (simp add: keccak_round_def theta_def rho_pi_def chi_def iota_def keccak_rot_def
      keccak_rc_def rotl64_def upt_rec Let_def)

lemma claimed_path_round_16:
  "keccak_round
    [0x56741AC94867AC13, 0xB1E40E5BEC083D39, 0x0FD4C07DE4B40D59, 0x9469DB58703B5CA6,
     0xDFAB3BABF0DD48BC, 0x99074D6C1DBF603A, 0xB4549157606BBCCD, 0x8940620773CA4B0D,
     0x63859E7BD568DF29, 0xE1984563487E7FE0, 0xC848CCB68F93B8D4, 0xF71AB1F75016311E,
     0xD30DD9DC378643F7, 0x63634141161DCC67, 0xE23CCCB55DFE28E0, 0xF0E8367DBAC69BD4,
     0xE547B28AF01B6EE6, 0x10E6E09868B75D98, 0x175EA0D3BD358ABC, 0x603BEF07BFDC1D78,
     0x0F3BD8C856CA656D, 0xE3107621C44C6A7B, 0x1B360A9992A262DC, 0x57521EF5C133E928,
     0x28ED47AF7CE73DC5] 16 =
    [0x2A1D54C8BC447BFF, 0x7EB05D8ABD7FEA9F, 0xA1535937BA782946, 0xB18362AC750CEC30,
     0xC189DCCA4177076D, 0xFF21A587A2BA16B1, 0x16933BB061544A91, 0xA380149BCD85685F,
     0xC40DB523BEB56845, 0x484788984DC659CA, 0x7B3EF976DF2B946D, 0x4E01318D472D6CF0,
     0x8A40F9B1C62171EA, 0xC9B23F5E0E078846, 0x5E738525CA0DA8F4, 0x1C84D18262F58114,
     0x81E3FD4E92D9158C, 0x479C5FF60F6E42EC, 0x2DB8DD02DF8BE7DE, 0x6D6385F6F8DF2227,
     0xCC8B974BA00FE247, 0x259A4A053B51A4CD, 0x08AC88C7BDC89BB9, 0x8B9B6193B571BAA8,
     0xBFACAB310426534E]"
  by (simp add: keccak_round_def theta_def rho_pi_def chi_def iota_def keccak_rot_def
      keccak_rc_def rotl64_def upt_rec Let_def)

lemma claimed_path_round_17:
  "keccak_round
    [0x2A1D54C8BC447BFF, 0x7EB05D8ABD7FEA9F, 0xA1535937BA782946, 0xB18362AC750CEC30,
     0xC189DCCA4177076D, 0xFF21A587A2BA16B1, 0x16933BB061544A91, 0xA380149BCD85685F,
     0xC40DB523BEB56845, 0x484788984DC659CA, 0x7B3EF976DF2B946D, 0x4E01318D472D6CF0,
     0x8A40F9B1C62171EA, 0xC9B23F5E0E078846, 0x5E738525CA0DA8F4, 0x1C84D18262F58114,
     0x81E3FD4E92D9158C, 0x479C5FF60F6E42EC, 0x2DB8DD02DF8BE7DE, 0x6D6385F6F8DF2227,
     0xCC8B974BA00FE247, 0x259A4A053B51A4CD, 0x08AC88C7BDC89BB9, 0x8B9B6193B571BAA8,
     0xBFACAB310426534E] 17 =
    [0xB69C5B00C793662B, 0xE0BBC87D8B219CC0, 0x6D5699EE61ACA573, 0x0A8D0FC0A3991E58,
     0x9886EF32459A562A, 0xC47FE09A26C95EAD, 0x3B8E4BD2CAD27684, 0x439729F653964952,
     0x6BB0EEBD2B78C58E, 0x845935569A0B6891, 0x1B576E12794B6607, 0x3B5B2BA8A4ABD80C,
     0xA4F045D51001DC76, 0x7DBC5454C507C0CE, 0xC40FECF278AFADBA, 0x7783731651AA62AB,
     0x5F378FFBEC2174FF, 0x5AE6D9424D9536FC, 0x8EC493B64ED0985E, 0xF27251B471831C09,
     0xC5AF8C1ABD9DFD2C, 0x9B1CA7B6373D360D, 0x8963A05843066131, 0xDD722678864F9C67,
     0x59472B30F84FB580]"
  by (simp add: keccak_round_def theta_def rho_pi_def chi_def iota_def keccak_rot_def
      keccak_rc_def rotl64_def upt_rec Let_def)

lemma claimed_path_round_18:
  "keccak_round
    [0xB69C5B00C793662B, 0xE0BBC87D8B219CC0, 0x6D5699EE61ACA573, 0x0A8D0FC0A3991E58,
     0x9886EF32459A562A, 0xC47FE09A26C95EAD, 0x3B8E4BD2CAD27684, 0x439729F653964952,
     0x6BB0EEBD2B78C58E, 0x845935569A0B6891, 0x1B576E12794B6607, 0x3B5B2BA8A4ABD80C,
     0xA4F045D51001DC76, 0x7DBC5454C507C0CE, 0xC40FECF278AFADBA, 0x7783731651AA62AB,
     0x5F378FFBEC2174FF, 0x5AE6D9424D9536FC, 0x8EC493B64ED0985E, 0xF27251B471831C09,
     0xC5AF8C1ABD9DFD2C, 0x9B1CA7B6373D360D, 0x8963A05843066131, 0xDD722678864F9C67,
     0x59472B30F84FB580] 18 =
    [0x35E607469DC93CD8, 0x07A8E636F70B982A, 0xAB8474B85E0BA925, 0x68E7E1114F4682D7,
     0x5DBE856FA82D2A78, 0x3D6D54CD2B471BAA, 0xE58FD1A7DDC5D5C4, 0x01E914A271E9EA08,
     0xF65DF63CD6930828, 0x24FB2709FE66C1BD, 0x10D5758B4D2921E4, 0x5F2E54C1FE01CBB4,
     0x4D1B332481C55E84, 0x65801B3FF32D21EA, 0x6D59B7CC1B43311D, 0x49077C78354435DE,
     0x4F39E18F7918C1E7, 0xE9620A0574ADFAC6, 0xAC67CED98C027C36, 0xEF5B0D354BEDC38F,
     0xB84F4E18D5163E62, 0xA20843FCFD0E3A6E, 0x831C1B7E255C4E72, 0x913BAA934E3D3A07,
     0xCD96F3154B05E0F6]"
  by (simp add: keccak_round_def theta_def rho_pi_def chi_def iota_def keccak_rot_def
      keccak_rc_def rotl64_def upt_rec Let_def)

lemma claimed_path_round_19:
  "keccak_round
    [0x35E607469DC93CD8, 0x07A8E636F70B982A, 0xAB8474B85E0BA925, 0x68E7E1114F4682D7,
     0x5DBE856FA82D2A78, 0x3D6D54CD2B471BAA, 0xE58FD1A7DDC5D5C4, 0x01E914A271E9EA08,
     0xF65DF63CD6930828, 0x24FB2709FE66C1BD, 0x10D5758B4D2921E4, 0x5F2E54C1FE01CBB4,
     0x4D1B332481C55E84, 0x65801B3FF32D21EA, 0x6D59B7CC1B43311D, 0x49077C78354435DE,
     0x4F39E18F7918C1E7, 0xE9620A0574ADFAC6, 0xAC67CED98C027C36, 0xEF5B0D354BEDC38F,
     0xB84F4E18D5163E62, 0xA20843FCFD0E3A6E, 0x831C1B7E255C4E72, 0x913BAA934E3D3A07,
     0xCD96F3154B05E0F6] 19 =
    [0x2406CA0D989A0AD1, 0xB8B85348103CCA12, 0x932A818579D5D270, 0xF2190824BD339103,
     0x744A646A81E53777, 0x001DFF848B9CD34C, 0x7940013188E78BB6, 0x3B89E2650B585309,
     0x13DECB07E62811E8, 0x72FF016EE0C2552F, 0x7172DD5966AF9D7F, 0x4700C51CAFE7CC54,
     0x533E34F75A8A5618, 0x7141A57EC617FAB8, 0x9951E514F8C4DB3C, 0x3BB826C9084FA08F,
     0x7D9A884E347FD857, 0xF320A86B2652B690, 0xAC43BC3DA6EB9EC4, 0x1830082D76BA7A70,
     0xD9BC1D469EF5EBED, 0x3387FAB2F0D90399, 0x77737A7CA8AB3E0F, 0xB5ABA2BDDCAD2BB0,
     0x66382E6D455195FD]"
  by (simp add: keccak_round_def theta_def rho_pi_def chi_def iota_def keccak_rot_def
      keccak_rc_def rotl64_def upt_rec Let_def)

lemma claimed_path_round_20:
  "keccak_round
    [0x2406CA0D989A0AD1, 0xB8B85348103CCA12, 0x932A818579D5D270, 0xF2190824BD339103,
     0x744A646A81E53777, 0x001DFF848B9CD34C, 0x7940013188E78BB6, 0x3B89E2650B585309,
     0x13DECB07E62811E8, 0x72FF016EE0C2552F, 0x7172DD5966AF9D7F, 0x4700C51CAFE7CC54,
     0x533E34F75A8A5618, 0x7141A57EC617FAB8, 0x9951E514F8C4DB3C, 0x3BB826C9084FA08F,
     0x7D9A884E347FD857, 0xF320A86B2652B690, 0xAC43BC3DA6EB9EC4, 0x1830082D76BA7A70,
     0xD9BC1D469EF5EBED, 0x3387FAB2F0D90399, 0x77737A7CA8AB3E0F, 0xB5ABA2BDDCAD2BB0,
     0x66382E6D455195FD] 20 =
    [0xF862EB2E65A679D8, 0x10B423BE89A6F2E2, 0x60F2154A79524B5D, 0xB3AAA6CD19A21A8A,
     0xFF9FD91E5976E243, 0x5EDC5723E8E2C748, 0xF5CC7CC452B954AF, 0xDA058893CC0FB3D5,
     0x0D51F49D6E627342, 0x75A94503C2AD8E6A, 0x72D1763D57BED41C, 0x6DAB9C8B41C68C1E,
     0xFE68F2312ADE0CD9, 0xA5D65F5EEEAA066F, 0xCCBBCEE4C5A6AC4D, 0xC5754F3AACCF7DD3,
     0x7406182D9DA93AFC, 0xC178384521FEE36E, 0x9E20CEBE3FE1288C, 0xB70B2CEE1F0E41F5,
     0x4644EC57F1231E8C, 0xC067D6015F8827F3, 0xDD4D041F32553079, 0xF4B456DFBFB3548A,
     0x4D4F8F317AD2AEE4]"
  by (simp add: keccak_round_def theta_def rho_pi_def chi_def iota_def keccak_rot_def
      keccak_rc_def rotl64_def upt_rec Let_def)

lemma claimed_path_round_21:
  "keccak_round
    [0xF862EB2E65A679D8, 0x10B423BE89A6F2E2, 0x60F2154A79524B5D, 0xB3AAA6CD19A21A8A,
     0xFF9FD91E5976E243, 0x5EDC5723E8E2C748, 0xF5CC7CC452B954AF, 0xDA058893CC0FB3D5,
     0x0D51F49D6E627342, 0x75A94503C2AD8E6A, 0x72D1763D57BED41C, 0x6DAB9C8B41C68C1E,
     0xFE68F2312ADE0CD9, 0xA5D65F5EEEAA066F, 0xCCBBCEE4C5A6AC4D, 0xC5754F3AACCF7DD3,
     0x7406182D9DA93AFC, 0xC178384521FEE36E, 0x9E20CEBE3FE1288C, 0xB70B2CEE1F0E41F5,
     0x4644EC57F1231E8C, 0xC067D6015F8827F3, 0xDD4D041F32553079, 0xF4B456DFBFB3548A,
     0x4D4F8F317AD2AEE4] 21 =
    [0xBD0F39B3EB77AA95, 0xB927815E4B39ADF2, 0xA2C7731CC5219692, 0xE5DE91E86070FB2A,
     0x72095B7DABB02058, 0xACAC2234700D357E, 0x696D49D9F658AA90, 0xBBA5612CEE65AA8D,
     0xF1987051EAE2B12E, 0xE100DDEB0DC92E8C, 0xED7DDBDA29C06667, 0x7F6BDE29BBA8D2E1,
     0x512F453EE00FD259, 0xEA3B280C1A809233, 0x0B2FC9E8FD2E9F24, 0xD63190302120D0FE,
     0x219948D8CF8BD2A6, 0xA51E473E0369D60F, 0xDF8137AB79B80B8E, 0x0EDDE5AEB75FD22D,
     0xE78CCD9B0AF28EB8, 0x53BE2C2291C1C001, 0xD8D265EFDD741AD9, 0x5A30B011F58D580D,
     0x89A650C7B23182B5]"
  by (simp add: keccak_round_def theta_def rho_pi_def chi_def iota_def keccak_rot_def
      keccak_rc_def rotl64_def upt_rec Let_def)

lemma claimed_path_round_22:
  "keccak_round
    [0xBD0F39B3EB77AA95, 0xB927815E4B39ADF2, 0xA2C7731CC5219692, 0xE5DE91E86070FB2A,
     0x72095B7DABB02058, 0xACAC2234700D357E, 0x696D49D9F658AA90, 0xBBA5612CEE65AA8D,
     0xF1987051EAE2B12E, 0xE100DDEB0DC92E8C, 0xED7DDBDA29C06667, 0x7F6BDE29BBA8D2E1,
     0x512F453EE00FD259, 0xEA3B280C1A809233, 0x0B2FC9E8FD2E9F24, 0xD63190302120D0FE,
     0x219948D8CF8BD2A6, 0xA51E473E0369D60F, 0xDF8137AB79B80B8E, 0x0EDDE5AEB75FD22D,
     0xE78CCD9B0AF28EB8, 0x53BE2C2291C1C001, 0xD8D265EFDD741AD9, 0x5A30B011F58D580D,
     0x89A650C7B23182B5] 22 =
    [0x004E2401884B45B3, 0x07CDBCD0B3790729, 0x1811CFDD0D7EAC0F, 0xDB4C13B97D9272E2,
     0x8DC8EFC112150A62, 0xDDF15DB6BBCF0B01, 0x269BA32FAAD20533, 0x59262A2E87D45A60,
     0xE69DD47D0F9A4F88, 0xBE4BB33CB7A719E8, 0x8F89EC69B47A9D23, 0x4A73DD3AA24ABCC8,
     0xF364D946E1A30043, 0xE49C2495588C98EF, 0x0CF186B10C612B33, 0xF4AA3722EC983630,
     0xA72D94229CF20839, 0x23E08E00D09C075C, 0xE49004D08FA1D6C4, 0x4E448AE1F31F6071,
     0xEA16E5D0AB2555D6, 0xA66F6D7A1120F91C, 0x2E6DC3FD1A5E854A, 0x1D3DB8B3E0764F8C,
     0xC2147980D81429A7]"
  by (simp add: keccak_round_def theta_def rho_pi_def chi_def iota_def keccak_rot_def
      keccak_rc_def rotl64_def upt_rec Let_def)

lemma claimed_path_round_23:
  "keccak_round
    [0x004E2401884B45B3, 0x07CDBCD0B3790729, 0x1811CFDD0D7EAC0F, 0xDB4C13B97D9272E2,
     0x8DC8EFC112150A62, 0xDDF15DB6BBCF0B01, 0x269BA32FAAD20533, 0x59262A2E87D45A60,
     0xE69DD47D0F9A4F88, 0xBE4BB33CB7A719E8, 0x8F89EC69B47A9D23, 0x4A73DD3AA24ABCC8,
     0xF364D946E1A30043, 0xE49C2495588C98EF, 0x0CF186B10C612B33, 0xF4AA3722EC983630,
     0xA72D94229CF20839, 0x23E08E00D09C075C, 0xE49004D08FA1D6C4, 0x4E448AE1F31F6071,
     0xEA16E5D0AB2555D6, 0xA66F6D7A1120F91C, 0x2E6DC3FD1A5E854A, 0x1D3DB8B3E0764F8C,
     0xC2147980D81429A7] 23 =
    [0x67821C92EC71F353, 0x3D971852D46B2394, 0xB3ABF2F603A5E451, 0xBDE5434E66B30046,
     0x3A6BC6388D691E78, 0xEF960E82F22EE70B, 0x8D7547357CA01916, 0x43959BB246EB8917,
     0xE701E4830617E2EE, 0xE0D869F498496E90, 0x646638CA6578B255, 0x1069F5EC1B5F51AC,
     0x42FDFA5430382907, 0xB0B9AAA6CB3CDAE3, 0x6F14D36A7D5D36E2, 0x565E0E3657A2E015,
     0xD702FA0B21D8BE17, 0x7DE21D1D5FD7203D, 0x93C6BE2491396407, 0x68C4F792001417D9,
     0xC4CD9A892CD0EB98, 0xB39FE0DFBB05F2EC, 0xCAFD8842C1AF691E, 0xC539F3A7A8FA0884,
     0x6775226CD8D3941E]"
  by (simp add: keccak_round_def theta_def rho_pi_def chi_def iota_def keccak_rot_def
      keccak_rc_def rotl64_def upt_rec Let_def)

lemma claimed_path_permuted:
  "keccak_f
    [0x7774656E2E676973, 0x302E3276206B726F, 0x6C6973706520302E, 0x7669726564206E6F,
     0x7069656E6F697461, 0x737349313A353531, 0x3232313A3A726575, 0x6D66656463626130,
     0x302F30362F34342F, 0x000000000001302F, 0x0000000000000000, 0x0000000000000000,
     0x0000000000000000, 0x0000000000000000, 0x0000000000000000, 0x0000000000000000,
     0x8000000000000000, 0x0000000000000000, 0x0000000000000000, 0x0000000000000000,
     0x0000000000000000, 0x0000000000000000, 0x0000000000000000, 0x0000000000000000,
     0x0000000000000000] =
    [0x67821C92EC71F353, 0x3D971852D46B2394, 0xB3ABF2F603A5E451, 0xBDE5434E66B30046,
     0x3A6BC6388D691E78, 0xEF960E82F22EE70B, 0x8D7547357CA01916, 0x43959BB246EB8917,
     0xE701E4830617E2EE, 0xE0D869F498496E90, 0x646638CA6578B255, 0x1069F5EC1B5F51AC,
     0x42FDFA5430382907, 0xB0B9AAA6CB3CDAE3, 0x6F14D36A7D5D36E2, 0x565E0E3657A2E015,
     0xD702FA0B21D8BE17, 0x7DE21D1D5FD7203D, 0x93C6BE2491396407, 0x68C4F792001417D9,
     0xC4CD9A892CD0EB98, 0xB39FE0DFBB05F2EC, 0xCAFD8842C1AF691E, 0xC539F3A7A8FA0884,
     0x6775226CD8D3941E]"
  by (simp only: keccak_f_def upt_0_24 foldl.simps
      claimed_path_round_0 claimed_path_round_1 claimed_path_round_2 claimed_path_round_3 claimed_path_round_4 claimed_path_round_5 claimed_path_round_6 claimed_path_round_7 claimed_path_round_8 claimed_path_round_9 claimed_path_round_10 claimed_path_round_11 claimed_path_round_12 claimed_path_round_13 claimed_path_round_14 claimed_path_round_15 claimed_path_round_16 claimed_path_round_17 claimed_path_round_18 claimed_path_round_19 claimed_path_round_20 claimed_path_round_21 claimed_path_round_22 claimed_path_round_23)

lemma claimed_path_digest:
  "keccak_256 (stringToBytes claimed_path_text) =
    [0x53, 0xF3, 0x71, 0xEC, 0x92, 0x1C, 0x82, 0x67, 0x94, 0x23, 0x6B, 0xD4, 0x52, 0x18, 0x97, 0x3D,
     0x51, 0xE4, 0xA5, 0x03, 0xF6, 0xF2, 0xAB, 0xB3, 0x46, 0x00, 0xB3, 0x66, 0x4E, 0x43, 0xE5, 0xBD]"
proof -
  have "chunks 136 (keccak_pad (stringToBytes claimed_path_text)) = [keccak_pad (stringToBytes claimed_path_text)]"
    by (simp add: claimed_path_block)
  moreover have "absorb (replicate 25 0) (keccak_pad (stringToBytes claimed_path_text)) =
    [0x67821C92EC71F353, 0x3D971852D46B2394, 0xB3ABF2F603A5E451, 0xBDE5434E66B30046,
     0x3A6BC6388D691E78, 0xEF960E82F22EE70B, 0x8D7547357CA01916, 0x43959BB246EB8917,
     0xE701E4830617E2EE, 0xE0D869F498496E90, 0x646638CA6578B255, 0x1069F5EC1B5F51AC,
     0x42FDFA5430382907, 0xB0B9AAA6CB3CDAE3, 0x6F14D36A7D5D36E2, 0x565E0E3657A2E015,
     0xD702FA0B21D8BE17, 0x7DE21D1D5FD7203D, 0x93C6BE2491396407, 0x68C4F792001417D9,
     0xC4CD9A892CD0EB98, 0xB39FE0DFBB05F2EC, 0xCAFD8842C1AF691E, 0xC539F3A7A8FA0884,
     0x6775226CD8D3941E]"
    by (simp only: absorb_def claimed_path_block claimed_path_absorbed claimed_path_permuted)
  ultimately show ?thesis
    by (simp add: keccak_256_def bytes_of_lane_def upt_rec)
qed


section \<open>Lemmas: the test context evaluated\<close>

lemma code_path_text_eq:
  "EPSILON_DERIVATION_PREFIX @ '':'' @ ''eip155:1'' @ '':'' @ ''Issuer::1220abcdef'' @ '':'' @ ''m/44/60/0/0''
   = code_path_text"
  by (simp add: EPSILON_DERIVATION_PREFIX_def code_path_text_def)

lemma claimed_path_text_eq:
  "EPSILON_DERIVATION_PREFIX @ ''eip155:1'' @ ''Issuer::1220abcdef'' @ ''m/44/60/0/0''
   = claimed_path_text"
  by (simp add: EPSILON_DERIVATION_PREFIX_def claimed_path_text_def)

lemma code_path_epsilon:
  "be_value (keccak_256 (stringToBytes code_path_text))
   = 0x474c46694fd7c8a19605127ba2320d1585b5abb9a1c57a66a8f77a29c3a56920"
  by (simp add: code_path_digest be_value_def)

lemma claimed_path_epsilon:
  "be_value (keccak_256 (stringToBytes claimed_path_text))
   = 0x53f371ec921c826794236bd45218973d51e4a503f6f2abb34600b3664e43e5bd"
  by (simp add: claimed_path_digest be_value_def)

lemma hex_value_MPC_ROOT_PRIVATE_KEY:
  "hex_value (drop 2 MPC_ROOT_PRIVATE_KEY) = 0x1234567890abcdef1234567890abcdef1234567890abcdef1234567890abcdef"
  by (simp add: MPC_ROOT_PRIVATE_KEY_def hex_value_def digits_value_def digit_of_def charCodeToBase16_def)

lemma hex_value_zero_child_root:
  "hex_value (drop 2 zero_child_root) = 0xb8b3b996b028375e69faed845dcdf2e934f9312d0d8325d516dae4630c90d821"
  by (simp add: zero_child_root_def hex_value_def digits_value_def digit_of_def charCodeToBase16_def)

lemma MPC_ROOT_PRIVATE_KEY_scalar:
  "child_scalar_of MPC_ROOT_PRIVATE_KEY ''Issuer::1220abcdef'' ''m/44/60/0/0'' ''eip155:1''
   = 0x59809ce1e0839690a83968f432dddb0497ea023232714855bb2bd0a25451370f"
  unfolding child_scalar_of_def code_path_text_eq
  by (simp add: code_path_epsilon hex_value_MPC_ROOT_PRIVATE_KEY CURVE_ORDER_def)

lemma MPC_ROOT_PRIVATE_KEY_claimed_scalar:
  "claimed_child_scalar MPC_ROOT_PRIVATE_KEY ''Issuer::1220abcdef'' ''m/44/60/0/0'' ''eip155:1''
   = 0x6627c86522c85056a657c24ce2c4652c6418fb7c879e79a2583509dedeefb3ac"
  unfolding claimed_child_scalar_def claimed_path_text_eq
  by (simp add: claimed_path_epsilon hex_value_MPC_ROOT_PRIVATE_KEY CURVE_ORDER_def)

lemma zero_child_root_scalar:
  "child_scalar_of zero_child_root ''Issuer::1220abcdef'' ''m/44/60/0/0'' ''eip155:1'' = 0"
  unfolding child_scalar_of_def code_path_text_eq
  by (simp add: code_path_epsilon hex_value_zero_child_root CURVE_ORDER_def)

lemma isHex_MPC_ROOT_PRIVATE_KEY: "isHex MPC_ROOT_PRIVATE_KEY \<and> 2 < length MPC_ROOT_PRIVATE_KEY"
  by (simp add: MPC_ROOT_PRIVATE_KEY_def isHex_def is_hex_digit_def charCodeToBase16_def)

lemma isHex_zero_child_root: "isHex zero_child_root \<and> 2 < length zero_child_root"
  by (simp add: zero_child_root_def isHex_def is_hex_digit_def charCodeToBase16_def)

lemma key_text_test:
  "padStart 64 CHR ''0'' (toString16 0x59809ce1e0839690a83968f432dddb0497ea023232714855bb2bd0a25451370f)
   = ''59809ce1e0839690a83968f432dddb0497ea023232714855bb2bd0a25451370f''"
  by (simp add: padStart_def toString16_def hex_digits_of.simps hex_digit_def)

lemma key_text_zero:
  "padStart 64 CHR ''0'' (toString16 0) = replicate 64 CHR ''0''"
proof -
  have "replicate 64 CHR ''0'' = replicate (Suc 63) CHR ''0''" by simp
  also have "\<dots> = replicate 63 CHR ''0'' @ ''0''"
    by (simp only: replicate_Suc replicate_append_same)
  finally show ?thesis
    by (simp add: padStart_def toString16_def hex_digits_of_zero)
qed


lemma key_text_claimed:
  "padStart 64 CHR ''0'' (toString16 0x6627c86522c85056a657c24ce2c4652c6418fb7c879e79a2583509dedeefb3ac)
   = ''6627c86522c85056a657c24ce2c4652c6418fb7c879e79a2583509dedeefb3ac''"
  by (simp add: padStart_def toString16_def hex_digits_of.simps hex_digit_def)

lemma replicate_64_zero:
  "replicate 64 CHR ''0'' = ''0000000000000000000000000000000000000000000000000000000000000000''"
  by (simp add: replicate_numeral_unfold)

text \<open>A root key with a no-break space before the literal is a key like any other.\<close>

lemma deriveChildPrivateKey_no_break_space:
  "deriveChildPrivateKey ([CHR 0xC2, CHR 0xA0] @ ''0x10'') ''Issuer::1220abcdef'' ''m/44/60/0/0''
      ''eip155:1''
   = Inr ''0x474c46694fd7c8a19605127ba2320d1585b5abb9a1c57a66a8f77a29c3a56930''"
proof -
  have t: "padStart 64 CHR ''0''
      (toString16 0x474c46694fd7c8a19605127ba2320d1585b5abb9a1c57a66a8f77a29c3a56930)
    = ''474c46694fd7c8a19605127ba2320d1585b5abb9a1c57a66a8f77a29c3a56930''"
    by (simp add: padStart_def toString16_def hex_digits_of.simps hex_digit_def)
  have p: "derivationPath ''eip155:1'' ''Issuer::1220abcdef'' ''m/44/60/0/0'' = code_path_text"
    unfolding derivationPath_def by (rule code_path_text_eq)
  have "(16 + int (be_value (keccak_256 (stringToBytes code_path_text)))) mod CURVE_ORDER
      = 0x474c46694fd7c8a19605127ba2320d1585b5abb9a1c57a66a8f77a29c3a56930"
    by (simp add: code_path_epsilon CURVE_ORDER_def)
  then show ?thesis
    unfolding deriveChildPrivateKey_unfold p js_BigInt_no_break_space
    by (simp add: ebind_def t)
qed

section \<open>RequestIdentity: the request identifier\<close>

lemma valid_sampleEvmParams: "valid_intent sampleEvmParams"
  by (simp add: valid_intent_def sampleEvmParams_def hex_field_def is_hex_digit_def
      charCodeToBase16_def)

text \<open>
  Claim C1. For every transaction intent, \<open>computeRequestId(sender, intent, caip2Id,
  keyVersion, path)\<close> is the Keccak-256 hash of the concatenation: the UTF-8 bytes of the
  sender, the packed intent (\<open>to\<close> at 20 bytes, the UTF-8 bytes of the function
  signature, the arguments one after the other, then value, nonce, gasLimit, maxFeePerGas,
  maxPriorityFee and chainId each left-padded to 32 bytes), the UTF-8 bytes of the chain
  context, the key version as 4 bytes big-endian, the UTF-8 bytes of the path, of
  \<open>ECDSA\<close> and of \<open>ethereum\<close>. The result is a 32-byte value (rendered as \<open>0x\<close> and 64
  digits); it is a function of the five arguments alone, so it is deterministic.

  The first conjunct holds for all arguments, well-formed or not. The byte layout is that
  of the valid intents of the data model (hexadecimal fields no wider than their canonical
  width) and of key versions in the range of an unsigned 32-bit number.
\<close>

theorem computeRequestId_layout:
  "(\<exists>d. length d = 32 \<and> computeRequestId sender p caip2Id keyVersion path = Inr (toHex d)) \<and>
   (valid_intent p \<and> 0 \<le> keyVersion \<and> keyVersion < 2 ^ 32 \<longrightarrow>
      computeRequestId sender p caip2Id keyVersion path
        = Inr (toHex (keccak_256 (requestId_preimage sender p caip2Id keyVersion path))))"
proof (intro conjI impI)
  show "\<exists>d. length d = 32 \<and> computeRequestId sender p caip2Id keyVersion path = Inr (toHex d)"
    unfolding computeRequestId_def Let_def by (rule keccak256_total)
next
  assume "valid_intent p \<and> 0 \<le> keyVersion \<and> keyVersion < 2 ^ 32"
  then have "hex_pairs (textToHex sender @ packParams p @ textToHex caip2Id @ uint32ToHex keyVersion
                   @ textToHex path @ textToHex ''ECDSA'' @ textToHex ''ethereum'')
         = Inr (requestId_preimage sender p caip2Id keyVersion path)"
    using hex_pairs_request_text by blast
  then show "computeRequestId sender p caip2Id keyVersion path
        = Inr (toHex (keccak_256 (requestId_preimage sender p caip2Id keyVersion path)))"
    unfolding computeRequestId_def Let_def
    using keccak256_0x by simp
qed

theorem computeRequestId_layout_witness:
  "valid_intent sampleEvmParams \<and> (0::int) \<le> 1 \<and> (1::int) < 2 ^ 32 \<and>
   computeRequestId ''Issuer::1220abcdef'' sampleEvmParams ''eip155:11155111'' 1 ''m/44/60/0/0''
     = Inr (toHex (keccak_256
         (requestId_preimage ''Issuer::1220abcdef'' sampleEvmParams ''eip155:11155111'' 1
            ''m/44/60/0/0'')))"
  using computeRequestId_layout
    [where sender = "''Issuer::1220abcdef''" and p = sampleEvmParams
       and caip2Id = "''eip155:11155111''" and keyVersion = 1 and path = "''m/44/60/0/0''"]
    valid_sampleEvmParams
  by simp

section \<open>KeyDerivation: the child key\<close>

text \<open>
  Claim C2, as stated: the child key is \<open>(root + epsilon) mod n\<close> with \<open>epsilon\<close> the
  hash of \<open>domainPrefix \<parallel> chainContext \<parallel> predecessorId \<parallel> path\<close>. The code hashes the
  four parts joined with colons. For the root key and context of the repository's tests
  the key returned and the key of the plain concatenation differ.
\<close>

theorem deriveChildPrivateKey_plain_concat_counterexample:
  "deriveChildPrivateKey MPC_ROOT_PRIVATE_KEY ''Issuer::1220abcdef'' ''m/44/60/0/0'' ''eip155:1''
     = Inr ''0x59809ce1e0839690a83968f432dddb0497ea023232714855bb2bd0a25451370f'' \<and>
   ''0x'' @ padStart 64 CHR ''0'' (toString16
      (claimed_child_scalar MPC_ROOT_PRIVATE_KEY ''Issuer::1220abcdef'' ''m/44/60/0/0'' ''eip155:1''))
     = ''0x6627c86522c85056a657c24ce2c4652c6418fb7c879e79a2583509dedeefb3ac'' \<and>
   deriveChildPrivateKey MPC_ROOT_PRIVATE_KEY ''Issuer::1220abcdef'' ''m/44/60/0/0'' ''eip155:1''
     \<noteq> Inr (''0x'' @ padStart 64 CHR ''0'' (toString16
      (claimed_child_scalar MPC_ROOT_PRIVATE_KEY ''Issuer::1220abcdef'' ''m/44/60/0/0'' ''eip155:1'')))"
proof -
  have a: "deriveChildPrivateKey MPC_ROOT_PRIVATE_KEY ''Issuer::1220abcdef'' ''m/44/60/0/0'' ''eip155:1''
     = Inr ''0x59809ce1e0839690a83968f432dddb0497ea023232714855bb2bd0a25451370f''"
    using deriveChildPrivateKey_value [of MPC_ROOT_PRIVATE_KEY "''Issuer::1220abcdef''"
        "''m/44/60/0/0''" "''eip155:1''"] isHex_MPC_ROOT_PRIVATE_KEY
    by (simp add: MPC_ROOT_PRIVATE_KEY_scalar key_text_test)
  have b: "''0x'' @ padStart 64 CHR ''0'' (toString16
      (claimed_child_scalar MPC_ROOT_PRIVATE_KEY ''Issuer::1220abcdef'' ''m/44/60/0/0'' ''eip155:1''))
     = ''0x6627c86522c85056a657c24ce2c4652c6418fb7c879e79a2583509dedeefb3ac''"
    by (simp add: MPC_ROOT_PRIVATE_KEY_claimed_scalar key_text_claimed)
  show ?thesis
    unfolding a b by simp
qed

text \<open>
  Claim C2, amended. For every root private key given as \<open>0x\<close> and one or more
  hexadecimal digits and every derivation context, \<open>deriveChildPrivateKey\<close> returns
  \<open>(root + epsilon) mod n\<close> as \<open>0x\<close> and 64 digits, where \<open>epsilon\<close> is the Keccak-256 hash,
  read as a big-endian number, of the UTF-8 bytes of the text
  \<open>domainPrefix:chainContext:predecessorId:path\<close> (the four parts joined with colons) and
  \<open>n\<close> is the order of secp256k1. The result is a function of the four arguments alone.
\<close>

theorem deriveChildPrivateKey_formula:
  assumes "isHex rootPrivateKey" and "2 < length rootPrivateKey"
  shows "deriveChildPrivateKey rootPrivateKey predecessorId path caip2Id
     = Inr (''0x'' @ padStart 64 CHR ''0'' (toString16
         ((int (hex_value (drop 2 rootPrivateKey))
           + int (be_value (keccak_256 (stringToBytes
               (EPSILON_DERIVATION_PREFIX @ '':'' @ caip2Id @ '':'' @ predecessorId @ '':'' @ path)))))
          mod CURVE_ORDER)))
   \<and> ebind (deriveChildPrivateKey rootPrivateKey predecessorId path caip2Id) js_BigInt
     = Inr ((int (hex_value (drop 2 rootPrivateKey))
           + int (be_value (keccak_256 (stringToBytes
               (EPSILON_DERIVATION_PREFIX @ '':'' @ caip2Id @ '':'' @ predecessorId @ '':'' @ path)))))
          mod CURVE_ORDER)
   \<and> ebind (deriveChildPrivateKey rootPrivateKey predecessorId path caip2Id) (\<lambda>k. Inr (length k))
     = Inr 66"
proof -
  let ?k = "child_scalar_of rootPrivateKey predecessorId path caip2Id"
  have v: "deriveChildPrivateKey rootPrivateKey predecessorId path caip2Id
      = Inr (''0x'' @ padStart 64 CHR ''0'' (toString16 ?k))"
    using assms by (rule deriveChildPrivateKey_value)
  have r: "0 \<le> ?k" "?k < CURVE_ORDER" using child_scalar_of_range by simp_all
  have "js_BigInt (''0x'' @ padStart 64 CHR ''0'' (toString16 ?k)) = Inr ?k"
    using r by (rule js_BigInt_child_key)
  moreover have "length (''0x'' @ padStart 64 CHR ''0'' (toString16 ?k)) = 66"
    using r by (rule length_child_key)
  ultimately show ?thesis
    unfolding v by (simp add: child_scalar_of_def)
qed

theorem deriveChildPrivateKey_formula_witness:
  "isHex MPC_ROOT_PRIVATE_KEY \<and> 2 < length MPC_ROOT_PRIVATE_KEY \<and>
   ebind (deriveChildPrivateKey MPC_ROOT_PRIVATE_KEY ''Issuer::1220abcdef'' ''m/44/60/0/0'' ''eip155:1'')
      js_BigInt
     = Inr 0x59809ce1e0839690a83968f432dddb0497ea023232714855bb2bd0a25451370f"
proof -
  have h: "isHex MPC_ROOT_PRIVATE_KEY" "2 < length MPC_ROOT_PRIVATE_KEY"
    by (simp_all add: MPC_ROOT_PRIVATE_KEY_def isHex_def is_hex_digit_def charCodeToBase16_def)
  have "ebind (deriveChildPrivateKey MPC_ROOT_PRIVATE_KEY ''Issuer::1220abcdef'' ''m/44/60/0/0''
          ''eip155:1'') js_BigInt
        = Inr (child_scalar_of MPC_ROOT_PRIVATE_KEY ''Issuer::1220abcdef'' ''m/44/60/0/0'' ''eip155:1'')"
    unfolding child_scalar_of_def
    using deriveChildPrivateKey_formula [OF h, where caip2Id = "''eip155:1''"
        and predecessorId = "''Issuer::1220abcdef''" and path = "''m/44/60/0/0''"]
    by blast
  with h show ?thesis
    unfolding MPC_ROOT_PRIVATE_KEY_scalar by blast
qed

text \<open>
  Claim C8, as stated: when the derived scalar \<open>(root + epsilon) mod n\<close> is zero the
  derivation fails with an error. At the root key below the derived scalar is zero for the
  test context, and the code returns the all-zero key.
\<close>

theorem deriveChildPrivateKey_zero_counterexample:
  "child_scalar_of zero_child_root ''Issuer::1220abcdef'' ''m/44/60/0/0'' ''eip155:1'' = 0 \<and>
   deriveChildPrivateKey zero_child_root ''Issuer::1220abcdef'' ''m/44/60/0/0'' ''eip155:1''
     = Inr ''0x0000000000000000000000000000000000000000000000000000000000000000''"
  using deriveChildPrivateKey_value [of zero_child_root "''Issuer::1220abcdef''"
      "''m/44/60/0/0''" "''eip155:1''"] isHex_zero_child_root
  by (simp add: zero_child_root_scalar key_text_zero replicate_64_zero)

text \<open>
  Claim C8, amended. \<open>deriveChildPrivateKey\<close> raises an error exactly when \<open>BigInt\<close>
  rejects the text of the root key (it accepts an integer literal with white space around
  it, any \<open>StrWhiteSpaceChar\<close>), never on account of the derived scalar: for a root key
  given as \<open>0x\<close> and hexadecimal digits whose derived scalar \<open>(root + epsilon) mod n\<close> is
  zero, it returns the all-zero key, \<open>0x\<close> and 64 zeros.
\<close>

theorem deriveChildPrivateKey_zero_scalar:
  "((\<exists>e. deriveChildPrivateKey rootPrivateKey predecessorId path caip2Id = Inl e)
      \<longleftrightarrow> (\<exists>e. js_BigInt rootPrivateKey = Inl e)) \<and>
   (isHex rootPrivateKey \<and> 2 < length rootPrivateKey \<and>
    child_scalar_of rootPrivateKey predecessorId path caip2Id = 0 \<longrightarrow>
      deriveChildPrivateKey rootPrivateKey predecessorId path caip2Id
        = Inr (''0x'' @ replicate 64 CHR ''0''))"
proof (intro conjI impI)
  show "(\<exists>e. deriveChildPrivateKey rootPrivateKey predecessorId path caip2Id = Inl e)
      \<longleftrightarrow> (\<exists>e. js_BigInt rootPrivateKey = Inl e)"
    by (rule deriveChildPrivateKey_raises)
next
  assume h: "isHex rootPrivateKey \<and> 2 < length rootPrivateKey \<and>
    child_scalar_of rootPrivateKey predecessorId path caip2Id = 0"
  then have "deriveChildPrivateKey rootPrivateKey predecessorId path caip2Id
      = Inr (''0x'' @ padStart 64 CHR ''0'' (toString16 0))"
    using deriveChildPrivateKey_value [of rootPrivateKey predecessorId path caip2Id] by simp
  then show "deriveChildPrivateKey rootPrivateKey predecessorId path caip2Id
        = Inr (''0x'' @ replicate 64 CHR ''0'')"
    by (simp add: key_text_zero)
qed

theorem deriveChildPrivateKey_zero_scalar_witness:
  "isHex zero_child_root \<and> 2 < length zero_child_root \<and>
   child_scalar_of zero_child_root ''Issuer::1220abcdef'' ''m/44/60/0/0'' ''eip155:1'' = 0 \<and>
   deriveChildPrivateKey zero_child_root ''Issuer::1220abcdef'' ''m/44/60/0/0'' ''eip155:1''
     = Inr (''0x'' @ replicate 64 CHR ''0'') \<and>
   js_BigInt zero_child_root
     = Inr 0xb8b3b996b028375e69faed845dcdf2e934f9312d0d8325d516dae4630c90d821"
proof -
  have h: "isHex zero_child_root" "2 < length zero_child_root"
    by (simp_all add: zero_child_root_def isHex_def is_hex_digit_def charCodeToBase16_def)
  have z: "child_scalar_of zero_child_root ''Issuer::1220abcdef'' ''m/44/60/0/0'' ''eip155:1'' = 0"
    by (rule zero_child_root_scalar)
  have "js_BigInt zero_child_root = Inr (int (hex_value (drop 2 zero_child_root)))"
    using js_BigInt_0x [of "drop 2 zero_child_root"] h
    by (simp add: zero_child_root_def isHex_def)
  then have b: "js_BigInt zero_child_root
     = Inr 0xb8b3b996b028375e69faed845dcdf2e934f9312d0d8325d516dae4630c90d821"
    by (simp add: hex_value_zero_child_root)
  show ?thesis
    using h z b deriveChildPrivateKey_zero_scalar [where rootPrivateKey = zero_child_root
        and predecessorId = "''Issuer::1220abcdef''" and path = "''m/44/60/0/0''"
        and caip2Id = "''eip155:1''"]
    by simp
qed

section \<open>KeyDerivation: the address of a public key\<close>

text \<open>
  Claim C10. \<open>publicKeyToEthAddress\<close> normalises the marker of an uncompressed point: for
  every hexadecimal text \<open>k\<close> that does not itself start with \<open>04\<close>,
  \<open>publicKeyToEthAddress("04" ++ k) = publicKeyToEthAddress(k)\<close>; and the result is always
  \<open>0x\<close> followed by the last 20 bytes (40 digits) of the Keccak-256 hash of the coordinate
  bytes \<open>x \<parallel> y\<close> that follow the marker.
\<close>

theorem publicKeyToEthAddress_prefix:
  "(\<not> prefix ''04'' k \<longrightarrow> publicKeyToEthAddress (''04'' @ k) = publicKeyToEthAddress k) \<and>
   (list_all is_hex_digit k \<longrightarrow>
      publicKeyToEthAddress (''04'' @ k) = Inr (toHex (drop 12 (keccak_256 (bytes_of_hex k))))) \<and>
   (\<exists>a. length a = 20 \<and> publicKeyToEthAddress u = Inr (toHex a))"
proof (intro conjI impI)
  assume "\<not> prefix ''04'' k"
  then show "publicKeyToEthAddress (''04'' @ k) = publicKeyToEthAddress k"
    by (simp add: publicKeyToEthAddress_def)
next
  assume "list_all is_hex_digit k"
  then have "keccak256 (CHR ''0'' # CHR ''x'' # k) = Inr (toHex (keccak_256 (bytes_of_hex k)))"
    by (rule keccak256_hex_text)
  then show "publicKeyToEthAddress (''04'' @ k) = Inr (toHex (drop 12 (keccak_256 (bytes_of_hex k))))"
    using drop_hex_of_bytes [of 12 "keccak_256 (bytes_of_hex k)"]
    by (simp add: publicKeyToEthAddress_def toHex_def)
next
  define s where "s = (if prefix ''04'' u then drop 2 u else u)"
  obtain d where d: "length d = 32" "keccak256 (''0x'' @ s) = Inr (toHex d)"
    using keccak256_total by blast
  have "publicKeyToEthAddress u = Inr (''0x'' @ drop 26 (toHex d))"
    using d by (simp add: publicKeyToEthAddress_def s_def)
  also have "drop 26 (toHex d) = hex_of_bytes (drop 12 d)"
    using drop_hex_of_bytes [of 12 d] by (simp add: toHex_def)
  finally have "publicKeyToEthAddress u = Inr (toHex (drop 12 d))" by (simp add: toHex_def)
  moreover have "length (drop 12 d) = 20" using d by simp
  ultimately show "\<exists>a. length a = 20 \<and> publicKeyToEthAddress u = Inr (toHex a)" by blast
qed

theorem publicKeyToEthAddress_prefix_witness:
  "\<not> prefix ''04'' MPC_ROOT_PUBLIC_XY \<and> list_all is_hex_digit MPC_ROOT_PUBLIC_XY \<and>
   publicKeyToEthAddress (''04'' @ MPC_ROOT_PUBLIC_XY) = publicKeyToEthAddress MPC_ROOT_PUBLIC_XY \<and>
   publicKeyToEthAddress (''04'' @ MPC_ROOT_PUBLIC_XY)
     = Inr (toHex (drop 12 (keccak_256 (bytes_of_hex MPC_ROOT_PUBLIC_XY))))"
proof -
  have a: "\<not> prefix ''04'' MPC_ROOT_PUBLIC_XY"
    by (simp add: MPC_ROOT_PUBLIC_XY_def)
  have b: "list_all is_hex_digit MPC_ROOT_PUBLIC_XY"
    by (simp add: MPC_ROOT_PUBLIC_XY_def is_hex_digit_def charCodeToBase16_def)
  show ?thesis
    using a b publicKeyToEthAddress_prefix [where k = MPC_ROOT_PUBLIC_XY] by blast
qed

section \<open>LifecycleOrchestrator: command identifiers\<close>

text \<open>
  Claim C3, as stated: the identifier of the follow-up command is a deterministic function
  of the key fields of the triggering event, so two submissions triggered by the same
  event carry the same identifier. \<open>submitAndWait\<close> takes the identifier from
  \<open>crypto.randomUUID()\<close>. Handling the same outcome event twice submits
  \<open>ClaimEvmDeposit\<close> twice, under two different identifiers.
\<close>

theorem retried_command_id_counterexample:
  "map commandId (submissions (snd (handleEvmTxOutcomeSignature demo_env demo_outcome_params
       (snd (handleEvmTxOutcomeSignature demo_env demo_outcome_params world0)))))
     = [''3b241101-e2bb-4255-8caf-4136c566a962'', ''9f1c2d0a-5b7e-4c3d-8a21-0e6f4b9d7c15''] \<and>
   choices (submissions (snd (handleEvmTxOutcomeSignature demo_env demo_outcome_params
       (snd (handleEvmTxOutcomeSignature demo_env demo_outcome_params world0)))))
     = [[Some ''ClaimEvmDeposit''], [Some ''ClaimEvmDeposit'']]"
  by (simp add: demo_outcome_run world0_def demo_env_simps(1) choices_def)

text \<open>
  Claim C3, amended. The identifier of every command a handler submits is the value
  \<open>crypto.randomUUID()\<close> returns at the time of the submission: the commands a handler
  adds carry, in order, the next results of the generator, whatever the event. It is not
  derived from the event, and a retried submission gets a new identifier.
\<close>

theorem command_ids_are_random_uuids:
  "commandId (last (submissions (snd (submitAndWait E u a c w)))) = randomUUID E (uuid_count w) \<and>
   extends_with_ids E w (snd (handlePendingEvmDeposit L E p w)) \<and>
   extends_with_ids E w (snd (handleEcdsaSignature L E q w)) \<and>
   extends_with_ids E w (snd (handleEvmTxOutcomeSignature E r w))"
proof (intro conjI)
  show "commandId (last (submissions (snd (submitAndWait E u a c w)))) = randomUUID E (uuid_count w)"
    by (simp add: submitAndWait_def Let_def split: reply.splits)
  show "extends_with_ids E w (snd (handlePendingEvmDeposit L E p w))"
    using draws_ids_handlePendingEvmDeposit unfolding draws_ids_def by blast
  show "extends_with_ids E w (snd (handleEcdsaSignature L E q w))"
    using draws_ids_handleEcdsaSignature unfolding draws_ids_def by blast
  show "extends_with_ids E w (snd (handleEvmTxOutcomeSignature E r w))"
    using draws_ids_handleEvmTxOutcomeSignature unfolding draws_ids_def by blast
qed

theorem command_ids_are_random_uuids_witness:
  "map commandId (submissions (snd (handlePendingEvmDeposit demo_libs demo_env demo_deposit_params
       world0)))
     = [randomUUID demo_env 0, randomUUID demo_env 1]"
proof -
  from command_ids_are_random_uuids [where L = demo_libs and E = demo_env
      and p = demo_deposit_params and w = world0]
  have "extends_with_ids demo_env world0
      (snd (handlePendingEvmDeposit demo_libs demo_env demo_deposit_params world0))"
    by blast
  then obtain xs where xs:
    "submissions (snd (handlePendingEvmDeposit demo_libs demo_env demo_deposit_params world0))
       = submissions world0 @ xs"
    "uuid_count (snd (handlePendingEvmDeposit demo_libs demo_env demo_deposit_params world0))
       = uuid_count world0 + length xs"
    "map commandId xs = map (randomUUID demo_env) [uuid_count world0..<uuid_count world0 + length xs]"
    unfolding extends_with_ids_def by blast
  have "length (map commandId (submissions (snd (handlePendingEvmDeposit demo_libs demo_env
      demo_deposit_params world0)))) = 2"
    using demo_handlePendingEvmDeposit_run by simp
  then have n: "length xs = 2"
    using xs(1) by (simp add: world0_def)
  have "[0..<2] = [0, Suc 0]" by (simp add: upt_rec)
  with xs(1,3) n show ?thesis by (simp add: world0_def)
qed

section \<open>LifecycleOrchestrator: commands per event\<close>

text \<open>
  Claim C4, as stated: a handler submits exactly one follow-up command to the ledger for
  one event, and the handler of the Signer writes exactly one command for one anchor event.
  On the success path the handler of the Signer submits two, \<open>SignEvmTx\<close> and then
  \<open>ProvideEvmOutcomeSig\<close>; the handler of the Relayer for a signature event returns
  successfully having submitted none (it sends the transaction to the chain).
\<close>

theorem commands_per_event_counterexample:
  "fst (handlePendingEvmDeposit demo_libs demo_env demo_deposit_params world0) = Inr () \<and>
   choices (submissions (snd (handlePendingEvmDeposit demo_libs demo_env demo_deposit_params world0)))
     = [[Some ''SignEvmTx''], [Some ''ProvideEvmOutcomeSig'']] \<and>
   handleEcdsaSignature demo_libs demo_env demo_signature_params world0
     = (Inr (), world0\<lparr>rpc_calls := [SendRawTransaction ''http://localhost:8545'' ''0x02c0'']\<rparr>)"
  using demo_handlePendingEvmDeposit_run demo_signature_run by simp

text \<open>
  Claim C4, amended. For one anchor event the handler of the Signer submits two commands to
  the ledger, \<open>SignEvmTx\<close> and then \<open>ProvideEvmOutcomeSig\<close>: both when it returns, the
  first few of them when it throws, never another. The handler of the Relayer for a
  signature event submits no command to the ledger. The handler of the Relayer for an
  outcome event submits at most one command, \<open>ClaimEvmDeposit\<close>.
\<close>

theorem commands_per_event:
  "(\<exists>xs. submissions (snd (handlePendingEvmDeposit L E p w)) = submissions w @ xs \<and>
         prefix (choices xs) [[Some ''SignEvmTx''], [Some ''ProvideEvmOutcomeSig'']] \<and>
         (fst (handlePendingEvmDeposit L E p w) = Inr () \<longrightarrow>
            choices xs = [[Some ''SignEvmTx''], [Some ''ProvideEvmOutcomeSig'']])) \<and>
   submissions (snd (handleEcdsaSignature L E q w)) = submissions w \<and>
   (\<exists>ys. submissions (snd (handleEvmTxOutcomeSignature E r w)) = submissions w @ ys \<and>
         choices ys \<in> {[], [[Some ''ClaimEvmDeposit'']]})"
proof (intro conjI)
  from follows_handlePendingEvmDeposit [of L E p, unfolded follows_def, rule_format, of w]
  obtain xs where xs: "submissions (snd (handlePendingEvmDeposit L E p w)) = submissions w @ xs"
    "prefix (choices xs) [[Some ''SignEvmTx''], [Some ''ProvideEvmOutcomeSig'']]"
    "isl (fst (handlePendingEvmDeposit L E p w)) \<or>
       choices xs = [[Some ''SignEvmTx''], [Some ''ProvideEvmOutcomeSig'']]"
    by blast
  have "fst (handlePendingEvmDeposit L E p w) = Inr () \<longrightarrow>
            choices xs = [[Some ''SignEvmTx''], [Some ''ProvideEvmOutcomeSig'']]"
    using xs(3) by auto
  with xs(1,2)
  show "\<exists>xs. submissions (snd (handlePendingEvmDeposit L E p w)) = submissions w @ xs \<and>
         prefix (choices xs) [[Some ''SignEvmTx''], [Some ''ProvideEvmOutcomeSig'']] \<and>
         (fst (handlePendingEvmDeposit L E p w) = Inr () \<longrightarrow>
            choices xs = [[Some ''SignEvmTx''], [Some ''ProvideEvmOutcomeSig'']])"
    by blast
  show "submissions (snd (handleEcdsaSignature L E q w)) = submissions w"
    by (rule handleEcdsaSignature_no_command)
  show "\<exists>ys. submissions (snd (handleEvmTxOutcomeSignature E r w)) = submissions w @ ys \<and>
         choices ys \<in> {[], [[Some ''ClaimEvmDeposit'']]}"
    by (rule handleEvmTxOutcomeSignature_commands)
qed

theorem commands_per_event_witness:
  "fst (handlePendingEvmDeposit demo_libs demo_env demo_deposit_params world0) = Inr () \<and>
   (\<exists>xs. submissions (snd (handlePendingEvmDeposit demo_libs demo_env demo_deposit_params world0))
           = submissions world0 @ xs \<and>
         choices xs = [[Some ''SignEvmTx''], [Some ''ProvideEvmOutcomeSig'']])"
proof -
  have s: "fst (handlePendingEvmDeposit demo_libs demo_env demo_deposit_params world0) = Inr ()"
    using demo_handlePendingEvmDeposit_run by simp
  from commands_per_event [where L = demo_libs and E = demo_env and p = demo_deposit_params
      and w = world0 and q = demo_signature_params and r = demo_outcome_params]
  obtain xs where "submissions (snd (handlePendingEvmDeposit demo_libs demo_env demo_deposit_params
        world0)) = submissions world0 @ xs"
    "fst (handlePendingEvmDeposit demo_libs demo_env demo_deposit_params world0) = Inr () \<longrightarrow>
       choices xs = [[Some ''SignEvmTx''], [Some ''ProvideEvmOutcomeSig'']]"
    by blast
  with s show ?thesis by blast
qed

section \<open>LifecycleOrchestrator: an event whose anchor is gone\<close>

text \<open>
  Claim C7. When the lookup of the anchor by request identifier in the current state finds
  no matching contract, the handler returns without submitting a command and without
  raising an error: nothing it has done is visible outside. This holds of both handlers
  that look the anchor up, the one for signature events and the one for outcome events.
\<close>

theorem missing_anchor_is_skipped:
  "(js_prop (createArgument (sp_event q)) ''requestId'' = Inr rid \<and>
    active_contracts E (submissions w) [sp_issuerParty q] ''Erc20Vault:PendingEvmDeposit'' = Inr cs \<and>
    find_request rid cs = Inr None
    \<longrightarrow> handleEcdsaSignature L E q w = (Inr (), w)) \<and>
   (js_prop (createArgument (op_event r)) ''requestId'' = Inr rid' \<and>
    active_contracts E (submissions w) [op_issuerParty r] ''Erc20Vault:PendingEvmDeposit'' = Inr cs' \<and>
    find_request rid' cs' = Inr None
    \<longrightarrow> handleEvmTxOutcomeSignature E r w = (Inr (), w))"
  using handleEcdsaSignature_skip [of q rid E w cs L]
    handleEvmTxOutcomeSignature_skip [of r rid' E w cs']
  by blast

theorem missing_anchor_is_skipped_witness:
  "js_prop (createArgument (sp_event demo_signature_params)) ''requestId'' = Inr (JStr demo_requestId) \<and>
   js_prop (createArgument (op_event demo_outcome_params)) ''requestId'' = Inr (JStr demo_requestId) \<and>
   active_contracts other_env (submissions world0) [''Issuer::1220abcdef'']
      ''Erc20Vault:PendingEvmDeposit'' = Inr [other_anchor_event] \<and>
   find_request (JStr demo_requestId) [other_anchor_event] = Inr None \<and>
   handleEcdsaSignature demo_libs other_env demo_signature_params world0 = (Inr (), world0) \<and>
   handleEvmTxOutcomeSignature other_env demo_outcome_params world0 = (Inr (), world0)"
proof -
  have a: "js_prop (createArgument (sp_event demo_signature_params)) ''requestId''
      = Inr (JStr demo_requestId)"
    by (simp add: demo_signature_params_def signature_event_def js_prop_def)
  have b: "js_prop (createArgument (op_event demo_outcome_params)) ''requestId''
      = Inr (JStr demo_requestId)"
    by (simp add: demo_outcome_params_def outcome_event_def js_prop_def)
  have c: "active_contracts other_env (submissions world0) [''Issuer::1220abcdef'']
      ''Erc20Vault:PendingEvmDeposit'' = Inr [other_anchor_event]"
    by (simp add: other_env_def)
  have d: "find_request (JStr demo_requestId) [other_anchor_event] = Inr None"
    by (simp add: other_anchor_event_def js_prop_def demo_requestId_def)
  have p: "sp_issuerParty demo_signature_params = ''Issuer::1220abcdef''"
    "op_issuerParty demo_outcome_params = ''Issuer::1220abcdef''"
    by (simp_all add: demo_signature_params_def demo_outcome_params_def)
  from missing_anchor_is_skipped [where q = demo_signature_params and r = demo_outcome_params
      and E = other_env and w = world0 and L = demo_libs and rid = "JStr demo_requestId"
      and rid' = "JStr demo_requestId" and cs = "[other_anchor_event]"
      and cs' = "[other_anchor_event]"]
  have "handleEcdsaSignature demo_libs other_env demo_signature_params world0 = (Inr (), world0)"
    "handleEvmTxOutcomeSignature other_env demo_outcome_params world0 = (Inr (), world0)"
    using a b c d unfolding p by blast+
  with a b c d show ?thesis by blast
qed

section \<open>The ledger client: allocating a party twice\<close>

text \<open>
  Claim C9. \<open>allocateParty\<close> is safe to repeat: when the allocation request fails with an
  error that mentions \<open>Party already exists\<close> and the listing of parties contains a party
  whose identifier starts with the hint followed by \<open>::\<close>, it returns that existing
  identifier (the first such in the listing) instead of throwing. So when a first call has
  allocated a party and the second call is answered in this way with the same party first
  in the listing, both calls return the same party.
\<close>

theorem allocateParty_retry_safe:
  "(allocate_reply E (party_calls w) hint = ErrorBody msg \<and>
    str_includes msg ''Party already exists'' \<and>
    parties_reply E (Suc (party_calls w)) = Data (Some ps) \<and>
    (\<exists>p\<in>set ps. party_with_hint hint p)
    \<longrightarrow> (\<exists>party. fst (allocateParty E hint w) = Inr party \<and> prefix (hint @ ''::'') party \<and>
                 find (party_with_hint hint) ps = Some (Some party))) \<and>
   (allocate_reply E (party_calls w) hint = Data (Some party') \<and>
    allocate_reply E (Suc (party_calls w)) hint = ErrorBody msg' \<and>
    str_includes msg' ''Party already exists'' \<and>
    parties_reply E (Suc (Suc (party_calls w))) = Data (Some ps') \<and>
    find (party_with_hint hint) ps' = Some (Some party')
    \<longrightarrow> fst (allocateParty E hint w) = Inr party' \<and>
        fst (allocateParty E hint (snd (allocateParty E hint w))) = Inr party')"
proof (intro conjI impI)
  assume "allocate_reply E (party_calls w) hint = ErrorBody msg \<and>
    str_includes msg ''Party already exists'' \<and>
    parties_reply E (Suc (party_calls w)) = Data (Some ps) \<and>
    (\<exists>p\<in>set ps. party_with_hint hint p)"
  then show "\<exists>party. fst (allocateParty E hint w) = Inr party \<and> prefix (hint @ ''::'') party \<and>
                 find (party_with_hint hint) ps = Some (Some party)"
    using allocateParty_existing [of E w hint msg ps] by blast
next
  assume h: "allocate_reply E (party_calls w) hint = Data (Some party') \<and>
    allocate_reply E (Suc (party_calls w)) hint = ErrorBody msg' \<and>
    str_includes msg' ''Party already exists'' \<and>
    parties_reply E (Suc (Suc (party_calls w))) = Data (Some ps') \<and>
    find (party_with_hint hint) ps' = Some (Some party')"
  then have first: "allocateParty E hint w = (Inr party', w\<lparr>party_calls := Suc (party_calls w)\<rparr>)"
    by (simp add: allocateParty_def Let_def)
  then show "fst (allocateParty E hint w) = Inr party'" by simp
  let ?w1 = "w\<lparr>party_calls := Suc (party_calls w)\<rparr>"
  have "party_with_hint hint (Some party')" using h find_Some_prefix by fastforce
  moreover have "Some party' \<in> set ps'" using h find_Some_prefix by fastforce
  ultimately have "\<exists>p\<in>set ps'. party_with_hint hint p" by blast
  then obtain party where "fst (allocateParty E hint ?w1) = Inr party"
    "find (party_with_hint hint) ps' = Some (Some party)"
    using allocateParty_existing [of E ?w1 hint msg' ps'] h by auto
  then have "fst (allocateParty E hint ?w1) = Inr party'" using h by simp
  then show "fst (allocateParty E hint (snd (allocateParty E hint w))) = Inr party'"
    by (simp add: first)
qed

theorem allocateParty_retry_safe_witness:
  "allocate_reply demo_env (party_calls world0) ''Issuer'' = Data (Some ''Issuer::1220abcdef'') \<and>
   allocate_reply demo_env (Suc (party_calls world0)) ''Issuer''
     = ErrorBody ''{code: INVALID_ARGUMENT, cause: Party already exists}'' \<and>
   str_includes ''{code: INVALID_ARGUMENT, cause: Party already exists}'' ''Party already exists'' \<and>
   parties_reply demo_env (Suc (Suc (party_calls world0)))
     = Data (Some [Some ''Depositor::1220ffff'', None, Some ''Issuer::1220abcdef'']) \<and>
   find (party_with_hint ''Issuer'') [Some ''Depositor::1220ffff'', None, Some ''Issuer::1220abcdef'']
     = Some (Some ''Issuer::1220abcdef'') \<and>
   fst (allocateParty demo_env ''Issuer'' world0) = Inr ''Issuer::1220abcdef'' \<and>
   fst (allocateParty demo_env ''Issuer'' (snd (allocateParty demo_env ''Issuer'' world0)))
     = Inr ''Issuer::1220abcdef''"
proof -
  have a: "allocate_reply demo_env (party_calls world0) ''Issuer'' = Data (Some ''Issuer::1220abcdef'')"
    by (simp add: demo_env_def world0_def)
  have b: "allocate_reply demo_env (Suc (party_calls world0)) ''Issuer''
     = ErrorBody ''{code: INVALID_ARGUMENT, cause: Party already exists}''"
    by (simp add: demo_env_def world0_def)
  have c: "str_includes ''{code: INVALID_ARGUMENT, cause: Party already exists}'' ''Party already exists''"
    by (simp add: str_includes_def)
  have d: "parties_reply demo_env (Suc (Suc (party_calls world0)))
     = Data (Some [Some ''Depositor::1220ffff'', None, Some ''Issuer::1220abcdef''])"
    by (simp add: demo_env_def)
  have e: "find (party_with_hint ''Issuer'') [Some ''Depositor::1220ffff'', None, Some ''Issuer::1220abcdef'']
     = Some (Some ''Issuer::1220abcdef'')"
    by (simp add: party_with_hint_def)
  from allocateParty_retry_safe [where E = demo_env and w = world0 and hint = "''Issuer''"
      and party' = "''Issuer::1220abcdef''"
      and msg' = "''{code: INVALID_ARGUMENT, cause: Party already exists}''"
      and ps' = "[Some ''Depositor::1220ffff'', None, Some ''Issuer::1220abcdef'']"]
  have "fst (allocateParty demo_env ''Issuer'' world0) = Inr ''Issuer::1220abcdef'' \<and>
   fst (allocateParty demo_env ''Issuer'' (snd (allocateParty demo_env ''Issuer'' world0)))
     = Inr ''Issuer::1220abcdef''"
    using a b c d e by blast
  with a b c d e show ?thesis by blast
qed

section \<open>EventStreamClient: reconnection and the polling fallback\<close>



section \<open>EventStreamClient: closing\<close>

text \<open>
  Claim C6. \<open>close()\<close> is idempotent, clears the timer of the reconnection and closes the
  socket (lemma \<open>close_tears_down\<close>), and after it no update reaches the handler of the
  caller through the reconnection or the polling loop (lemma \<open>run_closed_silent\<close>). The
  handlers of \<open>close\<close> and \<open>error\<close> and the polling loop return when \<open>closed\<close> is set; the
  handler of \<open>message\<close> does not look at it. The socket goes on emitting \<open>message\<close> until the
  closing handshake ends, so an update that arrives on the closing socket is handed to the
  handler of the caller after \<open>close()\<close> has returned.
\<close>

theorem close_then_message_reaches_handler:
  "closed (run js_to_string demo_stream_opts (createLedgerStream demo_stream_opts) [WsOpen 0, Close]) \<and>
   trace (run js_to_string demo_stream_opts (createLedgerStream demo_stream_opts)
            [WsOpen 0, Close, WsMessage 0 (Inr checkpoint)])
     = [NewWebSocket ''ws://localhost:7575/v2/updates'', WsSend 0 (JNum 42) [''Issuer::1220abcdef''],
        WsClose 0, Update checkpoint]"
proof -
  have "js_in ''error'' checkpoint = Inr False" by (simp add: js_in_def checkpoint_def)
  then show ?thesis
    by (simp add: demo_stream_created run_def on_open_def close_def on_message_def
        handleUpdate_def extractOffset_checkpoint emit_def demo_stream_opts_simps Let_def)
qed

end
